theory Spec2Isabelle
  imports Main "HOL-Library.AList"
begin

section \<open>JavaScript values\<close>

text \<open>
  The values a parsed JSON body, a query string, an environment variable or a row of the
  remote store can hold. Numbers are the integers (JSON fractions are not represented).
  A property that an object does not have reads as \<open>JUndefined\<close>.
\<close>

datatype jsval =
    JUndefined
  | JNull
  | JBool bool
  | JNum int
  | JStr string
  | JArr "jsval list"
  | JObj "(string \<times> jsval) list"

type_synonym obj = "(string \<times> jsval) list"

text \<open>\<open>!x\<close> is \<open>\<not> truthy x\<close>: undefined, null, false, 0 and the empty string are falsy.\<close>

fun truthy :: "jsval \<Rightarrow> bool" where
  "truthy JUndefined = False"
| "truthy JNull = False"
| "truthy (JBool b) = b"
| "truthy (JNum n) = (n \<noteq> 0)"
| "truthy (JStr s) = (s \<noteq> [])"
| "truthy (JArr xs) = True"
| "truthy (JObj kvs) = True"

text \<open>
  \<open>a === b\<close>. Arrays and objects compare by reference; the left operand is always a
  freshly parsed request value here, so it is identical to nothing else.
\<close>

definition strict_eq :: "jsval \<Rightarrow> jsval \<Rightarrow> bool" where
  "strict_eq a b = (case a of JArr xs \<Rightarrow> False | JObj kvs \<Rightarrow> False | _ \<Rightarrow> a = b)"

text \<open>\<open>a || b\<close>\<close>

definition js_or :: "jsval \<Rightarrow> jsval \<Rightarrow> jsval" where
  "js_or a b = (if truthy a then a else b)"

text \<open>\<open>o.k\<close> on a parsed object, and a destructuring default \<open>{ k = d } = o\<close>, which
  applies to undefined only (not to null).\<close>

definition js_prop :: "(string \<rightharpoonup> jsval) \<Rightarrow> string \<Rightarrow> jsval" where
  "js_prop m k = (case m k of None \<Rightarrow> JUndefined | Some v \<Rightarrow> v)"

definition with_default :: "jsval \<Rightarrow> jsval \<Rightarrow> jsval" where
  "with_default v d = (if v = JUndefined then d else v)"

definition obj_field :: "obj \<Rightarrow> string \<Rightarrow> jsval" where
  "obj_field r k = (case map_of r k of None \<Rightarrow> JUndefined | Some v \<Rightarrow> v)"

text \<open>Decimal digits of a natural number, and the string a template literal makes of a
  value (\<open>`${v}`\<close>).\<close>

definition digit_char :: "nat \<Rightarrow> char" where
  "digit_char d = ''0123456789'' ! d"

fun show_nat :: "nat \<Rightarrow> string" where
  "show_nat n = (if n < 10 then [digit_char n] else show_nat (n div 10) @ [digit_char (n mod 10)])"

declare show_nat.simps [simp del]

definition show_int :: "int \<Rightarrow> string" where
  "show_int i = (if i < 0 then CHR ''-'' # show_nat (nat (- i)) else show_nat (nat i))"

fun join_comma :: "string list \<Rightarrow> string" where
  "join_comma [] = []"
| "join_comma [s] = s"
| "join_comma (s # t # ss) = s @ '','' @ join_comma (t # ss)"

fun to_str :: "jsval \<Rightarrow> string" where
  "to_str JUndefined = ''undefined''"
| "to_str JNull = ''null''"
| "to_str (JBool b) = (if b then ''true'' else ''false'')"
| "to_str (JNum n) = show_int n"
| "to_str (JStr s) = s"
| "to_str (JArr xs) =
     join_comma (map (\<lambda>x. case x of JUndefined \<Rightarrow> [] | JNull \<Rightarrow> [] | _ \<Rightarrow> to_str x) xs)"
| "to_str (JObj kvs) = ''[object Object]''"

section \<open>Configuration and startup\<close>

text \<open>
  The module-level constants a server reads from \<open>process.env\<close>. A constant that a
  revision does not declare stays \<open>JUndefined\<close> in its configuration.
\<close>

record config =
  SUPABASE_URL :: jsval
  SUPABASE_KEY :: jsval
  FRONTEND_URL :: jsval
  ADMIN_PIN :: jsval
  ADMIN_SECRET :: jsval
  PORT :: jsval

definition getenv :: "(string \<rightharpoonup> string) \<Rightarrow> string \<Rightarrow> jsval" where
  "getenv penv k = (case penv k of None \<Rightarrow> JUndefined | Some s \<Rightarrow> JStr s)"









section \<open>The remote store\<close>

text \<open>
  The record store and the blob store are a managed remote service; the servers reach it
  through the client's query builder. The model keeps what the handlers can observe:
  the rows of each table, the objects of each bucket, and the sequence of remote calls.
  A timestamp is a number of milliseconds since the epoch.
\<close>

datatype ec_level = EcM | EcH

text \<open>The content of a stored object: uploaded bytes, or the PNG that the QR encoder
  makes of a text at an error-correction level (the encoder itself is opaque).\<close>

datatype blob = FileBytes string | QrPng ec_level string

datatype filter = Eq string jsval | Gte string jsval | Lte string jsval

datatype call =
    DbInsert string obj
  | DbSelect string "string list" "filter list" nat
  | DbUpdate string obj "filter list"
  | StUpload string string blob string

record stored =
  content :: blob
  contentType :: string

record store =
  tables :: "string \<Rightarrow> obj list"
  objects :: "string \<times> string \<Rightarrow> stored option"
  calls :: "call list"

text \<open>
  What the handler cannot decide: the clock; the times that \<open>setHours(0, 0, 0, 0)\<close> and
  \<open>setHours(23, 59, 59, 999)\<close> make of a time in the server's time zone (with its
  daylight-saving rules, whatever they are); the identifier the store gives a new row
  (a string: the store is taken to key its rows by text identifiers such as UUIDs); the
  error (if any) the store answers a call with; the error (if any) the QR encoder
  throws for a text; what an HTTP GET of a URL answers (\<open>Inl\<close> the message when the
  fetch fails, \<open>Inr\<close> the bytes of the body); the message of the \<open>TypeError\<close> that
  destructuring or reading a property of \<open>undefined\<close> throws; the public URL the client
  computes for a path; and the local rendering of the time.
\<close>

record world =
  now :: int
  local_midnight :: "int \<Rightarrow> int"
  local_day_end :: "int \<Rightarrow> int"
  fresh_id :: string
  fault :: "call \<Rightarrow> string option"
  qr_fault :: "ec_level \<Rightarrow> string \<Rightarrow> string option"
  http_get :: "string \<Rightarrow> string + string"
  type_error :: string
  publicUrl :: "string \<Rightarrow> string \<Rightarrow> jsval"
  localeTime :: string

fun holds :: "filter \<Rightarrow> obj \<Rightarrow> bool" where
  "holds (Eq c v) r = (map_of r c = Some v)"
| "holds (Gte c v) r =
     (case (map_of r c, v) of (Some (JNum a), JNum b) \<Rightarrow> b \<le> a | _ \<Rightarrow> False)"
| "holds (Lte c v) r =
     (case (map_of r c, v) of (Some (JNum a), JNum b) \<Rightarrow> a \<le> b | _ \<Rightarrow> False)"

definition matches :: "filter list \<Rightarrow> obj \<Rightarrow> bool" where
  "matches fs r = list_all (\<lambda>f. holds f r) fs"

definition project :: "string list \<Rightarrow> obj \<Rightarrow> obj" where
  "project cols r = (if cols = [''*''] then r else filter (\<lambda>kv. fst kv \<in> set cols) r)"

definition logged :: "call \<Rightarrow> store \<Rightarrow> store" where
  "logged c st = st\<lparr> calls := calls st @ [c] \<rparr>"

text \<open>\<open>from(t).insert([o]).select().single()\<close>: the store adds the identifier and the
  creation time and answers with the new row, or with an error.\<close>

definition db_insert :: "world \<Rightarrow> string \<Rightarrow> obj \<Rightarrow> store \<Rightarrow> (string + obj) \<times> store" where
  "db_insert w t ob st =
    (let c = DbInsert t ob in
     case fault w c of
       Some msg \<Rightarrow> (Inl msg, logged c st)
     | None \<Rightarrow>
        (let r = (''id'', JStr (fresh_id w)) # (''created_at'', JNum (now w)) # ob
         in (Inr r, logged c (st\<lparr> tables := (tables st)(t := tables st t @ [r]) \<rparr>))))"

text \<open>\<open>from(t).select(cols).eq(..).gte(..).limit(n)\<close>\<close>

definition db_select ::
  "world \<Rightarrow> string \<Rightarrow> string list \<Rightarrow> filter list \<Rightarrow> nat \<Rightarrow> store \<Rightarrow> (string + obj list) \<times> store" where
  "db_select w t cols fs n st =
    (let c = DbSelect t cols fs n in
     case fault w c of
       Some msg \<Rightarrow> (Inl msg, logged c st)
     | None \<Rightarrow> (Inr (take n (map (project cols) (filter (matches fs) (tables st t)))), logged c st))"

text \<open>\<open>from(t).update(o).eq(..)\<close>; no handler looks at its answer.\<close>

definition db_update :: "world \<Rightarrow> string \<Rightarrow> obj \<Rightarrow> filter list \<Rightarrow> store \<Rightarrow> store" where
  "db_update w t upd fs st =
    (let c = DbUpdate t upd fs in
     case fault w c of
       Some msg \<Rightarrow> logged c st
     | None \<Rightarrow>
        logged c (st\<lparr> tables := (tables st)(t :=
          map (\<lambda>r. if matches fs r then AList.updates (map fst upd) (map snd upd) r else r) (tables st t)) \<rparr>))"

text \<open>\<open>storage.from(b).upload(path, data, {contentType, upsert: true})\<close>: the answer is
  the error, if any.\<close>

definition storage_upload ::
  "world \<Rightarrow> string \<Rightarrow> string \<Rightarrow> blob \<Rightarrow> string \<Rightarrow> store \<Rightarrow> string option \<times> store" where
  "storage_upload w b path data ctype st =
    (let c = StUpload b path data ctype in
     case fault w c of
       Some msg \<Rightarrow> (Some msg, logged c st)
     | None \<Rightarrow> (None, logged c (st\<lparr> objects := (objects st)((b, path) \<mapsto>
                   \<lparr> content = data, contentType = ctype \<rparr>) \<rparr>)))"

definition getFileUrl :: "world \<Rightarrow> string \<Rightarrow> string \<Rightarrow> jsval" where
  "getFileUrl w bucket path = js_or (publicUrl w bucket path) JNull"

definition PHOTO_BUCKET :: string where
  "PHOTO_BUCKET = ''student-photos''"

definition QR_BUCKET :: string where
  "QR_BUCKET = ''qr-codes''"

section \<open>Requests and responses\<close>

record upfile =
  buffer :: string
  mimetype :: string

text \<open>
  A request as a handler sees it after the framework's parsers. \<open>body\<close> is \<open>None\<close> when
  \<open>req.body\<close> is undefined: no parser filled it (a request without a body, or with a
  body that is neither JSON nor multipart, under a framework version that leaves
  \<open>req.body\<close> unset then; the sources pin no version). Otherwise it is the parsed object.
  The query is always an object. \<open>req_file\<close> is the uploaded photo when there is one
  (\<open>req.file\<close> with its \<open>buffer\<close>; \<open>req.files.photo\<close> with its \<open>data\<close> in the CommonJS
  server).
\<close>

record request =
  body :: "(string \<rightharpoonup> jsval) option"
  query :: "string \<rightharpoonup> jsval"
  headers :: "string \<rightharpoonup> string"
  req_file :: "upfile option"

text \<open>The pages the scanner endpoint sends as text: the form and the confirmation
  interpolate the student identifier as it came. \<open>Uncaught\<close> is the page of the
  framework's own error handler, for an exception no handler caught.\<close>

datatype page =
    MissingStudentId
  | ConfirmForm jsval
  | AlreadyTakenToday
  | AttendanceRecorded jsval string
  | Plain string
  | Uncaught string

datatype payload = Json jsval | Html page

record response =
  status :: nat
  payload :: payload

definition res_json :: "nat \<Rightarrow> obj \<Rightarrow> response" where
  "res_json code ob = \<lparr> status = code, payload = Json (JObj ob) \<rparr>"

definition res_send :: "nat \<Rightarrow> page \<Rightarrow> response" where
  "res_send code p = \<lparr> status = code, payload = Html p \<rparr>"

definition fail_json :: "nat \<Rightarrow> string \<Rightarrow> response" where
  "fail_json code msg = res_json code [(''ok'', JBool False), (''error'', JStr msg)]"

text \<open>The calendar day in UTC (\<open>new Date().toISOString().slice(0, 10)\<close>), kept as the
  time of its first millisecond, which is how the store reads a date in a comparison
  with a timestamp; and the bounds of the local day, \<open>new Date()\<close> after
  \<open>setHours(0, 0, 0, 0)\<close> and after \<open>setHours(23, 59, 59, 999)\<close>, as the server's time
  zone gives them.\<close>

definition day_ms :: int where
  "day_ms = 86400000"

definition today_utc :: "world \<Rightarrow> int" where
  "today_utc w = (now w div day_ms) * day_ms"

definition startOfDay :: "world \<Rightarrow> int" where
  "startOfDay w = local_midnight w (now w)"

definition endOfDay :: "world \<Rightarrow> int" where
  "endOfDay w = local_day_end w (now w)"

text \<open>What a \<open>catch\<close> block that answers \<open>err.message || err\<close> sends for an error with
  the message \<open>msg\<close>.\<close>

definition caught_json :: "string \<Rightarrow> response" where
  "caught_json msg =
    res_json 500 [(''ok'', JBool False),
                  (''error'', js_or (JStr msg) (JObj [(''message'', JStr msg)]))]"

section \<open>Recording attendance\<close>

text \<open>
  Each handler is a function of the server's configuration, the world, the request and
  the store, and returns the response with the store it leaves. A handler destructures
  \<open>req.body\<close> first, inside its \<open>try\<close> block: when the body is undefined that throws and
  the \<open>catch\<close> block answers 500. The store's client reports a failure in its answer and
  does not throw. One reading of the clock serves a whole request. The read-only
  endpoints (\<open>/api/health\<close>, \<open>GET /api/student\<close>) are not part of the model.
\<close>

subsection \<open>src/index.js\<close>

text \<open>\<open>POST /api/attendance\<close>: the identifier is checked first, then the PIN; the record
  is inserted without a look at the day's records.\<close>

definition post_api_attendance_index ::
  "config \<Rightarrow> world \<Rightarrow> request \<Rightarrow> store \<Rightarrow> response \<times> store" where
  "post_api_attendance_index cfg w req st =
    (case body req of
       None \<Rightarrow> (fail_json 500 (type_error w), st)
     | Some b \<Rightarrow>
        (let student_id = js_prop b ''student_id'';
             lecturer = with_default (js_prop b ''lecturer'') (JStr ''Unknown'');
             course = with_default (js_prop b ''course'') (JStr ''Unknown'');
             admin_pin = js_prop b ''admin_pin''
         in if \<not> truthy student_id then (fail_json 400 ''Missing student_id'', st)
            else if \<not> truthy (ADMIN_PIN cfg) \<or> \<not> truthy admin_pin \<or> \<not> strict_eq admin_pin (ADMIN_PIN cfg)
              then (fail_json 403 ''Forbidden: invalid admin pin'', st)
            else
              (case db_insert w ''attendance''
                      [(''student_id'', student_id), (''lecturer'', lecturer), (''course'', course)] st of
                 (Inl msg, st1) \<Rightarrow> (fail_json 500 msg, st1)
               | (Inr data, st1) \<Rightarrow>
                   (res_json 200 [(''ok'', JBool True), (''attendance'', JObj data)], st1))))"

text \<open>\<open>GET /api/attendance/mark\<close>: without the right PIN the form comes back; with it
  the record is inserted for the lecturer \<open>external-scanner\<close>.\<close>

definition get_api_attendance_mark_index ::
  "config \<Rightarrow> world \<Rightarrow> request \<Rightarrow> store \<Rightarrow> response \<times> store" where
  "get_api_attendance_mark_index cfg w req st =
    (let student_id = js_prop (query req) ''student_id'';
         pin = js_prop (query req) ''pin''
     in if \<not> truthy student_id then (res_send 400 MissingStudentId, st)
        else if \<not> truthy pin \<or> \<not> strict_eq pin (ADMIN_PIN cfg)
          then (res_send 200 (ConfirmForm student_id), st)
        else
          (case db_insert w ''attendance''
                  [(''student_id'', student_id), (''lecturer'', JStr ''external-scanner''),
                   (''course'', JStr ''Unknown'')] st of
             (Inl msg, st1) \<Rightarrow> (res_send 500 (Plain ''Failed to record attendance''), st1)
           | (Inr data, st1) \<Rightarrow>
               (res_send 200 (AttendanceRecorded student_id (localeTime w)), st1)))"

subsection \<open>part_001, the ES-module server (once-per-day logic)\<close>

definition post_api_attendance_part001 ::
  "config \<Rightarrow> world \<Rightarrow> request \<Rightarrow> store \<Rightarrow> response \<times> store" where
  "post_api_attendance_part001 cfg w req st =
    (case body req of
       None \<Rightarrow> (fail_json 500 (type_error w), st)
     | Some b \<Rightarrow>
        (let student_id = js_prop b ''student_id'';
             lecturer = with_default (js_prop b ''lecturer'') (JStr ''Unknown'');
             course = with_default (js_prop b ''course'') (JStr ''Unknown'');
             admin_pin = js_prop b ''admin_pin''
         in if \<not> truthy student_id then (fail_json 400 ''Missing student_id'', st)
            else if \<not> truthy (ADMIN_PIN cfg) \<or> \<not> truthy admin_pin \<or> \<not> strict_eq admin_pin (ADMIN_PIN cfg)
              then (fail_json 403 ''Forbidden: invalid admin pin'', st)
            else
              (let today = JNum (today_utc w) in
               case db_select w ''attendance'' [''*'']
                      [Eq ''student_id'' student_id, Gte ''created_at'' today] 1 st of
                 (Inl checkErr, st1) \<Rightarrow> (fail_json 500 checkErr, st1)
               | (Inr existing, st1) \<Rightarrow>
                   if length existing > 0 then
                     (res_json 200 [(''ok'', JBool False), (''error'', JStr ''Attendance already taken today'')], st1)
                   else
                     (case db_insert w ''attendance''
                             [(''student_id'', student_id), (''lecturer'', lecturer), (''course'', course)] st1 of
                        (Inl msg, st2) \<Rightarrow> (fail_json 500 msg, st2)
                      | (Inr data, st2) \<Rightarrow>
                          (res_json 200 [(''ok'', JBool True), (''attendance'', JObj data)], st2)))))"

definition get_api_attendance_mark_part001 ::
  "config \<Rightarrow> world \<Rightarrow> request \<Rightarrow> store \<Rightarrow> response \<times> store" where
  "get_api_attendance_mark_part001 cfg w req st =
    (let student_id = js_prop (query req) ''student_id'';
         pin = js_prop (query req) ''pin''
     in if \<not> truthy student_id then (res_send 400 MissingStudentId, st)
        else if \<not> truthy pin \<or> \<not> strict_eq pin (ADMIN_PIN cfg)
          then (res_send 200 (ConfirmForm student_id), st)
        else
          (let today = JNum (today_utc w) in
           case db_select w ''attendance'' [''*'']
                  [Eq ''student_id'' student_id, Gte ''created_at'' today] 1 st of
             (Inl checkErr, st1) \<Rightarrow> (res_send 500 (Plain ''Error checking attendance''), st1)
           | (Inr existing, st1) \<Rightarrow>
               if length existing > 0 then (res_send 200 AlreadyTakenToday, st1)
               else
                 (case db_insert w ''attendance''
                         [(''student_id'', student_id), (''lecturer'', JStr ''external-scanner''),
                          (''course'', JStr ''Unknown'')] st1 of
                    (Inl msg, st2) \<Rightarrow> (res_send 500 (Plain ''Failed to record attendance''), st2)
                  | (Inr data, st2) \<Rightarrow>
                      (res_send 200 (AttendanceRecorded student_id (localeTime w)), st2))))"

subsection \<open>part_000 (lecturer and course required, one record per course and day)\<close>

definition post_api_attendance_part000 ::
  "config \<Rightarrow> world \<Rightarrow> request \<Rightarrow> store \<Rightarrow> response \<times> store" where
  "post_api_attendance_part000 cfg w req st =
    (case body req of
       None \<Rightarrow> (fail_json 500 ''Server error'', st)
     | Some b \<Rightarrow>
        (let student_id = js_prop b ''student_id'';
             lecturer = js_prop b ''lecturer'';
             course = js_prop b ''course'';
             admin_pin = js_prop b ''admin_pin''
         in if \<not> truthy student_id \<or> \<not> truthy lecturer \<or> \<not> truthy course
              then (fail_json 400 ''Missing required fields'', st)
            else if \<not> strict_eq admin_pin (ADMIN_PIN cfg)
              then (fail_json 403 ''Invalid admin PIN'', st)
            else
              (case db_select w ''attendance'' [''id'']
                      [Eq ''student_id'' student_id, Eq ''course'' course, Eq ''lecturer'' lecturer,
                       Gte ''created_at'' (JNum (startOfDay w)), Lte ''created_at'' (JNum (endOfDay w))] 1 st of
                 (Inl checkErr, st1) \<Rightarrow> (fail_json 500 checkErr, st1)
               | (Inr existing, st1) \<Rightarrow>
                   if length existing > 0 then
                     (res_json 200 [(''ok'', JBool False),
                                    (''error'', JStr ''Attendance already taken for this course today'')], st1)
                   else
                     (case db_insert w ''attendance''
                             [(''student_id'', student_id), (''lecturer'', lecturer), (''course'', course)] st1 of
                        (Inl msg, st2) \<Rightarrow> (fail_json 500 msg, st2)
                      | (Inr data, st2) \<Rightarrow>
                          (res_json 200 [(''ok'', JBool True), (''attendance'', JObj data)], st2)))))"

subsection \<open>part_002 (no credential, no look at the day's records)\<close>

definition post_api_attendance_part002 ::
  "config \<Rightarrow> world \<Rightarrow> request \<Rightarrow> store \<Rightarrow> response \<times> store" where
  "post_api_attendance_part002 cfg w req st =
    (case body req of
       None \<Rightarrow> (fail_json 500 (type_error w), st)
     | Some b \<Rightarrow>
        (let student_id = js_prop b ''student_id'';
             lecturer = with_default (js_prop b ''lecturer'') (JStr ''Unknown'');
             course = with_default (js_prop b ''course'') (JStr ''Unknown'')
         in if \<not> truthy student_id then (fail_json 400 ''Missing student_id'', st)
            else
              (case db_insert w ''attendance''
                      [(''student_id'', student_id), (''lecturer'', lecturer), (''course'', course)] st of
                 (Inl msg, st1) \<Rightarrow> (fail_json 500 msg, st1)
               | (Inr data, st1) \<Rightarrow>
                   (res_json 200 [(''ok'', JBool True), (''attendance'', JObj data)], st1))))"

subsection \<open>part_001, the CommonJS server\<close>

text \<open>
  The middleware \<open>requireAdmin\<close> answers 401 itself, or lets the request through
  (\<open>None\<close>). A header reads like an environment variable: a string, or undefined. The
  secret is \<open>req.headers['x-admin-secret'] || req.body.admin_secret || ''\<close>: the body is
  read only when the header is falsy, and reading it when it is undefined throws
  outside any \<open>try\<close>, which the framework's error handler answers with 500.
\<close>

definition requireAdmin :: "config \<Rightarrow> world \<Rightarrow> request \<Rightarrow> response option" where
  "requireAdmin cfg w req =
    (let header = getenv (headers req) ''x-admin-secret'' in
     if \<not> truthy header \<and> body req = None then Some (res_send 500 (Uncaught (type_error w)))
     else
      (let secret = js_or (js_or header
                      (case body req of None \<Rightarrow> JUndefined | Some b \<Rightarrow> js_prop b ''admin_secret''))
                      (JStr [])
       in if \<not> strict_eq secret (ADMIN_SECRET cfg) then Some (fail_json 401 ''Unauthorized'')
          else None))"

text \<open>The handler behind it. The answer of the look-up is read for its rows only, so a
  failed look-up counts as no record; a failed insert is thrown and caught.\<close>

definition post_api_attendance_part001_cjs ::
  "config \<Rightarrow> world \<Rightarrow> request \<Rightarrow> store \<Rightarrow> response \<times> store" where
  "post_api_attendance_part001_cjs cfg w req st =
    (case requireAdmin cfg w req of
       Some r \<Rightarrow> (r, st)
     | None \<Rightarrow>
        (case body req of
           None \<Rightarrow> (caught_json (type_error w), st)
         | Some b \<Rightarrow>
            (let student_id = js_prop b ''student_id'';
                 scanned_by = js_prop b ''scanned_by''
             in if \<not> truthy student_id then (fail_json 400 ''Missing student_id'', st)
                else
                  (let today = JNum (today_utc w) in
                   case db_select w ''attendance'' [''id'']
                          [Eq ''student_id'' student_id, Eq ''date'' today] 1 st of
                     (res, st1) \<Rightarrow>
                       if (case res of Inl e \<Rightarrow> False | Inr existing \<Rightarrow> length existing \<noteq> 0) then
                         (res_json 200 [(''ok'', JBool True), (''message'', JStr ''Already recorded'')], st1)
                       else
                         (case db_insert w ''attendance''
                                 [(''student_id'', student_id), (''date'', today),
                                  (''status'', JStr ''Present''), (''scanned_by'', scanned_by)] st1 of
                            (Inl msg, st2) \<Rightarrow> (caught_json msg, st2)
                          | (Inr data, st2) \<Rightarrow>
                              (res_json 200 [(''ok'', JBool True), (''data'', JObj data)], st2))))))"

section \<open>Registering a student\<close>

text \<open>\<open>encodeURIComponent\<close> on a string held as its UTF-8 bytes: letters, digits and
  \<open>- _ . ! ~ * ' ( )\<close> stay, every other byte becomes \<open>%XX\<close>.\<close>

definition hex_upper :: "nat \<Rightarrow> char" where
  "hex_upper d = ''0123456789ABCDEF'' ! d"

definition hex_lower :: "nat \<Rightarrow> char" where
  "hex_lower d = ''0123456789abcdef'' ! d"

definition uri_unreserved :: "char \<Rightarrow> bool" where
  "uri_unreserved c =
    (let n = (of_char c :: nat) in
     (65 \<le> n \<and> n \<le> 90) \<or> (97 \<le> n \<and> n \<le> 122) \<or> (48 \<le> n \<and> n \<le> 57) \<or>
     c \<in> set ''-_.!~*()'' \<or> n = 39)"

definition encodeURIComponent :: "string \<Rightarrow> string" where
  "encodeURIComponent s =
    concat (map (\<lambda>c. if uri_unreserved c then [c]
                       else [CHR ''%'', hex_upper (of_char c div 16), hex_upper (of_char c mod 16)]) s)"

text \<open>\<open>JSON.stringify\<close>: strings are quoted and escaped, a member whose value is
  undefined is left out of its object.\<close>

definition json_escape :: "char \<Rightarrow> string" where
  "json_escape c =
    (let n = (of_char c :: nat) in
     if n = 34 then [CHR 0x5C, CHR 0x22]
     else if n = 92 then [CHR 0x5C, CHR 0x5C]
     else if n = 8 then [CHR 0x5C, CHR ''b'']
     else if n = 12 then [CHR 0x5C, CHR ''f'']
     else if n = 10 then [CHR 0x5C, CHR ''n'']
     else if n = 13 then [CHR 0x5C, CHR ''r'']
     else if n = 9 then [CHR 0x5C, CHR ''t'']
     else if n < 32 then [CHR 0x5C, CHR ''u'', CHR ''0'', CHR ''0'', hex_lower (n div 16), hex_lower (n mod 16)]
     else [c])"

definition json_quote :: "string \<Rightarrow> string" where
  "json_quote s = CHR 0x22 # concat (map json_escape s) @ [CHR 0x22]"

fun JSON_stringify :: "jsval \<Rightarrow> string" where
  "JSON_stringify JUndefined = ''null''"
| "JSON_stringify JNull = ''null''"
| "JSON_stringify (JBool b) = (if b then ''true'' else ''false'')"
| "JSON_stringify (JNum n) = show_int n"
| "JSON_stringify (JStr s) = json_quote s"
| "JSON_stringify (JArr xs) = ''['' @ join_comma (map JSON_stringify xs) @ '']''"
| "JSON_stringify (JObj kvs) =
     ''{'' @ join_comma (concat (map (\<lambda>kv. if snd kv = JUndefined then []
                                           else [json_quote (fst kv) @ '':'' @ JSON_stringify (snd kv)]) kvs)) @ ''}''"

text \<open>\<open>QRCode.toBuffer(text, {errorCorrectionLevel})\<close>; the level is M when no option is
  given. The encoder throws when it cannot encode the text (\<open>Inl\<close> the message of the
  error); the handlers catch that at the end of their \<open>try\<close> block.\<close>

definition QRCode_toBuffer :: "world \<Rightarrow> ec_level \<Rightarrow> string \<Rightarrow> string + blob" where
  "QRCode_toBuffer w lvl txt =
    (case qr_fault w lvl txt of Some msg \<Rightarrow> Inl msg | None \<Rightarrow> Inr (QrPng lvl txt))"

text \<open>The four required fields of \<open>POST /api/student\<close>, as the object that is inserted.\<close>

definition student_fields :: "(string \<rightharpoonup> jsval) \<Rightarrow> obj" where
  "student_fields b =
    [(''name'', js_prop b ''name''), (''username'', js_prop b ''username''),
     (''email'', js_prop b ''email''), (''matric_number'', js_prop b ''matric_number'')]"

text \<open>What a \<open>catch\<close> block that answers \<open>err.message || String(err)\<close> sends for an error
  of the class \<open>name\<close> with the message \<open>msg\<close>.\<close>

definition caught_string :: "string \<Rightarrow> string \<Rightarrow> response" where
  "caught_string msg name =
    res_json 500 [(''ok'', JBool False), (''error'', js_or (JStr msg) (JStr name))]"

text \<open>The photo step where the answer of the upload is looked at (index.js, part_001,
  part_002): the URL stays null when there is no photo or the upload fails.\<close>

definition upload_photo_checked :: "world \<Rightarrow> request \<Rightarrow> jsval \<Rightarrow> store \<Rightarrow> jsval \<times> store" where
  "upload_photo_checked w req sid st =
    (case req_file req of
       None \<Rightarrow> (JNull, st)
     | Some f \<Rightarrow>
        (let photoPath = ''photo_'' @ to_str sid @ ''.png'' in
         case storage_upload w PHOTO_BUCKET photoPath (FileBytes (buffer f)) (mimetype f) st of
           (Some uploadErr, st1) \<Rightarrow> (JNull, st1)
         | (None, st1) \<Rightarrow> (getFileUrl w PHOTO_BUCKET photoPath, st1)))"

text \<open>The photo step of part_000: the answer of the upload is dropped and the URL is
  taken in any case.\<close>

definition upload_photo_unchecked :: "world \<Rightarrow> request \<Rightarrow> jsval \<Rightarrow> store \<Rightarrow> jsval \<times> store" where
  "upload_photo_unchecked w req sid st =
    (case req_file req of
       None \<Rightarrow> (JNull, st)
     | Some f \<Rightarrow>
        (let photoPath = ''photo_'' @ to_str sid @ ''.png'' in
         case storage_upload w PHOTO_BUCKET photoPath (FileBytes (buffer f)) (mimetype f) st of
           (r, st1) \<Rightarrow> (getFileUrl w PHOTO_BUCKET photoPath, st1)))"


subsection \<open>src/index.js and the ES-module server of part_001\<close>

definition post_api_student_index ::
  "config \<Rightarrow> world \<Rightarrow> request \<Rightarrow> store \<Rightarrow> response \<times> store" where
  "post_api_student_index cfg w req st =
    (case body req of
       None \<Rightarrow> (caught_string (type_error w) ''TypeError'', st)
     | Some b \<Rightarrow>
        (let name = js_prop b ''name'';
             username = js_prop b ''username'';
             email = js_prop b ''email'';
             matric_number = js_prop b ''matric_number''
         in if \<not> truthy name \<or> \<not> truthy username \<or> \<not> truthy email \<or> \<not> truthy matric_number
              then (fail_json 400 ''Missing required fields'', st)
            else
              (case db_insert w ''students'' (student_fields b) st of
                 (Inl insertErr, st1) \<Rightarrow> (fail_json 500 insertErr, st1)
               | (Inr student, st1) \<Rightarrow>
                  (case upload_photo_checked w req (obj_field student ''id'') st1 of
                     (photo_url, st2) \<Rightarrow>
                      (let scanUrl = to_str (FRONTEND_URL cfg) @ ''/scan?id='' @
                                       encodeURIComponent (to_str (obj_field student ''id''));
                           qrPath = ''qr_'' @ to_str (obj_field student ''id'') @ ''.png''
                       in case QRCode_toBuffer w EcH scanUrl of
                            Inl msg \<Rightarrow> (caught_string msg ''Error'', st2)
                          | Inr qrBuffer \<Rightarrow>
                             (case storage_upload w QR_BUCKET qrPath qrBuffer ''image/png'' st2 of
                                (Some qrUploadErr, st3) \<Rightarrow> (fail_json 500 ''Failed to upload QR code'', st3)
                              | (None, st3) \<Rightarrow>
                                 (let qr_code_url = getFileUrl w QR_BUCKET qrPath;
                                      st4 = db_update w ''students''
                                              [(''photo_url'', photo_url), (''qr_code_url'', qr_code_url)]
                                              [Eq ''id'' (obj_field student ''id'')] st3
                                  in (res_json 200 [(''ok'', JBool True),
                                        (''student'', JObj (AList.update ''scanUrl'' (JStr scanUrl)
                                           (AList.update ''qr_code_url'' qr_code_url
                                             (AList.update ''photo_url'' photo_url student))))], st4))))))))"

definition post_api_student_part001 ::
  "config \<Rightarrow> world \<Rightarrow> request \<Rightarrow> store \<Rightarrow> response \<times> store" where
  "post_api_student_part001 cfg w req st =
    (case body req of
       None \<Rightarrow> (caught_string (type_error w) ''TypeError'', st)
     | Some b \<Rightarrow>
        (let name = js_prop b ''name'';
             username = js_prop b ''username'';
             email = js_prop b ''email'';
             matric_number = js_prop b ''matric_number''
         in if \<not> truthy name \<or> \<not> truthy username \<or> \<not> truthy email \<or> \<not> truthy matric_number
              then (fail_json 400 ''Missing required fields'', st)
            else
              (case db_insert w ''students'' (student_fields b) st of
                 (Inl insertErr, st1) \<Rightarrow> (fail_json 500 insertErr, st1)
               | (Inr student, st1) \<Rightarrow>
                  (case upload_photo_checked w req (obj_field student ''id'') st1 of
                     (photo_url, st2) \<Rightarrow>
                      (let scanUrl = to_str (FRONTEND_URL cfg) @ ''/scan?id='' @
                                       encodeURIComponent (to_str (obj_field student ''id''));
                           qrPath = ''qr_'' @ to_str (obj_field student ''id'') @ ''.png''
                       in case QRCode_toBuffer w EcH scanUrl of
                            Inl msg \<Rightarrow> (caught_string msg ''Error'', st2)
                          | Inr qrBuffer \<Rightarrow>
                             (case storage_upload w QR_BUCKET qrPath qrBuffer ''image/png'' st2 of
                                (Some qrUploadErr, st3) \<Rightarrow> (fail_json 500 ''Failed to upload QR code'', st3)
                              | (None, st3) \<Rightarrow>
                                 (let qr_code_url = getFileUrl w QR_BUCKET qrPath;
                                      st4 = db_update w ''students''
                                              [(''photo_url'', photo_url), (''qr_code_url'', qr_code_url)]
                                              [Eq ''id'' (obj_field student ''id'')] st3
                                  in (res_json 200 [(''ok'', JBool True),
                                        (''student'', JObj (AList.update ''scanUrl'' (JStr scanUrl)
                                           (AList.update ''qr_code_url'' qr_code_url
                                             (AList.update ''photo_url'' photo_url student))))], st4))))))))"

subsection \<open>part_000 (no upload answer is looked at; the identifier is not encoded)\<close>

definition post_api_student_part000 ::
  "config \<Rightarrow> world \<Rightarrow> request \<Rightarrow> store \<Rightarrow> response \<times> store" where
  "post_api_student_part000 cfg w req st =
    (case body req of
       None \<Rightarrow> (fail_json 500 ''Registration failed'', st)
     | Some b \<Rightarrow>
        (let name = js_prop b ''name'';
             username = js_prop b ''username'';
             email = js_prop b ''email'';
             matric_number = js_prop b ''matric_number''
         in if \<not> truthy name \<or> \<not> truthy username \<or> \<not> truthy email \<or> \<not> truthy matric_number
              then (fail_json 400 ''Missing required fields'', st)
            else
              (case db_insert w ''students'' (student_fields b) st of
                 (Inl err, st1) \<Rightarrow> (fail_json 500 err, st1)
               | (Inr student, st1) \<Rightarrow>
                  (case upload_photo_unchecked w req (obj_field student ''id'') st1 of
                     (photo_url, st2) \<Rightarrow>
                      (let scanUrl = to_str (FRONTEND_URL cfg) @ ''/scan?id='' @ to_str (obj_field student ''id'');
                           qrPath = ''qr_'' @ to_str (obj_field student ''id'') @ ''.png''
                       in case QRCode_toBuffer w EcM scanUrl of
                            Inl msg \<Rightarrow> (fail_json 500 ''Registration failed'', st2)
                          | Inr qrBuffer \<Rightarrow>
                             (case storage_upload w QR_BUCKET qrPath qrBuffer ''image/png'' st2 of
                                (r, st3) \<Rightarrow>
                                 (let qr_code_url = getFileUrl w QR_BUCKET qrPath;
                                      st4 = db_update w ''students''
                                              [(''photo_url'', photo_url), (''qr_code_url'', qr_code_url)]
                                              [Eq ''id'' (obj_field student ''id'')] st3
                                  in (res_json 200 [(''ok'', JBool True),
                                        (''student'', JObj (AList.update ''qr_code_url'' qr_code_url
                                             (AList.update ''photo_url'' photo_url student)))], st4))))))))"

subsection \<open>part_002 (the QR image holds the JSON text of the identifier)\<close>

definition post_api_student_part002 ::
  "config \<Rightarrow> world \<Rightarrow> request \<Rightarrow> store \<Rightarrow> response \<times> store" where
  "post_api_student_part002 cfg w req st =
    (case body req of
       None \<Rightarrow> (fail_json 500 (type_error w), st)
     | Some b \<Rightarrow>
        (let name = js_prop b ''name'';
             username = js_prop b ''username'';
             email = js_prop b ''email'';
             matric_number = js_prop b ''matric_number''
         in if \<not> truthy name \<or> \<not> truthy username \<or> \<not> truthy email \<or> \<not> truthy matric_number
              then (fail_json 400 ''Missing required fields: name, username, email, matric_number'', st)
            else
              (case db_insert w ''students'' (student_fields b) st of
                 (Inl insertErr, st1) \<Rightarrow> (fail_json 500 insertErr, st1)
               | (Inr student, st1) \<Rightarrow>
                  (case upload_photo_checked w req (obj_field student ''id'') st1 of
                     (photo_url, st2) \<Rightarrow>
                      (let qrPayload = JSON_stringify (JObj [(''id'', obj_field student ''id'')]);
                           qrPath = ''qr_'' @ to_str (obj_field student ''id'') @ ''.png''
                       in case QRCode_toBuffer w EcM qrPayload of
                            Inl msg \<Rightarrow> (fail_json 500 msg, st2)
                          | Inr qrBuffer \<Rightarrow>
                             (case storage_upload w QR_BUCKET qrPath qrBuffer ''image/png'' st2 of
                                (r, st3) \<Rightarrow>
                                 (let qr_code_url = getFileUrl w QR_BUCKET qrPath;
                                      st4 = db_update w ''students''
                                              [(''photo_url'', photo_url), (''qr_code_url'', qr_code_url)]
                                              [Eq ''id'' (obj_field student ''id'')] st3
                                  in (res_json 200 [(''ok'', JBool True),
                                        (''student'', JObj (AList.update ''qr_code_url'' qr_code_url
                                             (AList.update ''photo_url'' photo_url student)))], st4))))))))"

subsection \<open>part_001, the CommonJS server: \<open>POST /api/create-student\<close>\<close>

text \<open>\<open>s.split(c)\<close> for a one-character separator: the pieces between the separators, at
  least one.\<close>

fun js_split :: "char \<Rightarrow> string \<Rightarrow> string list" where
  "js_split c [] = [[]]"
| "js_split c (x # xs) =
     (if x = c then [] # js_split c xs
      else (case js_split c xs of [] \<Rightarrow> [[x]] | y # ys \<Rightarrow> (x # y) # ys))"

text \<open>\<open>(file.mimetype.split('/')[1] || 'jpg').split('+')[0]\<close>\<close>

definition photo_ext :: "string \<Rightarrow> string" where
  "photo_ext mt =
    (let parts = js_split CHR ''/'' mt;
         subtype = (if 1 < length parts \<and> parts ! 1 \<noteq> [] then parts ! 1 else ''jpg'')
     in case js_split CHR ''+'' subtype of [] \<Rightarrow> [] | p # ps \<Rightarrow> p)"

text \<open>\<open>uploadToStorage\<close> throws the error of a failed upload (\<open>Inl\<close> its message) and
  returns the public URL otherwise.\<close>

definition uploadToStorage ::
  "world \<Rightarrow> string \<Rightarrow> string \<Rightarrow> blob \<Rightarrow> string \<Rightarrow> store \<Rightarrow> (string + jsval) \<times> store" where
  "uploadToStorage w bucket path data ctype st =
    (case storage_upload w bucket path data ctype st of
       (Some err, st1) \<Rightarrow> (Inl err, st1)
     | (None, st1) \<Rightarrow> (Inr (publicUrl w bucket path), st1))"

text \<open>The photo step: upload, then a first update of the row. \<open>Inl\<close> is the error thrown.\<close>

definition create_student_photo ::
  "world \<Rightarrow> request \<Rightarrow> jsval \<Rightarrow> store \<Rightarrow> (string + jsval) \<times> store" where
  "create_student_photo w req studentId st =
    (case req_file req of
       None \<Rightarrow> (Inr JNull, st)
     | Some f \<Rightarrow>
        (let ext = photo_ext (mimetype f);
             photoPath = ''student-photos/'' @ to_str studentId @ ''.'' @ ext
         in case uploadToStorage w ''student-photos'' photoPath (FileBytes (buffer f)) (mimetype f) st of
              (Inl err, st1) \<Rightarrow> (Inl err, st1)
            | (Inr photoUrl, st1) \<Rightarrow>
                (Inr photoUrl,
                 db_update w ''students'' [(''photo_url'', photoUrl)] [Eq ''id'' studentId] st1)))"

text \<open>The handler: every error is thrown to the one \<open>catch\<close> block. The QR image is the
  body that the remote QR service answers for the payload \<open>attendance://<id>\<close>.\<close>

definition post_api_create_student_part001_cjs ::
  "config \<Rightarrow> world \<Rightarrow> request \<Rightarrow> store \<Rightarrow> response \<times> store" where
  "post_api_create_student_part001_cjs cfg w req st =
    (case body req of
       None \<Rightarrow> (caught_json (type_error w), st)
     | Some b \<Rightarrow>
        (let name = js_prop b ''name'';
             username = js_prop b ''username'';
             matric_number = js_prop b ''matric_number'';
             email = js_prop b ''email''
         in if \<not> truthy name \<or> \<not> truthy username \<or> \<not> truthy matric_number \<or> \<not> truthy email
              then (fail_json 400 ''Missing fields'', st)
            else
              (case db_insert w ''students''
                      [(''name'', name), (''username'', username),
                       (''matric_number'', matric_number), (''email'', email)] st of
                 (Inl insertErr, st1) \<Rightarrow> (caught_json insertErr, st1)
               | (Inr created, st1) \<Rightarrow>
                  (let studentId = obj_field created ''id'' in
                   case create_student_photo w req studentId st1 of
                     (Inl err, st2) \<Rightarrow> (caught_json err, st2)
                   | (Inr photoUrl, st2) \<Rightarrow>
                      (let qrPayload = ''attendance://'' @ to_str studentId;
                           qrApiUrl = ''https://api.qrserver.com/v1/create-qr-code/?size=400x400&data='' @
                                        encodeURIComponent qrPayload
                       in case http_get w qrApiUrl of
                            Inl err \<Rightarrow> (caught_json err, st2)
                          | Inr qrBuffer \<Rightarrow>
                             (let qrPath = ''qr-codes/'' @ to_str studentId @ ''.png'' in
                              case uploadToStorage w ''qr-codes'' qrPath (FileBytes qrBuffer) ''image/png'' st2 of
                                (Inl err, st3) \<Rightarrow> (caught_json err, st3)
                              | (Inr qrUrl, st3) \<Rightarrow>
                                 (let st4 = db_update w ''students'' [(''qr_code_url'', qrUrl)]
                                              [Eq ''id'' studentId] st3
                                  in (res_json 200 [(''ok'', JBool True),
                                        (''student'', JObj (AList.update ''qr_code_url'' qrUrl
                                             (AList.update ''photo_url'' photoUrl created)))], st4))))))))"

section \<open>What a run of a handler did\<close>

text \<open>The remote calls a handler added to the log, and the texts of the QR images among
  the uploads.\<close>

definition new_calls :: "store \<Rightarrow> store \<Rightarrow> call list" where
  "new_calls st st' = drop (length (calls st)) (calls st')"

fun is_insert :: "call \<Rightarrow> bool" where
  "is_insert (DbInsert t ob) = True"
| "is_insert c = False"

fun qr_text_of :: "call \<Rightarrow> string list" where
  "qr_text_of (StUpload b path (QrPng lvl txt) ctype) = [txt]"
| "qr_text_of c = []"

definition qr_texts :: "call list \<Rightarrow> string list" where
  "qr_texts cs = concat (map qr_text_of cs)"

text \<open>The body of a response as an object, for reading its members.\<close>

definition json_member :: "response \<Rightarrow> string \<Rightarrow> jsval" where
  "json_member r k =
    (case payload r of Json (JObj ob) \<Rightarrow> obj_field ob k | _ \<Rightarrow> JUndefined)"

definition is_html :: "response \<Rightarrow> bool" where
  "is_html r = (case payload r of Html p \<Rightarrow> True | Json v \<Rightarrow> False)"

text \<open>The member \<open>k\<close> of the student object of a registration response.\<close>

definition student_member :: "response \<Rightarrow> string \<Rightarrow> jsval" where
  "student_member r k =
    (case json_member r ''student'' of JObj s \<Rightarrow> obj_field s k | _ \<Rightarrow> JUndefined)"

text \<open>The \<open>POST /api/attendance\<close> request that says what a scanner's
  \<open>GET /api/attendance/mark\<close> request says: the same identifier and PIN, the lecturer
  \<open>external-scanner\<close> and the course \<open>Unknown\<close>.\<close>

definition mark_as_post :: "request \<Rightarrow> request" where
  "mark_as_post req =
    req\<lparr> body := Some [''student_id'' \<mapsto> js_prop (query req) ''student_id'',
                        ''lecturer'' \<mapsto> JStr ''external-scanner'',
                        ''course'' \<mapsto> JStr ''Unknown'',
                        ''admin_pin'' \<mapsto> js_prop (query req) ''pin''] \<rparr>"

text \<open>The uploads to a bucket among the remote calls: path and content.\<close>

fun upload_to :: "string \<Rightarrow> call \<Rightarrow> (string \<times> blob) list" where
  "upload_to b (StUpload b' path blob ctype) = (if b' = b then [(path, blob)] else [])"
| "upload_to b c = []"

definition uploads_to :: "string \<Rightarrow> call list \<Rightarrow> (string \<times> blob) list" where
  "uploads_to b cs = concat (map (upload_to b) cs)"

section \<open>Names for the steps of a registration\<close>

text \<open>The condition under which \<open>POST /api/student\<close> goes on to the insert (the body is
  parsed and the four fields are truthy), and the remote calls it then makes for the
  identifier the store assigns.\<close>

definition required_present :: "request \<Rightarrow> bool" where
  "required_present req =
    (case body req of
       None \<Rightarrow> False
     | Some b \<Rightarrow>
         truthy (js_prop b ''name'') \<and> truthy (js_prop b ''username'') \<and>
         truthy (js_prop b ''email'') \<and> truthy (js_prop b ''matric_number''))"

definition insert_student_call :: "request \<Rightarrow> call" where
  "insert_student_call req =
    DbInsert ''students'' (student_fields (case body req of None \<Rightarrow> (\<lambda>k. None) | Some b \<Rightarrow> b))"

definition photo_upload_call :: "world \<Rightarrow> upfile \<Rightarrow> call" where
  "photo_upload_call w f =
    StUpload PHOTO_BUCKET (''photo_'' @ fresh_id w @ ''.png'') (FileBytes (buffer f)) (mimetype f)"

definition scan_link :: "config \<Rightarrow> string \<Rightarrow> string" where
  "scan_link cfg sid = to_str (FRONTEND_URL cfg) @ ''/scan?id='' @ encodeURIComponent sid"

definition id_payload :: "string \<Rightarrow> string" where
  "id_payload sid = JSON_stringify (JObj [(''id'', JStr sid)])"

definition qr_upload_call :: "world \<Rightarrow> ec_level \<Rightarrow> string \<Rightarrow> call" where
  "qr_upload_call w lvl txt =
    StUpload QR_BUCKET (''qr_'' @ fresh_id w @ ''.png'') (QrPng lvl txt) ''image/png''"

text \<open>The same for \<open>POST /api/create-student\<close> of the CommonJS server, which inserts the
  fields in another order and asks a remote service for the QR image.\<close>

definition create_student_call :: "(string \<rightharpoonup> jsval) \<Rightarrow> call" where
  "create_student_call b =
    DbInsert ''students''
      [(''name'', js_prop b ''name''), (''username'', js_prop b ''username''),
       (''matric_number'', js_prop b ''matric_number''), (''email'', js_prop b ''email'')]"

definition qr_service_url :: "string \<Rightarrow> string" where
  "qr_service_url txt =
    ''https://api.qrserver.com/v1/create-qr-code/?size=400x400&data='' @ encodeURIComponent txt"

text \<open>A character that \<open>JSON.stringify\<close> copies as it is.\<close>

definition json_plain :: "char \<Rightarrow> bool" where
  "json_plain c = (32 \<le> (of_char c :: nat) \<and> c \<noteq> CHR 0x22 \<and> c \<noteq> CHR 0x5C)"

text \<open>The object that \<open>POST /api/attendance\<close> sends to the store, and the row the store
  makes of an object.\<close>

definition attendance_object :: "jsval \<Rightarrow> jsval \<Rightarrow> jsval \<Rightarrow> obj" where
  "attendance_object sid lecturer course =
    [(''student_id'', sid), (''lecturer'', lecturer), (''course'', course)]"

definition new_row :: "world \<Rightarrow> obj \<Rightarrow> obj" where
  "new_row w ob = (''id'', JStr (fresh_id w)) # (''created_at'', JNum (now w)) # ob"

section \<open>Sample values\<close>

definition sample_config :: config where
  "sample_config =
    \<lparr> SUPABASE_URL = JStr ''https://db.example'', SUPABASE_KEY = JStr ''key'',
      FRONTEND_URL = JStr ''https://app.example'', ADMIN_PIN = JStr ''1234'',
      ADMIN_SECRET = JStr ''myattendancesecret2025'', PORT = JNum 5000 \<rparr>"

text \<open>A world in which nothing fails, in a time zone one hour east of UTC without
  daylight saving; the identifier it assigns has a space in it.\<close>

definition sample_world :: world where
  "sample_world =
    \<lparr> now = 1700000000000,
      local_midnight = (\<lambda>t. t - ((t + 3600000) mod 86400000)),
      local_day_end = (\<lambda>t. t - ((t + 3600000) mod 86400000) + 86399999),
      fresh_id = ''s 1'',
      fault = (\<lambda>c. None), qr_fault = (\<lambda>l t. None),
      http_get = (\<lambda>u. Inr ''PNG''),
      type_error = ''Cannot destructure property of undefined'',
      publicUrl = (\<lambda>b p. JStr (''https://db.example/'' @ b @ ''/'' @ p)),
      localeTime = ''11/14/2023, 10:13:20 PM'' \<rparr>"

definition empty_store :: store where
  "empty_store = \<lparr> tables = (\<lambda>t. []), objects = (\<lambda>k. None), calls = [] \<rparr>"

definition sample_row :: obj where
  "sample_row =
    [(''id'', JStr ''a0''), (''created_at'', JNum 1700000000000),
     (''student_id'', JStr ''s1''), (''lecturer'', JStr ''Dr. Okoro''), (''course'', JStr ''CS101'')]"

definition dated_row :: obj where
  "dated_row =
    [(''id'', JStr ''a0''), (''created_at'', JNum 1700000000000),
     (''student_id'', JStr ''s1''), (''date'', JNum 1699920000000),
     (''status'', JStr ''Present''), (''scanned_by'', JUndefined)]"

text \<open>A store that already holds a record of student \<open>s1\<close>, made at the sample time, and
  the same for the CommonJS server, whose records carry the date.\<close>

definition marked_store :: store where
  "marked_store =
    \<lparr> tables = (\<lambda>t. if t = ''attendance'' then [sample_row] else []),
      objects = (\<lambda>k. None), calls = [] \<rparr>"

definition dated_store :: store where
  "dated_store =
    \<lparr> tables = (\<lambda>t. if t = ''attendance'' then [dated_row] else []),
      objects = (\<lambda>k. None), calls = [] \<rparr>"

definition attend_request :: "(string \<rightharpoonup> jsval) \<Rightarrow> request" where
  "attend_request b = \<lparr> body = Some b, query = (\<lambda>k. None), headers = (\<lambda>k. None), req_file = None \<rparr>"

definition bodiless_request :: request where
  "bodiless_request = \<lparr> body = None, query = (\<lambda>k. None), headers = (\<lambda>k. None), req_file = None \<rparr>"

definition mark_request :: "(string \<rightharpoonup> jsval) \<Rightarrow> request" where
  "mark_request q = \<lparr> body = None, query = q, headers = (\<lambda>k. None), req_file = None \<rparr>"

definition sample_student :: "string \<rightharpoonup> jsval" where
  "sample_student =
    [''name'' \<mapsto> JStr ''Amy Lin'', ''username'' \<mapsto> JStr ''amyl'',
     ''email'' \<mapsto> JStr ''a@x.edu'', ''matric_number'' \<mapsto> JStr ''M123'']"

definition student_request :: "upfile option \<Rightarrow> request" where
  "student_request f =
    \<lparr> body = Some sample_student, query = (\<lambda>k. None), headers = (\<lambda>k. None), req_file = f \<rparr>"

definition sample_attend_body :: "string \<rightharpoonup> jsval" where
  "sample_attend_body =
    [''student_id'' \<mapsto> JStr ''s1'', ''lecturer'' \<mapsto> JStr ''Dr. Okoro'',
     ''course'' \<mapsto> JStr ''CS101'', ''admin_pin'' \<mapsto> JStr ''1234'',
     ''admin_secret'' \<mapsto> JStr ''myattendancesecret2025'']"

definition sample_attend :: request where
  "sample_attend = attend_request sample_attend_body"

section \<open>Properties\<close>

subsection \<open>Auxiliary facts\<close>

lemma new_calls_append [simp]: "new_calls st (st\<lparr> calls := calls st @ cs \<rparr>) = cs"
  by (simp add: new_calls_def)

lemma logged_keeps [simp]:
  "tables (logged c st) = tables st" "objects (logged c st) = objects st"
  "new_calls st (logged c st) = [c]"
  by (simp_all add: logged_def new_calls_def)

lemma found_nonempty:
  assumes "r \<in> set rows" and "matches fs r"
  shows "take (Suc 0) (map (project cols) (filter (matches fs) rows)) \<noteq> []"
proof -
  from assms have "filter (matches fs) rows \<noteq> []"
    by (auto simp add: filter_empty_conv)
  then show ?thesis
    by (cases "filter (matches fs) rows") simp_all
qed

lemma strict_eq_truthy: "truthy a \<Longrightarrow> strict_eq a b \<Longrightarrow> truthy b"
  by (cases a) (auto simp add: strict_eq_def)

lemma status_simps [simp]:
  "status (fail_json code msg) = code" "status (res_json code ob) = code"
  "status (res_send code p) = code" "status (caught_json msg) = 500"
  "status (caught_string msg name) = 500"
  by (simp_all add: fail_json_def res_json_def res_send_def caught_json_def caught_string_def)

lemma sample_facts:
  "body sample_attend = Some sample_attend_body"
  "js_prop sample_attend_body ''student_id'' = JStr ''s1''"
  "js_prop sample_attend_body ''admin_pin'' = JStr ''1234''"
  "js_prop sample_attend_body ''lecturer'' = JStr ''Dr. Okoro''"
  "js_prop sample_attend_body ''course'' = JStr ''CS101''"
  "js_prop sample_attend_body ''admin_secret'' = JStr ''myattendancesecret2025''"
  "js_prop sample_attend_body ''scanned_by'' = JUndefined"
  "headers sample_attend = (\<lambda>k. None)"
  "ADMIN_PIN sample_config = JStr ''1234''"
  "ADMIN_SECRET sample_config = JStr ''myattendancesecret2025''"
  "FRONTEND_URL sample_config = JStr ''https://app.example''"
  "fault sample_world = (\<lambda>c. None)"
  "qr_fault sample_world = (\<lambda>l t. None)"
  "http_get sample_world = (\<lambda>u. Inr ''PNG'')"
  "type_error sample_world = ''Cannot destructure property of undefined''"
  "now sample_world = 1700000000000"
  "fresh_id sample_world = ''s 1''"
  "today_utc sample_world = 1699920000000"
  "startOfDay sample_world = 1699916400000"
  "endOfDay sample_world = 1700002799999"
  "tables marked_store ''attendance'' = [sample_row]"
  "tables dated_store ''attendance'' = [dated_row]"
  "calls marked_store = []" "calls dated_store = []" "calls empty_store = []"
  "tables empty_store = (\<lambda>t. [])"
  "body bodiless_request = None" "headers bodiless_request = (\<lambda>k. None)"
  "body (attend_request b) = Some b" "headers (attend_request b) = (\<lambda>k. None)"
  "query (mark_request q) = q"
  "body (student_request f) = Some sample_student" "req_file (student_request f) = f"
  by (simp_all add: sample_attend_def sample_attend_body_def attend_request_def js_prop_def
        sample_config_def sample_world_def today_utc_def startOfDay_def endOfDay_def day_ms_def
        marked_store_def dated_store_def empty_store_def bodiless_request_def mark_request_def
        student_request_def)

subsection \<open>The order of the checks of \<open>POST /api/attendance\<close>\<close>

lemma cjs_secret_wrong:
  assumes "body req = Some b"
    and "\<not> strict_eq (js_or (js_or (getenv (headers req) ''x-admin-secret'')
                        (js_prop b ''admin_secret'')) (JStr [])) (ADMIN_SECRET cfg)"
  shows "post_api_attendance_part001_cjs cfg w req st = (fail_json 401 ''Unauthorized'', st)"
  using assms by (simp add: post_api_attendance_part001_cjs_def requireAdmin_def Let_def)

lemma cjs_secret_right:
  assumes "body req = Some b"
    and "strict_eq (js_or (js_or (getenv (headers req) ''x-admin-secret'')
                        (js_prop b ''admin_secret'')) (JStr [])) (ADMIN_SECRET cfg)"
  shows "requireAdmin cfg w req = None"
  using assms by (simp add: requireAdmin_def Let_def)

text \<open>
  C10 (amended). A \<open>POST /api/attendance\<close> request whose body is parsed and has no
  (truthy) student identifier is answered 400 by src/index.js, by the ES-module server of
  part_001, by part_000 and by part_002, whatever the configured and the supplied PIN
  are, and nothing reaches the store. The CommonJS server of part_001 runs \<open>requireAdmin\<close>
  first: such a request is answered 401 when its secret is wrong and 400 when it is
  right. A request whose body is undefined is answered 500 by the four ES-module servers.
\<close>

theorem missing_student_id_before_pin:
  "(body req = Some b \<and> \<not> truthy (js_prop b ''student_id'') \<longrightarrow>
      post_api_attendance_index cfg w req st = (fail_json 400 ''Missing student_id'', st)
    \<and> post_api_attendance_part001 cfg w req st = (fail_json 400 ''Missing student_id'', st)
    \<and> post_api_attendance_part002 cfg w req st = (fail_json 400 ''Missing student_id'', st)
    \<and> post_api_attendance_part000 cfg w req st = (fail_json 400 ''Missing required fields'', st)
    \<and> status (fail_json 400 ''Missing student_id'') = 400
    \<and> status (fail_json 400 ''Missing required fields'') = 400
    \<and> post_api_attendance_part001_cjs cfg w req st =
        (if strict_eq (js_or (js_or (getenv (headers req) ''x-admin-secret'')
                         (js_prop b ''admin_secret'')) (JStr [])) (ADMIN_SECRET cfg)
         then (fail_json 400 ''Missing student_id'', st)
         else (fail_json 401 ''Unauthorized'', st))
    \<and> status (fail_json 401 ''Unauthorized'') = 401)
 \<and> (body req = None \<longrightarrow>
      post_api_attendance_index cfg w req st = (fail_json 500 (type_error w), st)
    \<and> post_api_attendance_part001 cfg w req st = (fail_json 500 (type_error w), st)
    \<and> post_api_attendance_part002 cfg w req st = (fail_json 500 (type_error w), st)
    \<and> post_api_attendance_part000 cfg w req st = (fail_json 500 ''Server error'', st)
    \<and> status (fail_json 500 (type_error w)) = 500
    \<and> status (fail_json 500 ''Server error'') = 500)"
proof (intro conjI impI)
  assume a: "body req = Some b \<and> \<not> truthy (js_prop b ''student_id'')"
  then show "post_api_attendance_index cfg w req st = (fail_json 400 ''Missing student_id'', st)"
    by (simp add: post_api_attendance_index_def Let_def)
  from a show "post_api_attendance_part001 cfg w req st = (fail_json 400 ''Missing student_id'', st)"
    by (simp add: post_api_attendance_part001_def Let_def)
  from a show "post_api_attendance_part002 cfg w req st = (fail_json 400 ''Missing student_id'', st)"
    by (simp add: post_api_attendance_part002_def Let_def)
  from a show "post_api_attendance_part000 cfg w req st = (fail_json 400 ''Missing required fields'', st)"
    by (simp add: post_api_attendance_part000_def Let_def)
  show "status (fail_json 400 ''Missing student_id'') = 400"
    and "status (fail_json 400 ''Missing required fields'') = 400"
    and "status (fail_json 401 ''Unauthorized'') = 401"
    by simp_all
  from a show "post_api_attendance_part001_cjs cfg w req st =
        (if strict_eq (js_or (js_or (getenv (headers req) ''x-admin-secret'')
                         (js_prop b ''admin_secret'')) (JStr [])) (ADMIN_SECRET cfg)
         then (fail_json 400 ''Missing student_id'', st)
         else (fail_json 401 ''Unauthorized'', st))"
    by (simp add: post_api_attendance_part001_cjs_def requireAdmin_def Let_def)
next
  assume a: "body req = None"
  then show "post_api_attendance_index cfg w req st = (fail_json 500 (type_error w), st)"
    by (simp add: post_api_attendance_index_def)
  from a show "post_api_attendance_part001 cfg w req st = (fail_json 500 (type_error w), st)"
    by (simp add: post_api_attendance_part001_def)
  from a show "post_api_attendance_part002 cfg w req st = (fail_json 500 (type_error w), st)"
    by (simp add: post_api_attendance_part002_def)
  from a show "post_api_attendance_part000 cfg w req st = (fail_json 500 ''Server error'', st)"
    by (simp add: post_api_attendance_part000_def)
  show "status (fail_json 500 (type_error w)) = 500" and "status (fail_json 500 ''Server error'') = 500"
    by simp_all
qed

theorem missing_student_id_before_pin_witness:
  "body (attend_request [''admin_pin'' \<mapsto> JStr ''1234'']) = Some [''admin_pin'' \<mapsto> JStr ''1234'']
   \<and> \<not> truthy (js_prop [''admin_pin'' \<mapsto> JStr ''1234''] ''student_id'')
   \<and> post_api_attendance_index sample_config sample_world
        (attend_request [''admin_pin'' \<mapsto> JStr ''1234'']) empty_store =
       (fail_json 400 ''Missing student_id'', empty_store)
   \<and> post_api_attendance_part000 sample_config sample_world
        (attend_request [''admin_pin'' \<mapsto> JStr ''1234'']) empty_store =
       (fail_json 400 ''Missing required fields'', empty_store)
   \<and> body bodiless_request = None
   \<and> post_api_attendance_index sample_config sample_world bodiless_request empty_store =
       (fail_json 500 (type_error sample_world), empty_store)"
proof -
  have parsed: "body (attend_request [''admin_pin'' \<mapsto> JStr ''1234'']) = Some [''admin_pin'' \<mapsto> JStr ''1234'']"
    and missing: "\<not> truthy (js_prop [''admin_pin'' \<mapsto> JStr ''1234''] ''student_id'')"
    and none: "body bodiless_request = None"
    by (simp_all add: sample_facts js_prop_def)
  from missing_student_id_before_pin
         [of "attend_request [''admin_pin'' \<mapsto> JStr ''1234'']" "[''admin_pin'' \<mapsto> JStr ''1234'']"
             sample_config sample_world empty_store, THEN conjunct1]
       missing_student_id_before_pin
         [of bodiless_request _ sample_config sample_world empty_store, THEN conjunct2]
       parsed missing none
  show ?thesis by blast
qed

text \<open>
  C10 as stated fails in two ways. The CommonJS server of part_001 looks at the secret
  before the identifier: a request without identifier and with a wrong secret is
  answered 401. And in src/index.js a request whose body is undefined is answered 500,
  not 400, because destructuring the body throws.
\<close>

theorem missing_student_id_counterexample:
  "js_prop [''admin_secret'' \<mapsto> JStr ''nope''] ''student_id'' = JUndefined
   \<and> post_api_attendance_part001_cjs sample_config sample_world
        (attend_request [''admin_secret'' \<mapsto> JStr ''nope'']) empty_store =
       (fail_json 401 ''Unauthorized'', empty_store)
   \<and> status (fail_json 401 ''Unauthorized'') = 401
   \<and> post_api_attendance_index sample_config sample_world bodiless_request empty_store =
       (fail_json 500 ''Cannot destructure property of undefined'', empty_store)
   \<and> status (fail_json 500 ''Cannot destructure property of undefined'') = 500"
  by (simp add: post_api_attendance_part001_cjs_def requireAdmin_def post_api_attendance_index_def
        sample_facts js_prop_def js_or_def getenv_def strict_eq_def Let_def)

text \<open>
  C9. In src/index.js (and in the ES-module server of part_001, which has the same
  check), when \<open>ADMIN_PIN\<close> is not configured every \<open>POST /api/attendance\<close> request with a
  student identifier is answered 403 and nothing reaches the store, whatever PIN it
  carries.
\<close>

theorem absent_admin_pin_fails_closed:
  assumes "ADMIN_PIN cfg = JUndefined"
    and "body req = Some b"
    and "truthy (js_prop b ''student_id'')"
  shows "post_api_attendance_index cfg w req st = (fail_json 403 ''Forbidden: invalid admin pin'', st)
       \<and> post_api_attendance_part001 cfg w req st = (fail_json 403 ''Forbidden: invalid admin pin'', st)
       \<and> status (fail_json 403 ''Forbidden: invalid admin pin'') = 403"
  using assms
  by (simp add: post_api_attendance_index_def post_api_attendance_part001_def Let_def)

theorem absent_admin_pin_fails_closed_witness:
  "ADMIN_PIN (sample_config\<lparr> ADMIN_PIN := JUndefined \<rparr>) = JUndefined
   \<and> body sample_attend = Some sample_attend_body
   \<and> truthy (js_prop sample_attend_body ''student_id'')
   \<and> post_api_attendance_index (sample_config\<lparr> ADMIN_PIN := JUndefined \<rparr>) sample_world
        sample_attend empty_store = (fail_json 403 ''Forbidden: invalid admin pin'', empty_store)
   \<and> post_api_attendance_part001 (sample_config\<lparr> ADMIN_PIN := JUndefined \<rparr>) sample_world
        sample_attend empty_store = (fail_json 403 ''Forbidden: invalid admin pin'', empty_store)
   \<and> status (fail_json 403 ''Forbidden: invalid admin pin'') = 403"
proof -
  have h: "ADMIN_PIN (sample_config\<lparr> ADMIN_PIN := JUndefined \<rparr>) = JUndefined"
    "body sample_attend = Some sample_attend_body"
    "truthy (js_prop sample_attend_body ''student_id'')"
    by (simp_all add: sample_facts)
  from absent_admin_pin_fails_closed [OF h, of sample_world empty_store] h
  show ?thesis by blast
qed

subsection \<open>The admin credential\<close>

text \<open>
  C2 (amended). Let a \<open>POST /api/attendance\<close> request have a parsed body. In src/index.js
  and in the ES-module server of part_001, when it has a student identifier and its
  \<open>admin_pin\<close> is not strictly equal to the configured \<open>ADMIN_PIN\<close>, it is answered
  403 and nothing reaches the store. The CommonJS server of part_001 answers 401 from
  \<open>requireAdmin\<close> when the supplied secret (the header \<open>x-admin-secret\<close>, else the
  member \<open>admin_secret\<close> of the body, else the empty string) differs from
  \<open>ADMIN_SECRET\<close>, again before any store call. part_000 answers 403 when lecturer and
  course are there too. part_002 looks at no credential: a request with a student
  identifier goes to the insert whatever it carries.
\<close>

theorem wrong_credential_rejected:
  "(body req = Some b \<and> truthy (js_prop b ''student_id'') \<and>
      \<not> strict_eq (js_prop b ''admin_pin'') (ADMIN_PIN cfg) \<longrightarrow>
        post_api_attendance_index cfg w req st = (fail_json 403 ''Forbidden: invalid admin pin'', st)
      \<and> post_api_attendance_part001 cfg w req st = (fail_json 403 ''Forbidden: invalid admin pin'', st)
      \<and> status (fail_json 403 ''Forbidden: invalid admin pin'') = 403)
 \<and> (body req = Some b \<and>
      \<not> strict_eq (js_or (js_or (getenv (headers req) ''x-admin-secret'')
                              (js_prop b ''admin_secret'')) (JStr [])) (ADMIN_SECRET cfg) \<longrightarrow>
        post_api_attendance_part001_cjs cfg w req st = (fail_json 401 ''Unauthorized'', st)
      \<and> status (fail_json 401 ''Unauthorized'') = 401)
 \<and> (body req = Some b \<and> truthy (js_prop b ''student_id'') \<and> truthy (js_prop b ''lecturer'') \<and>
      truthy (js_prop b ''course'') \<and>
      \<not> strict_eq (js_prop b ''admin_pin'') (ADMIN_PIN cfg) \<longrightarrow>
        post_api_attendance_part000 cfg w req st = (fail_json 403 ''Invalid admin PIN'', st)
      \<and> status (fail_json 403 ''Invalid admin PIN'') = 403)
 \<and> (body req = Some b \<and> truthy (js_prop b ''student_id'') \<longrightarrow>
        new_calls st (snd (post_api_attendance_part002 cfg w req st)) =
          [DbInsert ''attendance''
             [(''student_id'', js_prop b ''student_id''),
              (''lecturer'', with_default (js_prop b ''lecturer'') (JStr ''Unknown'')),
              (''course'', with_default (js_prop b ''course'') (JStr ''Unknown''))]])"
proof (intro conjI impI)
  assume a: "body req = Some b \<and> truthy (js_prop b ''student_id'') \<and>
      \<not> strict_eq (js_prop b ''admin_pin'') (ADMIN_PIN cfg)"
  then show "post_api_attendance_index cfg w req st = (fail_json 403 ''Forbidden: invalid admin pin'', st)"
    by (simp add: post_api_attendance_index_def Let_def)
  from a show "post_api_attendance_part001 cfg w req st = (fail_json 403 ''Forbidden: invalid admin pin'', st)"
    by (simp add: post_api_attendance_part001_def Let_def)
  show "status (fail_json 403 ''Forbidden: invalid admin pin'') = 403"
    by simp
next
  assume "body req = Some b \<and>
      \<not> strict_eq (js_or (js_or (getenv (headers req) ''x-admin-secret'')
                              (js_prop b ''admin_secret'')) (JStr [])) (ADMIN_SECRET cfg)"
  then show "post_api_attendance_part001_cjs cfg w req st = (fail_json 401 ''Unauthorized'', st)"
    by (simp add: cjs_secret_wrong)
  show "status (fail_json 401 ''Unauthorized'') = 401"
    by simp
next
  assume "body req = Some b \<and> truthy (js_prop b ''student_id'') \<and> truthy (js_prop b ''lecturer'') \<and>
      truthy (js_prop b ''course'') \<and>
      \<not> strict_eq (js_prop b ''admin_pin'') (ADMIN_PIN cfg)"
  then show "post_api_attendance_part000 cfg w req st = (fail_json 403 ''Invalid admin PIN'', st)"
    by (simp add: post_api_attendance_part000_def Let_def)
  show "status (fail_json 403 ''Invalid admin PIN'') = 403"
    by simp
next
  assume "body req = Some b \<and> truthy (js_prop b ''student_id'')"
  then show "new_calls st (snd (post_api_attendance_part002 cfg w req st)) =
          [DbInsert ''attendance''
             [(''student_id'', js_prop b ''student_id''),
              (''lecturer'', with_default (js_prop b ''lecturer'') (JStr ''Unknown'')),
              (''course'', with_default (js_prop b ''course'') (JStr ''Unknown''))]]"
    by (simp add: post_api_attendance_part002_def db_insert_def logged_def new_calls_def Let_def
          split: option.splits)
qed

theorem wrong_credential_rejected_witness:
  "body (attend_request [''student_id'' \<mapsto> JStr ''s1'', ''admin_pin'' \<mapsto> JStr ''0000'']) =
     Some [''student_id'' \<mapsto> JStr ''s1'', ''admin_pin'' \<mapsto> JStr ''0000'']
   \<and> truthy (js_prop [''student_id'' \<mapsto> JStr ''s1'', ''admin_pin'' \<mapsto> JStr ''0000''] ''student_id'')
   \<and> \<not> strict_eq (js_prop [''student_id'' \<mapsto> JStr ''s1'', ''admin_pin'' \<mapsto> JStr ''0000''] ''admin_pin'')
          (ADMIN_PIN sample_config)
   \<and> post_api_attendance_index sample_config sample_world
        (attend_request [''student_id'' \<mapsto> JStr ''s1'', ''admin_pin'' \<mapsto> JStr ''0000'']) empty_store =
       (fail_json 403 ''Forbidden: invalid admin pin'', empty_store)
   \<and> post_api_attendance_part001 sample_config sample_world
        (attend_request [''student_id'' \<mapsto> JStr ''s1'', ''admin_pin'' \<mapsto> JStr ''0000'']) empty_store =
       (fail_json 403 ''Forbidden: invalid admin pin'', empty_store)
   \<and> post_api_attendance_part001_cjs sample_config sample_world
        (attend_request [''student_id'' \<mapsto> JStr ''s1'', ''admin_pin'' \<mapsto> JStr ''0000'']) empty_store =
       (fail_json 401 ''Unauthorized'', empty_store)"
proof -
  let ?b = "[''student_id'' \<mapsto> JStr ''s1'', ''admin_pin'' \<mapsto> JStr ''0000'']"
  have h: "body (attend_request ?b) = Some ?b" "truthy (js_prop ?b ''student_id'')"
    "\<not> strict_eq (js_prop ?b ''admin_pin'') (ADMIN_PIN sample_config)"
    "\<not> strict_eq (js_or (js_or (getenv (headers (attend_request ?b)) ''x-admin-secret'')
                              (js_prop ?b ''admin_secret'')) (JStr [])) (ADMIN_SECRET sample_config)"
    by (simp_all add: sample_facts js_prop_def strict_eq_def js_or_def getenv_def)
  from wrong_credential_rejected [of "attend_request ?b" ?b sample_config sample_world empty_store] h
  show ?thesis by blast
qed

text \<open>
  C2 as stated fails in two of the places it names: with a wrong secret the CommonJS
  server answers 401, not 403, and part_002 looks at no credential, so the record is
  created.
\<close>

theorem wrong_credential_counterexample:
  "status (fst (post_api_attendance_part001_cjs sample_config sample_world
      (attend_request [''student_id'' \<mapsto> JStr ''s1'', ''admin_secret'' \<mapsto> JStr ''nope'']) empty_store)) = 401
   \<and> status (fst (post_api_attendance_part002 sample_config sample_world
      (attend_request [''student_id'' \<mapsto> JStr ''s1'', ''admin_pin'' \<mapsto> JStr ''0000'']) empty_store)) = 200
   \<and> tables (snd (post_api_attendance_part002 sample_config sample_world
      (attend_request [''student_id'' \<mapsto> JStr ''s1'', ''admin_pin'' \<mapsto> JStr ''0000'']) empty_store)) ''attendance''
      = [[(''id'', JStr ''s 1''), (''created_at'', JNum 1700000000000), (''student_id'', JStr ''s1''),
          (''lecturer'', JStr ''Unknown''), (''course'', JStr ''Unknown'')]]"
  by (simp add: post_api_attendance_part001_cjs_def post_api_attendance_part002_def requireAdmin_def
        sample_facts js_prop_def js_or_def getenv_def strict_eq_def with_default_def db_insert_def
        logged_def Let_def)

subsection \<open>Startup\<close>




subsection \<open>What an accepted attendance request does\<close>

lemma defaulted:
  "(b k = None \<and> v = d) \<or> (b k = Some v \<and> v \<noteq> JUndefined) \<Longrightarrow>
     with_default (js_prop b k) d = v"
  by (auto simp add: with_default_def js_prop_def)

lemma none_found:
  "filter (matches fs) rows = [] \<Longrightarrow> take n (map (project cols) (filter (matches fs) rows)) = []"
  by simp

lemma insert_attendance:
  "new_calls st (snd (db_insert w ''attendance'' ob st)) = [DbInsert ''attendance'' ob]"
  "fault w (DbInsert ''attendance'' ob) = None \<Longrightarrow>
     fst (db_insert w ''attendance'' ob st) = Inr (new_row w ob)"
  "fault w (DbInsert ''attendance'' ob) = None \<Longrightarrow>
     tables (snd (db_insert w ''attendance'' ob st)) ''attendance'' =
       tables st ''attendance'' @ [new_row w ob]"
  "fault w (DbInsert ''attendance'' ob) = Some e \<Longrightarrow>
     fst (db_insert w ''attendance'' ob st) = Inl e"
  "fault w (DbInsert ''attendance'' ob) = Some e \<Longrightarrow>
     tables (snd (db_insert w ''attendance'' ob st)) = tables st"
  by (simp_all add: db_insert_def new_row_def logged_def new_calls_def Let_def split: option.splits)

lemma index_accepted:
  assumes "body req = Some b" and "truthy (js_prop b ''student_id'')"
    and "truthy (js_prop b ''admin_pin'')" and "strict_eq (js_prop b ''admin_pin'') (ADMIN_PIN cfg)"
    and "ob = attendance_object (js_prop b ''student_id'')
                (with_default (js_prop b ''lecturer'') (JStr ''Unknown''))
                (with_default (js_prop b ''course'') (JStr ''Unknown''))"
  shows "new_calls st (snd (post_api_attendance_index cfg w req st)) = [DbInsert ''attendance'' ob]"
    and "fault w (DbInsert ''attendance'' ob) = None \<Longrightarrow>
           fst (post_api_attendance_index cfg w req st) =
             res_json 200 [(''ok'', JBool True), (''attendance'', JObj (new_row w ob))]"
    and "fault w (DbInsert ''attendance'' ob) = None \<Longrightarrow>
           tables (snd (post_api_attendance_index cfg w req st)) ''attendance'' =
             tables st ''attendance'' @ [new_row w ob]"
  using assms strict_eq_truthy [OF assms(3,4)]
  by (simp_all add: post_api_attendance_index_def attendance_object_def db_insert_def new_row_def
        logged_def new_calls_def Let_def split: option.splits)

lemma part002_accepted:
  assumes "body req = Some b" and "truthy (js_prop b ''student_id'')"
    and "ob = attendance_object (js_prop b ''student_id'')
                (with_default (js_prop b ''lecturer'') (JStr ''Unknown''))
                (with_default (js_prop b ''course'') (JStr ''Unknown''))"
  shows "new_calls st (snd (post_api_attendance_part002 cfg w req st)) = [DbInsert ''attendance'' ob]"
    and "fault w (DbInsert ''attendance'' ob) = None \<Longrightarrow>
           fst (post_api_attendance_part002 cfg w req st) =
             res_json 200 [(''ok'', JBool True), (''attendance'', JObj (new_row w ob))]"
    and "fault w (DbInsert ''attendance'' ob) = None \<Longrightarrow>
           tables (snd (post_api_attendance_part002 cfg w req st)) ''attendance'' =
             tables st ''attendance'' @ [new_row w ob]"
  using assms
  by (simp_all add: post_api_attendance_part002_def attendance_object_def db_insert_def new_row_def
        logged_def new_calls_def Let_def split: option.splits)

lemma part001_accepted_fresh:
  assumes "body req = Some b" and "truthy (js_prop b ''student_id'')"
    and "truthy (js_prop b ''admin_pin'')" and "strict_eq (js_prop b ''admin_pin'') (ADMIN_PIN cfg)"
    and "lookup = DbSelect ''attendance'' [''*'']
           [Eq ''student_id'' (js_prop b ''student_id''), Gte ''created_at'' (JNum (today_utc w))] 1"
    and "fault w lookup = None"
    and "filter (matches [Eq ''student_id'' (js_prop b ''student_id''),
                          Gte ''created_at'' (JNum (today_utc w))]) (tables st ''attendance'') = []"
    and "ob = attendance_object (js_prop b ''student_id'')
                (with_default (js_prop b ''lecturer'') (JStr ''Unknown''))
                (with_default (js_prop b ''course'') (JStr ''Unknown''))"
  shows "new_calls st (snd (post_api_attendance_part001 cfg w req st)) =
           [lookup, DbInsert ''attendance'' ob]"
    and "fault w (DbInsert ''attendance'' ob) = None \<Longrightarrow>
           fst (post_api_attendance_part001 cfg w req st) =
             res_json 200 [(''ok'', JBool True), (''attendance'', JObj (new_row w ob))]"
    and "fault w (DbInsert ''attendance'' ob) = None \<Longrightarrow>
           tables (snd (post_api_attendance_part001 cfg w req st)) ''attendance'' =
             tables st ''attendance'' @ [new_row w ob]"
  using assms strict_eq_truthy [OF assms(3,4)]
  by (simp_all add: post_api_attendance_part001_def attendance_object_def db_insert_def db_select_def
        new_row_def logged_def new_calls_def Let_def split: option.splits)

lemma part001_cjs_accepted_fresh:
  assumes "body req = Some b" and "truthy (js_prop b ''student_id'')"
    and "strict_eq (js_or (js_or (getenv (headers req) ''x-admin-secret'')
                      (js_prop b ''admin_secret'')) (JStr [])) (ADMIN_SECRET cfg)"
    and "lookup = DbSelect ''attendance'' [''id'']
           [Eq ''student_id'' (js_prop b ''student_id''), Eq ''date'' (JNum (today_utc w))] 1"
    and "fault w lookup = None"
    and "filter (matches [Eq ''student_id'' (js_prop b ''student_id''),
                          Eq ''date'' (JNum (today_utc w))]) (tables st ''attendance'') = []"
  shows "new_calls st (snd (post_api_attendance_part001_cjs cfg w req st)) =
           [lookup,
            DbInsert ''attendance''
              [(''student_id'', js_prop b ''student_id''), (''date'', JNum (today_utc w)),
               (''status'', JStr ''Present''), (''scanned_by'', js_prop b ''scanned_by'')]]"
  using assms cjs_secret_right [where w = w, OF assms(1,3)]
  by (simp add: post_api_attendance_part001_cjs_def db_insert_def db_select_def
        logged_def new_calls_def Let_def split: option.splits)

lemma part000_missing_field:
  assumes "body req = Some b"
    and "\<not> truthy (js_prop b ''student_id'') \<or> \<not> truthy (js_prop b ''lecturer'') \<or>
         \<not> truthy (js_prop b ''course'')"
  shows "post_api_attendance_part000 cfg w req st = (fail_json 400 ''Missing required fields'', st)"
  using assms by (auto simp add: post_api_attendance_part000_def Let_def)

subsection \<open>Lecturer and course\<close>

text \<open>
  C7 (amended). Let a \<open>POST /api/attendance\<close> request have a parsed body with a student
  identifier, and let \<open>L\<close> and \<open>C\<close> be the lecturer and the course it carries, or
  \<open>Unknown\<close> for the one that is absent. In src/index.js (the PIN being right) and in
  part_002 the request is not rejected: the one remote call is the insert of the record
  with that identifier, \<open>L\<close> and \<open>C\<close>, and when the store accepts it the answer is 200
  with \<open>{ok: true, attendance: <the new row>}\<close> and the row is in the table. The same in
  the ES-module server of part_001 when the PIN is right and the look-up succeeded and
  found no record of the day, the insert following the look-up. part_000 answers 400
  when the lecturer or the course is absent. The CommonJS server of part_001 sends a
  record without lecturer and course (identifier, date, status, scanned_by).
\<close>

theorem lecturer_course_default_unknown:
  assumes "body req = Some b" and "truthy (js_prop b ''student_id'')"
    and "(b ''lecturer'' = None \<and> L = JStr ''Unknown'') \<or> (b ''lecturer'' = Some L \<and> L \<noteq> JUndefined)"
    and "(b ''course'' = None \<and> C = JStr ''Unknown'') \<or> (b ''course'' = Some C \<and> C \<noteq> JUndefined)"
    and "ob = [(''student_id'', js_prop b ''student_id''), (''lecturer'', L), (''course'', C)]"
    and "row = (''id'', JStr (fresh_id w)) # (''created_at'', JNum (now w)) # ob"
  shows
   "(truthy (js_prop b ''admin_pin'') \<and> strict_eq (js_prop b ''admin_pin'') (ADMIN_PIN cfg) \<longrightarrow>
       new_calls st (snd (post_api_attendance_index cfg w req st)) = [DbInsert ''attendance'' ob]
     \<and> (fault w (DbInsert ''attendance'' ob) = None \<longrightarrow>
          fst (post_api_attendance_index cfg w req st) =
            res_json 200 [(''ok'', JBool True), (''attendance'', JObj row)]
        \<and> status (fst (post_api_attendance_index cfg w req st)) = 200
        \<and> tables (snd (post_api_attendance_index cfg w req st)) ''attendance'' =
            tables st ''attendance'' @ [row]))
  \<and> (new_calls st (snd (post_api_attendance_part002 cfg w req st)) = [DbInsert ''attendance'' ob]
     \<and> (fault w (DbInsert ''attendance'' ob) = None \<longrightarrow>
          fst (post_api_attendance_part002 cfg w req st) =
            res_json 200 [(''ok'', JBool True), (''attendance'', JObj row)]
        \<and> status (fst (post_api_attendance_part002 cfg w req st)) = 200
        \<and> tables (snd (post_api_attendance_part002 cfg w req st)) ''attendance'' =
            tables st ''attendance'' @ [row]))
  \<and> (truthy (js_prop b ''admin_pin'') \<and> strict_eq (js_prop b ''admin_pin'') (ADMIN_PIN cfg) \<and>
     fault w (DbSelect ''attendance'' [''*'']
        [Eq ''student_id'' (js_prop b ''student_id''), Gte ''created_at'' (JNum (today_utc w))] 1) = None \<and>
     filter (matches [Eq ''student_id'' (js_prop b ''student_id''),
                      Gte ''created_at'' (JNum (today_utc w))]) (tables st ''attendance'') = [] \<longrightarrow>
       new_calls st (snd (post_api_attendance_part001 cfg w req st)) =
         [DbSelect ''attendance'' [''*'']
            [Eq ''student_id'' (js_prop b ''student_id''), Gte ''created_at'' (JNum (today_utc w))] 1,
          DbInsert ''attendance'' ob]
     \<and> (fault w (DbInsert ''attendance'' ob) = None \<longrightarrow>
          fst (post_api_attendance_part001 cfg w req st) =
            res_json 200 [(''ok'', JBool True), (''attendance'', JObj row)]
        \<and> status (fst (post_api_attendance_part001 cfg w req st)) = 200
        \<and> tables (snd (post_api_attendance_part001 cfg w req st)) ''attendance'' =
            tables st ''attendance'' @ [row]))
  \<and> (b ''lecturer'' = None \<or> b ''course'' = None \<longrightarrow>
       post_api_attendance_part000 cfg w req st = (fail_json 400 ''Missing required fields'', st)
     \<and> status (fail_json 400 ''Missing required fields'') = 400)
  \<and> (strict_eq (js_or (js_or (getenv (headers req) ''x-admin-secret'')
          (js_prop b ''admin_secret'')) (JStr [])) (ADMIN_SECRET cfg) \<and>
     fault w (DbSelect ''attendance'' [''id'']
        [Eq ''student_id'' (js_prop b ''student_id''), Eq ''date'' (JNum (today_utc w))] 1) = None \<and>
     filter (matches [Eq ''student_id'' (js_prop b ''student_id''),
                      Eq ''date'' (JNum (today_utc w))]) (tables st ''attendance'') = [] \<longrightarrow>
       new_calls st (snd (post_api_attendance_part001_cjs cfg w req st)) =
         [DbSelect ''attendance'' [''id'']
            [Eq ''student_id'' (js_prop b ''student_id''), Eq ''date'' (JNum (today_utc w))] 1,
          DbInsert ''attendance''
            [(''student_id'', js_prop b ''student_id''), (''date'', JNum (today_utc w)),
             (''status'', JStr ''Present''), (''scanned_by'', js_prop b ''scanned_by'')]])"
proof -
  have l: "with_default (js_prop b ''lecturer'') (JStr ''Unknown'') = L"
    using assms(3) by (rule defaulted)
  have c: "with_default (js_prop b ''course'') (JStr ''Unknown'') = C"
    using assms(4) by (rule defaulted)
  have ob: "ob = attendance_object (js_prop b ''student_id'')
                (with_default (js_prop b ''lecturer'') (JStr ''Unknown''))
                (with_default (js_prop b ''course'') (JStr ''Unknown''))"
    by (simp add: assms(5) l c attendance_object_def)
  have row: "row = new_row w ob"
    by (simp add: assms(6) new_row_def)
  have i: "truthy (js_prop b ''admin_pin'') \<and> strict_eq (js_prop b ''admin_pin'') (ADMIN_PIN cfg) \<longrightarrow>
       new_calls st (snd (post_api_attendance_index cfg w req st)) = [DbInsert ''attendance'' ob]
     \<and> (fault w (DbInsert ''attendance'' ob) = None \<longrightarrow>
          fst (post_api_attendance_index cfg w req st) =
            res_json 200 [(''ok'', JBool True), (''attendance'', JObj row)]
        \<and> status (fst (post_api_attendance_index cfg w req st)) = 200
        \<and> tables (snd (post_api_attendance_index cfg w req st)) ''attendance'' =
            tables st ''attendance'' @ [row])"
    using index_accepted [where cfg = cfg and w = w and st = st, OF assms(1,2) _ _ ob]
    by (simp add: row)
  have p2: "new_calls st (snd (post_api_attendance_part002 cfg w req st)) = [DbInsert ''attendance'' ob]
     \<and> (fault w (DbInsert ''attendance'' ob) = None \<longrightarrow>
          fst (post_api_attendance_part002 cfg w req st) =
            res_json 200 [(''ok'', JBool True), (''attendance'', JObj row)]
        \<and> status (fst (post_api_attendance_part002 cfg w req st)) = 200
        \<and> tables (snd (post_api_attendance_part002 cfg w req st)) ''attendance'' =
            tables st ''attendance'' @ [row])"
    using part002_accepted [where cfg = cfg and w = w and st = st, OF assms(1,2) ob]
    by (simp add: row)
  have p1: "truthy (js_prop b ''admin_pin'') \<and> strict_eq (js_prop b ''admin_pin'') (ADMIN_PIN cfg) \<and>
     fault w (DbSelect ''attendance'' [''*'']
        [Eq ''student_id'' (js_prop b ''student_id''), Gte ''created_at'' (JNum (today_utc w))] 1) = None \<and>
     filter (matches [Eq ''student_id'' (js_prop b ''student_id''),
                      Gte ''created_at'' (JNum (today_utc w))]) (tables st ''attendance'') = [] \<longrightarrow>
       new_calls st (snd (post_api_attendance_part001 cfg w req st)) =
         [DbSelect ''attendance'' [''*'']
            [Eq ''student_id'' (js_prop b ''student_id''), Gte ''created_at'' (JNum (today_utc w))] 1,
          DbInsert ''attendance'' ob]
     \<and> (fault w (DbInsert ''attendance'' ob) = None \<longrightarrow>
          fst (post_api_attendance_part001 cfg w req st) =
            res_json 200 [(''ok'', JBool True), (''attendance'', JObj row)]
        \<and> status (fst (post_api_attendance_part001 cfg w req st)) = 200
        \<and> tables (snd (post_api_attendance_part001 cfg w req st)) ''attendance'' =
            tables st ''attendance'' @ [row])"
    using part001_accepted_fresh [where cfg = cfg and w = w and st = st, OF assms(1,2) _ _ refl _ _ ob]
    by (simp add: row)
  have p0: "b ''lecturer'' = None \<or> b ''course'' = None \<longrightarrow>
       post_api_attendance_part000 cfg w req st = (fail_json 400 ''Missing required fields'', st)
     \<and> status (fail_json 400 ''Missing required fields'') = 400"
    using part000_missing_field [where cfg = cfg and w = w and st = st, OF assms(1)]
    by (auto simp add: js_prop_def)
  have cjs: "strict_eq (js_or (js_or (getenv (headers req) ''x-admin-secret'')
          (js_prop b ''admin_secret'')) (JStr [])) (ADMIN_SECRET cfg) \<and>
     fault w (DbSelect ''attendance'' [''id'']
        [Eq ''student_id'' (js_prop b ''student_id''), Eq ''date'' (JNum (today_utc w))] 1) = None \<and>
     filter (matches [Eq ''student_id'' (js_prop b ''student_id''),
                      Eq ''date'' (JNum (today_utc w))]) (tables st ''attendance'') = [] \<longrightarrow>
       new_calls st (snd (post_api_attendance_part001_cjs cfg w req st)) =
         [DbSelect ''attendance'' [''id'']
            [Eq ''student_id'' (js_prop b ''student_id''), Eq ''date'' (JNum (today_utc w))] 1,
          DbInsert ''attendance''
            [(''student_id'', js_prop b ''student_id''), (''date'', JNum (today_utc w)),
             (''status'', JStr ''Present''), (''scanned_by'', js_prop b ''scanned_by'')]]"
    using part001_cjs_accepted_fresh [where cfg = cfg and w = w and st = st, OF assms(1,2) _ refl]
    by simp
  show ?thesis
    by (rule conjI [OF i conjI [OF p2 conjI [OF p1 conjI [OF p0 cjs]]]])
qed
theorem lecturer_course_default_unknown_witness:
  "body (attend_request [''student_id'' \<mapsto> JStr ''s1'', ''admin_pin'' \<mapsto> JStr ''1234'', ''course'' \<mapsto> JStr ''CS101''])
     = Some [''student_id'' \<mapsto> JStr ''s1'', ''admin_pin'' \<mapsto> JStr ''1234'', ''course'' \<mapsto> JStr ''CS101'']
   \<and> [''student_id'' \<mapsto> JStr ''s1'', ''admin_pin'' \<mapsto> JStr ''1234'', ''course'' \<mapsto> JStr ''CS101''] ''lecturer'' = None
   \<and> [''student_id'' \<mapsto> JStr ''s1'', ''admin_pin'' \<mapsto> JStr ''1234'', ''course'' \<mapsto> JStr ''CS101''] ''course''
        = Some (JStr ''CS101'')
   \<and> fst (post_api_attendance_index sample_config sample_world
        (attend_request [''student_id'' \<mapsto> JStr ''s1'', ''admin_pin'' \<mapsto> JStr ''1234'', ''course'' \<mapsto> JStr ''CS101''])
        empty_store) =
       res_json 200 [(''ok'', JBool True),
         (''attendance'', JObj [(''id'', JStr ''s 1''), (''created_at'', JNum 1700000000000),
            (''student_id'', JStr ''s1''), (''lecturer'', JStr ''Unknown''), (''course'', JStr ''CS101'')])]
   \<and> tables (snd (post_api_attendance_index sample_config sample_world
        (attend_request [''student_id'' \<mapsto> JStr ''s1'', ''admin_pin'' \<mapsto> JStr ''1234'', ''course'' \<mapsto> JStr ''CS101''])
        empty_store)) ''attendance'' =
       [[(''id'', JStr ''s 1''), (''created_at'', JNum 1700000000000),
         (''student_id'', JStr ''s1''), (''lecturer'', JStr ''Unknown''), (''course'', JStr ''CS101'')]]
   \<and> new_calls empty_store (snd (post_api_attendance_part001 sample_config sample_world
        (attend_request [''student_id'' \<mapsto> JStr ''s1'', ''admin_pin'' \<mapsto> JStr ''1234'', ''course'' \<mapsto> JStr ''CS101''])
        empty_store)) =
       [DbSelect ''attendance'' [''*'']
          [Eq ''student_id'' (JStr ''s1''), Gte ''created_at'' (JNum 1699920000000)] 1,
        DbInsert ''attendance''
          [(''student_id'', JStr ''s1''), (''lecturer'', JStr ''Unknown''), (''course'', JStr ''CS101'')]]
   \<and> status (fst (post_api_attendance_part002 sample_config sample_world
        (attend_request [''student_id'' \<mapsto> JStr ''s1'', ''admin_pin'' \<mapsto> JStr ''1234'', ''course'' \<mapsto> JStr ''CS101''])
        empty_store)) = 200
   \<and> post_api_attendance_part000 sample_config sample_world
        (attend_request [''student_id'' \<mapsto> JStr ''s1'', ''admin_pin'' \<mapsto> JStr ''1234'', ''course'' \<mapsto> JStr ''CS101''])
        empty_store = (fail_json 400 ''Missing required fields'', empty_store)"
proof -
  let ?b = "[''student_id'' \<mapsto> JStr ''s1'', ''admin_pin'' \<mapsto> JStr ''1234'', ''course'' \<mapsto> JStr ''CS101'']"
  let ?ob = "[(''student_id'', JStr ''s1''), (''lecturer'', JStr ''Unknown''), (''course'', JStr ''CS101'')]"
  let ?row = "[(''id'', JStr ''s 1''), (''created_at'', JNum 1700000000000),
         (''student_id'', JStr ''s1''), (''lecturer'', JStr ''Unknown''), (''course'', JStr ''CS101'')]"
  have parsed: "body (attend_request ?b) = Some ?b"
    and sid: "truthy (js_prop ?b ''student_id'')"
    and l: "(?b ''lecturer'' = None \<and> JStr ''Unknown'' = JStr ''Unknown'') \<or>
            (?b ''lecturer'' = Some (JStr ''Unknown'') \<and> JStr ''Unknown'' \<noteq> JUndefined)"
    and c: "(?b ''course'' = None \<and> JStr ''CS101'' = JStr ''Unknown'') \<or>
            (?b ''course'' = Some (JStr ''CS101'') \<and> JStr ''CS101'' \<noteq> JUndefined)"
    and ob: "?ob = [(''student_id'', js_prop ?b ''student_id''), (''lecturer'', JStr ''Unknown''),
                    (''course'', JStr ''CS101'')]"
    and row: "?row = (''id'', JStr (fresh_id sample_world)) # (''created_at'', JNum (now sample_world)) # ?ob"
    by (simp_all add: sample_facts js_prop_def)
  have more: "?b ''lecturer'' = None" "?b ''course'' = Some (JStr ''CS101'')"
    "truthy (js_prop ?b ''admin_pin'')" "strict_eq (js_prop ?b ''admin_pin'') (ADMIN_PIN sample_config)"
    "fault sample_world (DbInsert ''attendance'' ?ob) = None"
    "fault sample_world (DbSelect ''attendance'' [''*'']
        [Eq ''student_id'' (js_prop ?b ''student_id''), Gte ''created_at'' (JNum (today_utc sample_world))] 1) = None"
    "filter (matches [Eq ''student_id'' (js_prop ?b ''student_id''),
                      Gte ''created_at'' (JNum (today_utc sample_world))]) (tables empty_store ''attendance'') = []"
    by (simp_all add: sample_facts js_prop_def strict_eq_def)
  have norm: "js_prop ?b ''student_id'' = JStr ''s1''" "today_utc sample_world = 1699920000000"
    by (simp_all add: sample_facts js_prop_def)
  note t = lecturer_course_default_unknown
             [where cfg = sample_config and w = sample_world and st = empty_store,
              OF parsed sid l c ob row]
  from t more show ?thesis
    by (simp add: norm sample_facts)
qed

text \<open>
  C7 as stated fails in part_000, one of the places it names: lecturer and course are
  required there, and a request without them is answered 400 although its PIN is right.
\<close>

theorem lecturer_course_counterexample:
  "js_prop [''student_id'' \<mapsto> JStr ''s1'', ''admin_pin'' \<mapsto> JStr ''1234''] ''admin_pin'' = ADMIN_PIN sample_config
   \<and> post_api_attendance_part000 sample_config sample_world
       (attend_request [''student_id'' \<mapsto> JStr ''s1'', ''admin_pin'' \<mapsto> JStr ''1234'']) empty_store
     = (fail_json 400 ''Missing required fields'', empty_store)
   \<and> status (fail_json 400 ''Missing required fields'') = 400"
  by (simp add: post_api_attendance_part000_def sample_facts js_prop_def Let_def)

subsection \<open>A second request on the same day\<close>

lemma part001_duplicate:
  assumes body: "body req = Some b"
    and sid: "truthy (js_prop b ''student_id'')"
    and pin: "truthy (js_prop b ''admin_pin'')"
      "strict_eq (js_prop b ''admin_pin'') (ADMIN_PIN cfg)"
    and ok: "fault w (DbSelect ''attendance'' [''*'']
               [Eq ''student_id'' (js_prop b ''student_id''),
                Gte ''created_at'' (JNum (today_utc w))] 1) = None"
    and r: "r \<in> set (tables st ''attendance'')"
      "map_of r ''student_id'' = Some (js_prop b ''student_id'')"
      "map_of r ''created_at'' = Some (JNum t)" "today_utc w \<le> t"
  shows "post_api_attendance_part001 cfg w req st =
      (res_json 200 [(''ok'', JBool False), (''error'', JStr ''Attendance already taken today'')],
       logged (DbSelect ''attendance'' [''*'']
               [Eq ''student_id'' (js_prop b ''student_id''),
                Gte ''created_at'' (JNum (today_utc w))] 1) st)"
proof -
  have m: "matches [Eq ''student_id'' (js_prop b ''student_id''),
                    Gte ''created_at'' (JNum (today_utc w))] r"
    using r by (simp add: matches_def)
  have admin: "truthy (ADMIN_PIN cfg)"
    using pin by (rule strict_eq_truthy)
  show ?thesis
    using body sid pin admin ok found_nonempty [OF r(1) m, of "[''*'']"]
    by (simp add: post_api_attendance_part001_def db_select_def Let_def)
qed

lemma part000_duplicate:
  assumes body: "body req = Some b"
    and req: "truthy (js_prop b ''student_id'')"
      "truthy (js_prop b ''lecturer'')" "truthy (js_prop b ''course'')"
    and pin: "strict_eq (js_prop b ''admin_pin'') (ADMIN_PIN cfg)"
    and ok: "fault w (DbSelect ''attendance'' [''id'']
               [Eq ''student_id'' (js_prop b ''student_id''),
                Eq ''course'' (js_prop b ''course''),
                Eq ''lecturer'' (js_prop b ''lecturer''),
                Gte ''created_at'' (JNum (startOfDay w)), Lte ''created_at'' (JNum (endOfDay w))] 1) = None"
    and r: "r \<in> set (tables st ''attendance'')"
      "map_of r ''student_id'' = Some (js_prop b ''student_id'')"
      "map_of r ''course'' = Some (js_prop b ''course'')"
      "map_of r ''lecturer'' = Some (js_prop b ''lecturer'')"
      "map_of r ''created_at'' = Some (JNum t)" "startOfDay w \<le> t" "t \<le> endOfDay w"
  shows "post_api_attendance_part000 cfg w req st =
      (res_json 200 [(''ok'', JBool False),
                     (''error'', JStr ''Attendance already taken for this course today'')],
       logged (DbSelect ''attendance'' [''id'']
               [Eq ''student_id'' (js_prop b ''student_id''),
                Eq ''course'' (js_prop b ''course''),
                Eq ''lecturer'' (js_prop b ''lecturer''),
                Gte ''created_at'' (JNum (startOfDay w)), Lte ''created_at'' (JNum (endOfDay w))] 1) st)"
proof -
  have m: "matches [Eq ''student_id'' (js_prop b ''student_id''),
                Eq ''course'' (js_prop b ''course''),
                Eq ''lecturer'' (js_prop b ''lecturer''),
                Gte ''created_at'' (JNum (startOfDay w)), Lte ''created_at'' (JNum (endOfDay w))] r"
    using r by (simp add: matches_def)
  show ?thesis
    using body req pin ok found_nonempty [OF r(1) m, of "[''id'']"]
    by (simp add: post_api_attendance_part000_def db_select_def Let_def)
qed

lemma part001_cjs_duplicate:
  assumes body: "body req = Some b"
    and secret: "strict_eq (js_or (js_or (getenv (headers req) ''x-admin-secret'')
                      (js_prop b ''admin_secret'')) (JStr [])) (ADMIN_SECRET cfg)"
    and sid: "truthy (js_prop b ''student_id'')"
    and ok: "fault w (DbSelect ''attendance'' [''id'']
               [Eq ''student_id'' (js_prop b ''student_id''),
                Eq ''date'' (JNum (today_utc w))] 1) = None"
    and r: "r \<in> set (tables st ''attendance'')"
      "map_of r ''student_id'' = Some (js_prop b ''student_id'')"
      "map_of r ''date'' = Some (JNum (today_utc w))"
  shows "post_api_attendance_part001_cjs cfg w req st =
      (res_json 200 [(''ok'', JBool True), (''message'', JStr ''Already recorded'')],
       logged (DbSelect ''attendance'' [''id'']
               [Eq ''student_id'' (js_prop b ''student_id''),
                Eq ''date'' (JNum (today_utc w))] 1) st)"
proof -
  have m: "matches [Eq ''student_id'' (js_prop b ''student_id''),
                    Eq ''date'' (JNum (today_utc w))] r"
    using r by (simp add: matches_def)
  show ?thesis
    using body sid ok found_nonempty [OF r(1) m, of "[''id'']"]
      cjs_secret_right [where w = w, OF body secret]
    by (simp add: post_api_attendance_part001_cjs_def db_select_def Let_def)
qed

text \<open>
  C1 (amended). Let an accepted \<open>POST /api/attendance\<close> request come for a student who
  has a record in the store. In the servers that look for a record of the day, when the
  look-up succeeds and finds it the answer has HTTP status 200 and nothing is inserted
  (the look-up is the only remote call). The ES-module server of part_001 looks for a
  record of the student made since the start of the UTC day and answers
  \<open>{ok: false, error: "Attendance already taken today"}\<close>; part_000 looks for a record of
  the student, the course and the lecturer between the bounds of the server's local day
  and answers \<open>{ok: false, error: "Attendance already taken for this course today"}\<close>;
  the CommonJS server of part_001 looks for a record of the student with today's date and
  answers \<open>{ok: true, message: "Already recorded"}\<close>. src/index.js and part_002 make no
  look-up: their one remote call is the insert, and when the store accepts it the answer
  is 200 with \<open>ok: true\<close> and one more record is in the table.
\<close>

theorem duplicate_reported_with_200:
  assumes "body req = Some b" and "sid = js_prop b ''student_id''" and "truthy sid"
    and "r \<in> set (tables st ''attendance'')" and "map_of r ''student_id'' = Some sid"
    and "ob = [(''student_id'', sid),
               (''lecturer'', with_default (js_prop b ''lecturer'') (JStr ''Unknown'')),
               (''course'', with_default (js_prop b ''course'') (JStr ''Unknown''))]"
  shows
   "(truthy (js_prop b ''admin_pin'') \<and>
     strict_eq (js_prop b ''admin_pin'') (ADMIN_PIN cfg) \<and>
     fault w (DbSelect ''attendance'' [''*'']
        [Eq ''student_id'' sid, Gte ''created_at'' (JNum (today_utc w))] 1) = None \<and>
     map_of r ''created_at'' = Some (JNum t) \<and> today_utc w \<le> t \<longrightarrow>
       fst (post_api_attendance_part001 cfg w req st) =
         res_json 200 [(''ok'', JBool False), (''error'', JStr ''Attendance already taken today'')]
     \<and> status (fst (post_api_attendance_part001 cfg w req st)) = 200
     \<and> tables (snd (post_api_attendance_part001 cfg w req st)) = tables st
     \<and> new_calls st (snd (post_api_attendance_part001 cfg w req st)) =
         [DbSelect ''attendance'' [''*'']
            [Eq ''student_id'' sid, Gte ''created_at'' (JNum (today_utc w))] 1])
  \<and> (truthy (js_prop b ''lecturer'') \<and> truthy (js_prop b ''course'') \<and>
     strict_eq (js_prop b ''admin_pin'') (ADMIN_PIN cfg) \<and>
     fault w (DbSelect ''attendance'' [''id'']
        [Eq ''student_id'' sid, Eq ''course'' (js_prop b ''course''),
         Eq ''lecturer'' (js_prop b ''lecturer''),
         Gte ''created_at'' (JNum (startOfDay w)), Lte ''created_at'' (JNum (endOfDay w))] 1) = None \<and>
     map_of r ''course'' = Some (js_prop b ''course'') \<and>
     map_of r ''lecturer'' = Some (js_prop b ''lecturer'') \<and>
     map_of r ''created_at'' = Some (JNum t) \<and> startOfDay w \<le> t \<and> t \<le> endOfDay w \<longrightarrow>
       fst (post_api_attendance_part000 cfg w req st) =
         res_json 200 [(''ok'', JBool False),
                       (''error'', JStr ''Attendance already taken for this course today'')]
     \<and> status (fst (post_api_attendance_part000 cfg w req st)) = 200
     \<and> tables (snd (post_api_attendance_part000 cfg w req st)) = tables st
     \<and> new_calls st (snd (post_api_attendance_part000 cfg w req st)) =
         [DbSelect ''attendance'' [''id'']
            [Eq ''student_id'' sid, Eq ''course'' (js_prop b ''course''),
             Eq ''lecturer'' (js_prop b ''lecturer''),
             Gte ''created_at'' (JNum (startOfDay w)), Lte ''created_at'' (JNum (endOfDay w))] 1])
  \<and> (strict_eq (js_or (js_or (getenv (headers req) ''x-admin-secret'')
          (js_prop b ''admin_secret'')) (JStr [])) (ADMIN_SECRET cfg) \<and>
     fault w (DbSelect ''attendance'' [''id'']
        [Eq ''student_id'' sid, Eq ''date'' (JNum (today_utc w))] 1) = None \<and>
     map_of r ''date'' = Some (JNum (today_utc w)) \<longrightarrow>
       fst (post_api_attendance_part001_cjs cfg w req st) =
         res_json 200 [(''ok'', JBool True), (''message'', JStr ''Already recorded'')]
     \<and> status (fst (post_api_attendance_part001_cjs cfg w req st)) = 200
     \<and> tables (snd (post_api_attendance_part001_cjs cfg w req st)) = tables st
     \<and> new_calls st (snd (post_api_attendance_part001_cjs cfg w req st)) =
         [DbSelect ''attendance'' [''id'']
            [Eq ''student_id'' sid, Eq ''date'' (JNum (today_utc w))] 1])
  \<and> (truthy (js_prop b ''admin_pin'') \<and>
     strict_eq (js_prop b ''admin_pin'') (ADMIN_PIN cfg) \<longrightarrow>
       new_calls st (snd (post_api_attendance_index cfg w req st)) = [DbInsert ''attendance'' ob]
     \<and> (fault w (DbInsert ''attendance'' ob) = None \<longrightarrow>
          status (fst (post_api_attendance_index cfg w req st)) = 200
        \<and> json_member (fst (post_api_attendance_index cfg w req st)) ''ok'' = JBool True
        \<and> length (tables (snd (post_api_attendance_index cfg w req st)) ''attendance'') =
            Suc (length (tables st ''attendance''))))
  \<and> (new_calls st (snd (post_api_attendance_part002 cfg w req st)) = [DbInsert ''attendance'' ob]
     \<and> (fault w (DbInsert ''attendance'' ob) = None \<longrightarrow>
          status (fst (post_api_attendance_part002 cfg w req st)) = 200
        \<and> json_member (fst (post_api_attendance_part002 cfg w req st)) ''ok'' = JBool True
        \<and> length (tables (snd (post_api_attendance_part002 cfg w req st)) ''attendance'') =
            Suc (length (tables st ''attendance''))))"
proof -
  have ob: "ob = attendance_object (js_prop b ''student_id'')
                (with_default (js_prop b ''lecturer'') (JStr ''Unknown''))
                (with_default (js_prop b ''course'') (JStr ''Unknown''))"
    by (simp add: assms(2,6) attendance_object_def)
  have sid: "truthy (js_prop b ''student_id'')"
    using assms(2,3) by simp
  have r: "map_of r ''student_id'' = Some (js_prop b ''student_id'')"
    using assms(2,5) by simp
  have p1: "truthy (js_prop b ''admin_pin'') \<and>
     strict_eq (js_prop b ''admin_pin'') (ADMIN_PIN cfg) \<and>
     fault w (DbSelect ''attendance'' [''*'']
        [Eq ''student_id'' sid, Gte ''created_at'' (JNum (today_utc w))] 1) = None \<and>
     map_of r ''created_at'' = Some (JNum t) \<and> today_utc w \<le> t \<longrightarrow>
       fst (post_api_attendance_part001 cfg w req st) =
         res_json 200 [(''ok'', JBool False), (''error'', JStr ''Attendance already taken today'')]
     \<and> status (fst (post_api_attendance_part001 cfg w req st)) = 200
     \<and> tables (snd (post_api_attendance_part001 cfg w req st)) = tables st
     \<and> new_calls st (snd (post_api_attendance_part001 cfg w req st)) =
         [DbSelect ''attendance'' [''*'']
            [Eq ''student_id'' sid, Gte ''created_at'' (JNum (today_utc w))] 1]"
    using part001_duplicate [where cfg = cfg and w = w and st = st and t = t, OF assms(1) sid _ _ _ assms(4) r]
    by (simp add: assms(2))
  have p0: "truthy (js_prop b ''lecturer'') \<and> truthy (js_prop b ''course'') \<and>
     strict_eq (js_prop b ''admin_pin'') (ADMIN_PIN cfg) \<and>
     fault w (DbSelect ''attendance'' [''id'']
        [Eq ''student_id'' sid, Eq ''course'' (js_prop b ''course''),
         Eq ''lecturer'' (js_prop b ''lecturer''),
         Gte ''created_at'' (JNum (startOfDay w)), Lte ''created_at'' (JNum (endOfDay w))] 1) = None \<and>
     map_of r ''course'' = Some (js_prop b ''course'') \<and>
     map_of r ''lecturer'' = Some (js_prop b ''lecturer'') \<and>
     map_of r ''created_at'' = Some (JNum t) \<and> startOfDay w \<le> t \<and> t \<le> endOfDay w \<longrightarrow>
       fst (post_api_attendance_part000 cfg w req st) =
         res_json 200 [(''ok'', JBool False),
                       (''error'', JStr ''Attendance already taken for this course today'')]
     \<and> status (fst (post_api_attendance_part000 cfg w req st)) = 200
     \<and> tables (snd (post_api_attendance_part000 cfg w req st)) = tables st
     \<and> new_calls st (snd (post_api_attendance_part000 cfg w req st)) =
         [DbSelect ''attendance'' [''id'']
            [Eq ''student_id'' sid, Eq ''course'' (js_prop b ''course''),
             Eq ''lecturer'' (js_prop b ''lecturer''),
             Gte ''created_at'' (JNum (startOfDay w)), Lte ''created_at'' (JNum (endOfDay w))] 1]"
    using part000_duplicate [where cfg = cfg and w = w and st = st and t = t, OF assms(1) sid _ _ _ _ assms(4) r]
    by (simp add: assms(2))
  have cjs: "strict_eq (js_or (js_or (getenv (headers req) ''x-admin-secret'')
          (js_prop b ''admin_secret'')) (JStr [])) (ADMIN_SECRET cfg) \<and>
     fault w (DbSelect ''attendance'' [''id'']
        [Eq ''student_id'' sid, Eq ''date'' (JNum (today_utc w))] 1) = None \<and>
     map_of r ''date'' = Some (JNum (today_utc w)) \<longrightarrow>
       fst (post_api_attendance_part001_cjs cfg w req st) =
         res_json 200 [(''ok'', JBool True), (''message'', JStr ''Already recorded'')]
     \<and> status (fst (post_api_attendance_part001_cjs cfg w req st)) = 200
     \<and> tables (snd (post_api_attendance_part001_cjs cfg w req st)) = tables st
     \<and> new_calls st (snd (post_api_attendance_part001_cjs cfg w req st)) =
         [DbSelect ''attendance'' [''id'']
            [Eq ''student_id'' sid, Eq ''date'' (JNum (today_utc w))] 1]"
    using part001_cjs_duplicate [where cfg = cfg and w = w and st = st, OF assms(1) _ sid _ assms(4) r]
    by (simp add: assms(2))
  have i: "truthy (js_prop b ''admin_pin'') \<and>
     strict_eq (js_prop b ''admin_pin'') (ADMIN_PIN cfg) \<longrightarrow>
       new_calls st (snd (post_api_attendance_index cfg w req st)) = [DbInsert ''attendance'' ob]
     \<and> (fault w (DbInsert ''attendance'' ob) = None \<longrightarrow>
          status (fst (post_api_attendance_index cfg w req st)) = 200
        \<and> json_member (fst (post_api_attendance_index cfg w req st)) ''ok'' = JBool True
        \<and> length (tables (snd (post_api_attendance_index cfg w req st)) ''attendance'') =
            Suc (length (tables st ''attendance'')))"
    using index_accepted [where cfg = cfg and w = w and st = st, OF assms(1) sid _ _ ob]
    by (simp add: json_member_def res_json_def obj_field_def)
  have p2: "new_calls st (snd (post_api_attendance_part002 cfg w req st)) = [DbInsert ''attendance'' ob]
     \<and> (fault w (DbInsert ''attendance'' ob) = None \<longrightarrow>
          status (fst (post_api_attendance_part002 cfg w req st)) = 200
        \<and> json_member (fst (post_api_attendance_part002 cfg w req st)) ''ok'' = JBool True
        \<and> length (tables (snd (post_api_attendance_part002 cfg w req st)) ''attendance'') =
            Suc (length (tables st ''attendance'')))"
    using part002_accepted [where cfg = cfg and w = w and st = st, OF assms(1) sid ob]
    by (simp add: json_member_def res_json_def obj_field_def)
  show ?thesis
    by (rule conjI [OF p1 conjI [OF p0 conjI [OF cjs conjI [OF i p2]]]])
qed

theorem duplicate_reported_with_200_witness:
  "body sample_attend = Some sample_attend_body
   \<and> truthy (JStr ''s1'')
   \<and> sample_row \<in> set (tables marked_store ''attendance'')
   \<and> map_of sample_row ''student_id'' = Some (JStr ''s1'')
   \<and> map_of sample_row ''created_at'' = Some (JNum 1700000000000)
   \<and> today_utc sample_world \<le> 1700000000000
   \<and> startOfDay sample_world \<le> 1700000000000
   \<and> 1700000000000 \<le> endOfDay sample_world
   \<and> strict_eq (js_prop sample_attend_body ''admin_pin'') (ADMIN_PIN sample_config)
   \<and> fst (post_api_attendance_part001 sample_config sample_world sample_attend marked_store) =
        res_json 200 [(''ok'', JBool False), (''error'', JStr ''Attendance already taken today'')]
   \<and> tables (snd (post_api_attendance_part001 sample_config sample_world sample_attend marked_store))
        = tables marked_store
   \<and> fst (post_api_attendance_part000 sample_config sample_world sample_attend marked_store) =
        res_json 200 [(''ok'', JBool False),
                      (''error'', JStr ''Attendance already taken for this course today'')]
   \<and> new_calls marked_store
        (snd (post_api_attendance_index sample_config sample_world sample_attend marked_store)) =
        [DbInsert ''attendance'' [(''student_id'', JStr ''s1''), (''lecturer'', JStr ''Dr. Okoro''),
           (''course'', JStr ''CS101'')]]
   \<and> dated_row \<in> set (tables dated_store ''attendance'')
   \<and> map_of dated_row ''date'' = Some (JNum (today_utc sample_world))
   \<and> fst (post_api_attendance_part001_cjs sample_config sample_world sample_attend dated_store) =
        res_json 200 [(''ok'', JBool True), (''message'', JStr ''Already recorded'')]"
proof -
  have h: "body sample_attend = Some sample_attend_body"
    "JStr ''s1'' = js_prop sample_attend_body ''student_id''" "truthy (JStr ''s1'')"
    by (simp_all add: sample_facts)
  have rows: "sample_row \<in> set (tables marked_store ''attendance'')"
    "map_of sample_row ''student_id'' = Some (JStr ''s1'')"
    "dated_row \<in> set (tables dated_store ''attendance'')"
    "map_of dated_row ''student_id'' = Some (JStr ''s1'')"
    by (simp_all add: sample_facts sample_row_def dated_row_def)
  have ob: "[(''student_id'', JStr ''s1''), (''lecturer'', JStr ''Dr. Okoro''), (''course'', JStr ''CS101'')] =
      [(''student_id'', JStr ''s1''),
       (''lecturer'', with_default (js_prop sample_attend_body ''lecturer'') (JStr ''Unknown'')),
       (''course'', with_default (js_prop sample_attend_body ''course'') (JStr ''Unknown''))]"
    by (simp add: sample_facts with_default_def)
  note t1 = duplicate_reported_with_200
      [where cfg = sample_config and w = sample_world and t = 1700000000000,
       OF h rows(1,2) ob]
  note t2 = duplicate_reported_with_200
      [where cfg = sample_config and w = sample_world and t = 1700000000000,
       OF h rows(3,4) ob, THEN conjunct2, THEN conjunct2, THEN conjunct1]
  from t1 t2 show ?thesis
    by (simp add: sample_facts strict_eq_def js_or_def getenv_def)
       (simp add: sample_row_def dated_row_def)
qed

text \<open>
  C1 as stated fails in src/index.js, one of the places it names: the handler does not
  look for a record of the day, so an accepted request for a student who has one is
  answered \<open>{ok: true, attendance: ...}\<close> and a second record is inserted. In the CommonJS
  server of part_001 the answer to a duplicate is \<open>{ok: true, message: "Already recorded"}\<close>.
\<close>

theorem duplicate_counterexample:
  "json_member (fst (post_api_attendance_index sample_config sample_world sample_attend marked_store))
     ''ok'' = JBool True
   \<and> tables (snd (post_api_attendance_index sample_config sample_world sample_attend marked_store))
       ''attendance'' =
       [sample_row,
        [(''id'', JStr ''s 1''), (''created_at'', JNum 1700000000000), (''student_id'', JStr ''s1''),
         (''lecturer'', JStr ''Dr. Okoro''), (''course'', JStr ''CS101'')]]
   \<and> json_member (fst (post_api_attendance_part001_cjs sample_config sample_world sample_attend dated_store))
       ''ok'' = JBool True"
  by (simp add: post_api_attendance_index_def post_api_attendance_part001_cjs_def requireAdmin_def
        sample_facts with_default_def strict_eq_def js_or_def getenv_def db_insert_def db_select_def
        logged_def res_json_def json_member_def obj_field_def matches_def project_def dated_row_def
        Let_def)

subsection \<open>The scanner's GET endpoint\<close>

lemma mark_as_post_body:
  "body (mark_as_post req) =
     Some [''student_id'' \<mapsto> js_prop (query req) ''student_id'',
           ''lecturer'' \<mapsto> JStr ''external-scanner'',
           ''course'' \<mapsto> JStr ''Unknown'',
           ''admin_pin'' \<mapsto> js_prop (query req) ''pin'']"
  by (simp add: mark_as_post_def)

lemma mark_index_follows_post:
  assumes "truthy (js_prop (query req) ''student_id'')" and "truthy (js_prop (query req) ''pin'')"
    and "strict_eq (js_prop (query req) ''pin'') (ADMIN_PIN cfg)"
  shows "snd (get_api_attendance_mark_index cfg w req st) =
           snd (post_api_attendance_index cfg w (mark_as_post req) st)"
    and "status (fst (get_api_attendance_mark_index cfg w req st)) =
           status (fst (post_api_attendance_index cfg w (mark_as_post req) st))"
    and "is_html (fst (get_api_attendance_mark_index cfg w req st))"
  using assms strict_eq_truthy [OF assms(2,3)]
  by (simp_all add: get_api_attendance_mark_index_def post_api_attendance_index_def
        mark_as_post_body js_prop_def with_default_def db_insert_def logged_def is_html_def
        res_send_def res_json_def fail_json_def Let_def split: option.splits)

lemma mark_part001_follows_post:
  assumes "truthy (js_prop (query req) ''student_id'')" and "truthy (js_prop (query req) ''pin'')"
    and "strict_eq (js_prop (query req) ''pin'') (ADMIN_PIN cfg)"
  shows "snd (get_api_attendance_mark_part001 cfg w req st) =
           snd (post_api_attendance_part001 cfg w (mark_as_post req) st)"
    and "status (fst (get_api_attendance_mark_part001 cfg w req st)) =
           status (fst (post_api_attendance_part001 cfg w (mark_as_post req) st))"
    and "is_html (fst (get_api_attendance_mark_part001 cfg w req st))"
  using assms strict_eq_truthy [OF assms(2,3)]
  by (simp_all add: get_api_attendance_mark_part001_def post_api_attendance_part001_def
        mark_as_post_body js_prop_def with_default_def db_insert_def db_select_def logged_def
        is_html_def res_send_def res_json_def fail_json_def Let_def split: option.splits)

lemma mark_index_inserts:
  assumes "truthy (js_prop (query req) ''student_id'')" and "truthy (js_prop (query req) ''pin'')"
    and "strict_eq (js_prop (query req) ''pin'') (ADMIN_PIN cfg)"
    and "ob = attendance_object (js_prop (query req) ''student_id'')
                (JStr ''external-scanner'') (JStr ''Unknown'')"
  shows "new_calls st (snd (get_api_attendance_mark_index cfg w req st)) = [DbInsert ''attendance'' ob]"
    and "fault w (DbInsert ''attendance'' ob) = None \<Longrightarrow>
           fst (get_api_attendance_mark_index cfg w req st) =
             res_send 200 (AttendanceRecorded (js_prop (query req) ''student_id'') (localeTime w))"
    and "fault w (DbInsert ''attendance'' ob) = None \<Longrightarrow>
           tables (snd (get_api_attendance_mark_index cfg w req st)) ''attendance'' =
             tables st ''attendance'' @ [new_row w ob]"
    and "fault w (DbInsert ''attendance'' ob) \<noteq> None \<Longrightarrow>
           fst (get_api_attendance_mark_index cfg w req st) =
             res_send 500 (Plain ''Failed to record attendance'')"
    and "fault w (DbInsert ''attendance'' ob) \<noteq> None \<Longrightarrow>
           tables (snd (get_api_attendance_mark_index cfg w req st)) = tables st"
  using assms
  by (auto simp add: get_api_attendance_mark_index_def attendance_object_def db_insert_def new_row_def
        logged_def new_calls_def Let_def split: option.splits)

lemma mark_part001_fresh:
  assumes "truthy (js_prop (query req) ''student_id'')" and "truthy (js_prop (query req) ''pin'')"
    and "strict_eq (js_prop (query req) ''pin'') (ADMIN_PIN cfg)"
    and "lookup = DbSelect ''attendance'' [''*'']
           [Eq ''student_id'' (js_prop (query req) ''student_id''),
            Gte ''created_at'' (JNum (today_utc w))] 1"
    and "fault w lookup = None"
    and "filter (matches [Eq ''student_id'' (js_prop (query req) ''student_id''),
                          Gte ''created_at'' (JNum (today_utc w))]) (tables st ''attendance'') = []"
    and "ob = attendance_object (js_prop (query req) ''student_id'')
                (JStr ''external-scanner'') (JStr ''Unknown'')"
  shows "new_calls st (snd (get_api_attendance_mark_part001 cfg w req st)) =
           [lookup, DbInsert ''attendance'' ob]"
    and "fault w (DbInsert ''attendance'' ob) = None \<Longrightarrow>
           fst (get_api_attendance_mark_part001 cfg w req st) =
             res_send 200 (AttendanceRecorded (js_prop (query req) ''student_id'') (localeTime w))"
    and "fault w (DbInsert ''attendance'' ob) = None \<Longrightarrow>
           tables (snd (get_api_attendance_mark_part001 cfg w req st)) ''attendance'' =
             tables st ''attendance'' @ [new_row w ob]"
    and "fault w (DbInsert ''attendance'' ob) \<noteq> None \<Longrightarrow>
           fst (get_api_attendance_mark_part001 cfg w req st) =
             res_send 500 (Plain ''Failed to record attendance'')"
    and "fault w (DbInsert ''attendance'' ob) \<noteq> None \<Longrightarrow>
           tables (snd (get_api_attendance_mark_part001 cfg w req st)) = tables st"
  using assms
  by (auto simp add: get_api_attendance_mark_part001_def attendance_object_def db_insert_def
        db_select_def new_row_def logged_def new_calls_def Let_def split: option.splits)

lemma mark_part001_duplicate:
  assumes "truthy (js_prop (query req) ''student_id'')" and "truthy (js_prop (query req) ''pin'')"
    and "strict_eq (js_prop (query req) ''pin'') (ADMIN_PIN cfg)"
    and "lookup = DbSelect ''attendance'' [''*'']
           [Eq ''student_id'' (js_prop (query req) ''student_id''),
            Gte ''created_at'' (JNum (today_utc w))] 1"
    and "fault w lookup = None"
    and r: "r \<in> set (tables st ''attendance'')"
      "map_of r ''student_id'' = Some (js_prop (query req) ''student_id'')"
      "map_of r ''created_at'' = Some (JNum t)" "today_utc w \<le> t"
  shows "get_api_attendance_mark_part001 cfg w req st =
           (res_send 200 AlreadyTakenToday, logged lookup st)"
proof -
  have m: "matches [Eq ''student_id'' (js_prop (query req) ''student_id''),
                    Gte ''created_at'' (JNum (today_utc w))] r"
    using r by (simp add: matches_def)
  show ?thesis
    using assms(1-5) found_nonempty [OF r(1) m, of "[''*'']"]
    by (simp add: get_api_attendance_mark_part001_def db_select_def Let_def)
qed

lemma mark_part001_lookup_fails:
  assumes "truthy (js_prop (query req) ''student_id'')" and "truthy (js_prop (query req) ''pin'')"
    and "strict_eq (js_prop (query req) ''pin'') (ADMIN_PIN cfg)"
    and "lookup = DbSelect ''attendance'' [''*'']
           [Eq ''student_id'' (js_prop (query req) ''student_id''),
            Gte ''created_at'' (JNum (today_utc w))] 1"
    and "fault w lookup \<noteq> None"
  shows "get_api_attendance_mark_part001 cfg w req st =
           (res_send 500 (Plain ''Error checking attendance''), logged lookup st)"
  using assms
  by (auto simp add: get_api_attendance_mark_part001_def db_select_def Let_def)

text \<open>
  C6 (amended). Let a \<open>GET /api/attendance/mark\<close> request carry a student identifier and
  a PIN strictly equal to the configured one, and let the scanner's record be the one
  with that identifier, the lecturer \<open>external-scanner\<close> and the course \<open>Unknown\<close>.

  In src/index.js there is no look-up of the day's records: the one remote call is the
  insert of the scanner's record; when the store accepts it the new row is appended to
  the table and the answer is the page "Attendance Recorded" with status 200, otherwise
  the table is unchanged and the answer is the text "Failed to record attendance" with
  status 500.

  In the ES-module server of part_001 the first remote call is the look-up of a record
  of the student made since the start of the UTC day. When it fails the answer is the
  text "Error checking attendance" with status 500 and nothing else is called. When it
  finds a record the answer is the page "Attendance already taken today" with status
  200 and nothing is inserted. When it finds none the second and last remote call is
  the insert of the scanner's record, answered as in src/index.js.

  In both servers the endpoint leaves the store (tables, objects and log of remote
  calls) as the same server's \<open>POST /api/attendance\<close> does for the same identifier and
  PIN with the lecturer \<open>external-scanner\<close> and the course \<open>Unknown\<close>, with the same
  status, and its answer is a page or a text, not JSON.
\<close>

theorem scanner_mark_follows_post:
  assumes "sid = js_prop (query req) ''student_id''" and "truthy sid"
    and "truthy (js_prop (query req) ''pin'')"
    and "strict_eq (js_prop (query req) ''pin'') (ADMIN_PIN cfg)"
    and "ob = [(''student_id'', sid), (''lecturer'', JStr ''external-scanner''),
               (''course'', JStr ''Unknown'')]"
    and "row = (''id'', JStr (fresh_id w)) # (''created_at'', JNum (now w)) # ob"
    and "lookup = DbSelect ''attendance'' [''*'']
           [Eq ''student_id'' sid, Gte ''created_at'' (JNum (today_utc w))] 1"
  shows
   "(new_calls st (snd (get_api_attendance_mark_index cfg w req st)) = [DbInsert ''attendance'' ob]
     \<and> (fault w (DbInsert ''attendance'' ob) = None \<longrightarrow>
          fst (get_api_attendance_mark_index cfg w req st) =
            res_send 200 (AttendanceRecorded sid (localeTime w))
        \<and> tables (snd (get_api_attendance_mark_index cfg w req st)) ''attendance'' =
            tables st ''attendance'' @ [row])
     \<and> (fault w (DbInsert ''attendance'' ob) \<noteq> None \<longrightarrow>
          fst (get_api_attendance_mark_index cfg w req st) =
            res_send 500 (Plain ''Failed to record attendance'')
        \<and> tables (snd (get_api_attendance_mark_index cfg w req st)) = tables st))
  \<and> (fault w lookup \<noteq> None \<longrightarrow>
       fst (get_api_attendance_mark_part001 cfg w req st) =
         res_send 500 (Plain ''Error checking attendance'')
     \<and> new_calls st (snd (get_api_attendance_mark_part001 cfg w req st)) = [lookup])
  \<and> (fault w lookup = None \<and> r \<in> set (tables st ''attendance'') \<and>
     map_of r ''student_id'' = Some sid \<and> map_of r ''created_at'' = Some (JNum t) \<and>
     today_utc w \<le> t \<longrightarrow>
       fst (get_api_attendance_mark_part001 cfg w req st) = res_send 200 AlreadyTakenToday
     \<and> new_calls st (snd (get_api_attendance_mark_part001 cfg w req st)) = [lookup]
     \<and> tables (snd (get_api_attendance_mark_part001 cfg w req st)) = tables st)
  \<and> (fault w lookup = None \<and>
     filter (matches [Eq ''student_id'' sid, Gte ''created_at'' (JNum (today_utc w))])
       (tables st ''attendance'') = [] \<longrightarrow>
       new_calls st (snd (get_api_attendance_mark_part001 cfg w req st)) =
         [lookup, DbInsert ''attendance'' ob]
     \<and> (fault w (DbInsert ''attendance'' ob) = None \<longrightarrow>
          fst (get_api_attendance_mark_part001 cfg w req st) =
            res_send 200 (AttendanceRecorded sid (localeTime w))
        \<and> tables (snd (get_api_attendance_mark_part001 cfg w req st)) ''attendance'' =
            tables st ''attendance'' @ [row])
     \<and> (fault w (DbInsert ''attendance'' ob) \<noteq> None \<longrightarrow>
          fst (get_api_attendance_mark_part001 cfg w req st) =
            res_send 500 (Plain ''Failed to record attendance'')
        \<and> tables (snd (get_api_attendance_mark_part001 cfg w req st)) = tables st))
  \<and> (snd (get_api_attendance_mark_index cfg w req st) =
       snd (post_api_attendance_index cfg w (mark_as_post req) st)
     \<and> status (fst (get_api_attendance_mark_index cfg w req st)) =
       status (fst (post_api_attendance_index cfg w (mark_as_post req) st))
     \<and> is_html (fst (get_api_attendance_mark_index cfg w req st)))
  \<and> (snd (get_api_attendance_mark_part001 cfg w req st) =
       snd (post_api_attendance_part001 cfg w (mark_as_post req) st)
     \<and> status (fst (get_api_attendance_mark_part001 cfg w req st)) =
       status (fst (post_api_attendance_part001 cfg w (mark_as_post req) st))
     \<and> is_html (fst (get_api_attendance_mark_part001 cfg w req st)))"
proof -
  have sid: "truthy (js_prop (query req) ''student_id'')"
    using assms(1,2) by simp
  have ob: "ob = attendance_object (js_prop (query req) ''student_id'')
                (JStr ''external-scanner'') (JStr ''Unknown'')"
    by (simp add: assms(1,5) attendance_object_def)
  have row: "row = new_row w ob"
    by (simp add: assms(6) new_row_def)
  have lookup: "lookup = DbSelect ''attendance'' [''*'']
           [Eq ''student_id'' (js_prop (query req) ''student_id''),
            Gte ''created_at'' (JNum (today_utc w))] 1"
    by (simp add: assms(1,7))
  have i: "new_calls st (snd (get_api_attendance_mark_index cfg w req st)) = [DbInsert ''attendance'' ob]
     \<and> (fault w (DbInsert ''attendance'' ob) = None \<longrightarrow>
          fst (get_api_attendance_mark_index cfg w req st) =
            res_send 200 (AttendanceRecorded sid (localeTime w))
        \<and> tables (snd (get_api_attendance_mark_index cfg w req st)) ''attendance'' =
            tables st ''attendance'' @ [row])
     \<and> (fault w (DbInsert ''attendance'' ob) \<noteq> None \<longrightarrow>
          fst (get_api_attendance_mark_index cfg w req st) =
            res_send 500 (Plain ''Failed to record attendance'')
        \<and> tables (snd (get_api_attendance_mark_index cfg w req st)) = tables st)"
    using mark_index_inserts [where w = w and st = st, OF sid assms(3,4) ob]
    by (simp add: assms(1) row)
  have f: "fault w lookup \<noteq> None \<longrightarrow>
       fst (get_api_attendance_mark_part001 cfg w req st) =
         res_send 500 (Plain ''Error checking attendance'')
     \<and> new_calls st (snd (get_api_attendance_mark_part001 cfg w req st)) = [lookup]"
    using mark_part001_lookup_fails [where st = st, OF sid assms(3,4) lookup]
    by (simp add: new_calls_def logged_def)
  have d: "fault w lookup = None \<and> r \<in> set (tables st ''attendance'') \<and>
     map_of r ''student_id'' = Some sid \<and> map_of r ''created_at'' = Some (JNum t) \<and>
     today_utc w \<le> t \<longrightarrow>
       fst (get_api_attendance_mark_part001 cfg w req st) = res_send 200 AlreadyTakenToday
     \<and> new_calls st (snd (get_api_attendance_mark_part001 cfg w req st)) = [lookup]
     \<and> tables (snd (get_api_attendance_mark_part001 cfg w req st)) = tables st"
    using mark_part001_duplicate [where st = st and r = r and t = t, OF sid assms(3,4) lookup]
    by (simp add: new_calls_def logged_def assms(1))
  have n: "fault w lookup = None \<and>
     filter (matches [Eq ''student_id'' sid, Gte ''created_at'' (JNum (today_utc w))])
       (tables st ''attendance'') = [] \<longrightarrow>
       new_calls st (snd (get_api_attendance_mark_part001 cfg w req st)) =
         [lookup, DbInsert ''attendance'' ob]
     \<and> (fault w (DbInsert ''attendance'' ob) = None \<longrightarrow>
          fst (get_api_attendance_mark_part001 cfg w req st) =
            res_send 200 (AttendanceRecorded sid (localeTime w))
        \<and> tables (snd (get_api_attendance_mark_part001 cfg w req st)) ''attendance'' =
            tables st ''attendance'' @ [row])
     \<and> (fault w (DbInsert ''attendance'' ob) \<noteq> None \<longrightarrow>
          fst (get_api_attendance_mark_part001 cfg w req st) =
            res_send 500 (Plain ''Failed to record attendance'')
        \<and> tables (snd (get_api_attendance_mark_part001 cfg w req st)) = tables st)"
    using mark_part001_fresh [where st = st, OF sid assms(3,4) lookup _ _ ob]
    by (simp add: assms(1) row)
  have ri: "snd (get_api_attendance_mark_index cfg w req st) =
       snd (post_api_attendance_index cfg w (mark_as_post req) st)
     \<and> status (fst (get_api_attendance_mark_index cfg w req st)) =
       status (fst (post_api_attendance_index cfg w (mark_as_post req) st))
     \<and> is_html (fst (get_api_attendance_mark_index cfg w req st))"
    using mark_index_follows_post [OF sid assms(3,4)] by simp
  have rp: "snd (get_api_attendance_mark_part001 cfg w req st) =
       snd (post_api_attendance_part001 cfg w (mark_as_post req) st)
     \<and> status (fst (get_api_attendance_mark_part001 cfg w req st)) =
       status (fst (post_api_attendance_part001 cfg w (mark_as_post req) st))
     \<and> is_html (fst (get_api_attendance_mark_part001 cfg w req st))"
    using mark_part001_follows_post [OF sid assms(3,4)] by simp
  show ?thesis
    by (rule conjI [OF i conjI [OF f conjI [OF d conjI [OF n conjI [OF ri rp]]]]])
qed

theorem scanner_mark_follows_post_witness:
  "truthy (JStr ''s2'')
   \<and> strict_eq (js_prop (query (mark_request [''student_id'' \<mapsto> JStr ''s2'', ''pin'' \<mapsto> JStr ''1234''])) ''pin'')
        (ADMIN_PIN sample_config)
   \<and> fault sample_world (DbInsert ''attendance''
        [(''student_id'', JStr ''s2''), (''lecturer'', JStr ''external-scanner''),
         (''course'', JStr ''Unknown'')]) = None
   \<and> filter (matches [Eq ''student_id'' (JStr ''s2''), Gte ''created_at'' (JNum (today_utc sample_world))])
        (tables marked_store ''attendance'') = []
   \<and> new_calls marked_store (snd (get_api_attendance_mark_part001 sample_config sample_world
        (mark_request [''student_id'' \<mapsto> JStr ''s2'', ''pin'' \<mapsto> JStr ''1234'']) marked_store)) =
      [DbSelect ''attendance'' [''*'']
         [Eq ''student_id'' (JStr ''s2''), Gte ''created_at'' (JNum (today_utc sample_world))] 1,
       DbInsert ''attendance''
         [(''student_id'', JStr ''s2''), (''lecturer'', JStr ''external-scanner''),
          (''course'', JStr ''Unknown'')]]
   \<and> fst (get_api_attendance_mark_part001 sample_config sample_world
        (mark_request [''student_id'' \<mapsto> JStr ''s2'', ''pin'' \<mapsto> JStr ''1234'']) marked_store) =
      res_send 200 (AttendanceRecorded (JStr ''s2'') (localeTime sample_world))
   \<and> tables (snd (get_api_attendance_mark_index sample_config sample_world
        (mark_request [''student_id'' \<mapsto> JStr ''s2'', ''pin'' \<mapsto> JStr ''1234'']) marked_store)) ''attendance'' =
      [sample_row,
       [(''id'', JStr ''s 1''), (''created_at'', JNum 1700000000000), (''student_id'', JStr ''s2''),
        (''lecturer'', JStr ''external-scanner''), (''course'', JStr ''Unknown'')]]
   \<and> is_html (fst (get_api_attendance_mark_index sample_config sample_world
        (mark_request [''student_id'' \<mapsto> JStr ''s2'', ''pin'' \<mapsto> JStr ''1234'']) marked_store))"
proof -
  let ?req = "mark_request [''student_id'' \<mapsto> JStr ''s2'', ''pin'' \<mapsto> JStr ''1234'']"
  have sid: "JStr ''s2'' = js_prop (query ?req) ''student_id''" "truthy (JStr ''s2'')"
    and pin: "truthy (js_prop (query ?req) ''pin'')"
    and eq: "strict_eq (js_prop (query ?req) ''pin'') (ADMIN_PIN sample_config)"
    by (simp_all add: mark_request_def js_prop_def strict_eq_def sample_facts)
  have ok: "fault sample_world (DbInsert ''attendance''
        [(''student_id'', JStr ''s2''), (''lecturer'', JStr ''external-scanner''),
         (''course'', JStr ''Unknown'')]) = None"
    "fault sample_world (DbSelect ''attendance'' [''*'']
         [Eq ''student_id'' (JStr ''s2''), Gte ''created_at'' (JNum (today_utc sample_world))] 1) = None"
    by (simp_all add: sample_facts)
  have none: "filter (matches [Eq ''student_id'' (JStr ''s2''), Gte ''created_at'' (JNum (today_utc sample_world))])
        (tables marked_store ''attendance'') = []"
    by (simp add: sample_facts matches_def sample_row_def)
  have rows: "tables marked_store ''attendance'' = [sample_row]"
    "fresh_id sample_world = ''s 1''" "now sample_world = 1700000000000"
    by (simp_all add: sample_facts)
  note t = scanner_mark_follows_post
      [where cfg = sample_config and w = sample_world and st = marked_store
         and r = sample_row and t = 0,
       OF sid pin eq refl refl refl]
  note i = t [THEN conjunct1]
  note n = t [THEN conjunct2, THEN conjunct2, THEN conjunct2, THEN conjunct1]
  note h = t [THEN conjunct2, THEN conjunct2, THEN conjunct2, THEN conjunct2, THEN conjunct1,
              THEN conjunct2, THEN conjunct2]
  from i n h sid(2) eq ok none rows show ?thesis
    by simp
qed

text \<open>
  C6 as stated fails in src/index.js, one of the places it names: there is no look-up of
  the day's records before the insert. For a student who has a record of the day the
  only remote call is the insert, and a second record is stored.
\<close>

theorem scanner_mark_counterexample:
  "new_calls marked_store (snd (get_api_attendance_mark_index sample_config sample_world
      (mark_request [''student_id'' \<mapsto> JStr ''s1'', ''pin'' \<mapsto> JStr ''1234'']) marked_store)) =
     [DbInsert ''attendance'' [(''student_id'', JStr ''s1''), (''lecturer'', JStr ''external-scanner''),
        (''course'', JStr ''Unknown'')]]
   \<and> tables (snd (get_api_attendance_mark_index sample_config sample_world
      (mark_request [''student_id'' \<mapsto> JStr ''s1'', ''pin'' \<mapsto> JStr ''1234'']) marked_store)) ''attendance'' =
     [sample_row,
      [(''id'', JStr ''s 1''), (''created_at'', JNum 1700000000000), (''student_id'', JStr ''s1''),
       (''lecturer'', JStr ''external-scanner''), (''course'', JStr ''Unknown'')]]"
  by (simp add: get_api_attendance_mark_index_def mark_request_def js_prop_def sample_facts
        strict_eq_def db_insert_def logged_def new_calls_def Let_def)

subsection \<open>Registration\<close>

lemma student_row_id [simp]:
  "obj_field ((''id'', v) # r) ''id'' = v"
  by (simp add: obj_field_def)

lemma index_student_bodiless:
  "body req = None \<Longrightarrow>
     post_api_student_index cfg w req st = (caught_string (type_error w) ''TypeError'', st)"
  by (simp add: post_api_student_index_def)

lemma index_student_missing:
  "body req \<noteq> None \<Longrightarrow> \<not> required_present req \<Longrightarrow>
     post_api_student_index cfg w req st = (fail_json 400 ''Missing required fields'', st)"
  by (auto simp add: post_api_student_index_def required_present_def Let_def)

lemma index_student_insert_fails:
  assumes "required_present req"
    and "fault w (insert_student_call req) = Some e"
  shows "post_api_student_index cfg w req st = (fail_json 500 e, logged (insert_student_call req) st)"
proof -
  from assms(1) obtain b where b: "body req = Some b"
    by (auto simp add: required_present_def split: option.splits)
  show ?thesis
    using assms b
    by (simp add: post_api_student_index_def required_present_def insert_student_call_def
        db_insert_def Let_def)
qed

lemma index_student_encoder_fails:
  assumes "required_present req"
    and "fault w (insert_student_call req) = None"
    and "qr_fault w EcH (scan_link cfg (fresh_id w)) = Some e"
  shows "status (fst (post_api_student_index cfg w req st)) = 500"
proof -
  from assms(1) obtain b where b: "body req = Some b"
    by (auto simp add: required_present_def split: option.splits)
  show ?thesis
    using assms b
    by (simp add: post_api_student_index_def required_present_def insert_student_call_def
        scan_link_def db_insert_def QRCode_toBuffer_def
        Let_def split: prod.splits)
qed

lemma index_student_qr_fails:
  assumes "required_present req"
    and "fault w (insert_student_call req) = None"
    and "qr_fault w EcH (scan_link cfg (fresh_id w)) = None"
    and "fault w (qr_upload_call w EcH (scan_link cfg (fresh_id w))) = Some e"
  shows "fst (post_api_student_index cfg w req st) = fail_json 500 ''Failed to upload QR code''"
proof -
  from assms(1) obtain b where b: "body req = Some b"
    by (auto simp add: required_present_def split: option.splits)
  show ?thesis
    using assms b
    by (simp add: post_api_student_index_def required_present_def insert_student_call_def
        qr_upload_call_def scan_link_def db_insert_def storage_upload_def QRCode_toBuffer_def
        Let_def split: prod.splits)
qed

lemma index_student_ok_parsed:
  assumes "body req = Some b" and "required_present req" and "fault w (insert_student_call req) = None"
    and "qr_fault w EcH (scan_link cfg (fresh_id w)) = None"
    and "fault w (qr_upload_call w EcH (scan_link cfg (fresh_id w))) = None"
  shows "status (fst (post_api_student_index cfg w req st)) = 200"
    and "json_member (fst (post_api_student_index cfg w req st)) ''ok'' = JBool True"
    and "student_member (fst (post_api_student_index cfg w req st)) ''id'' = JStr (fresh_id w)"
    and "student_member (fst (post_api_student_index cfg w req st)) ''photo_url'' =
           fst (upload_photo_checked w req (JStr (fresh_id w))
                 (snd (db_insert w ''students''
                   (student_fields (case body req of None \<Rightarrow> (\<lambda>k. None) | Some b \<Rightarrow> b)) st)))"
  using assms
  by (simp_all add: post_api_student_index_def required_present_def insert_student_call_def
        qr_upload_call_def scan_link_def db_insert_def storage_upload_def QRCode_toBuffer_def
        res_json_def json_member_def student_member_def obj_field_def update_conv'
        Let_def split: prod.splits)

lemma index_student_ok:
  assumes "required_present req" and "fault w (insert_student_call req) = None"
    and "qr_fault w EcH (scan_link cfg (fresh_id w)) = None"
    and "fault w (qr_upload_call w EcH (scan_link cfg (fresh_id w))) = None"
  shows "status (fst (post_api_student_index cfg w req st)) = 200"
    and "json_member (fst (post_api_student_index cfg w req st)) ''ok'' = JBool True"
    and "student_member (fst (post_api_student_index cfg w req st)) ''id'' = JStr (fresh_id w)"
    and "student_member (fst (post_api_student_index cfg w req st)) ''photo_url'' =
           fst (upload_photo_checked w req (JStr (fresh_id w))
                 (snd (db_insert w ''students''
                   (student_fields (case body req of None \<Rightarrow> (\<lambda>k. None) | Some b \<Rightarrow> b)) st)))"
proof -
  from assms(1) obtain b where b: "body req = Some b"
    by (auto simp add: required_present_def split: option.splits)
  show "status (fst (post_api_student_index cfg w req st)) = 200"
    and "json_member (fst (post_api_student_index cfg w req st)) ''ok'' = JBool True"
    and "student_member (fst (post_api_student_index cfg w req st)) ''id'' = JStr (fresh_id w)"
    and "student_member (fst (post_api_student_index cfg w req st)) ''photo_url'' =
           fst (upload_photo_checked w req (JStr (fresh_id w))
                 (snd (db_insert w ''students''
                   (student_fields (case body req of None \<Rightarrow> (\<lambda>k. None) | Some b \<Rightarrow> b)) st)))"
    by (rule index_student_ok_parsed [OF b assms])+
qed

lemma index_student_status:
  "status (fst (post_api_student_index cfg w req st)) = 200 \<longleftrightarrow>
     required_present req \<and> fault w (insert_student_call req) = None \<and>
     qr_fault w EcH (scan_link cfg (fresh_id w)) = None \<and>
     fault w (qr_upload_call w EcH (scan_link cfg (fresh_id w))) = None"
proof (cases "body req")
  case None
  then show ?thesis
    by (simp add: index_student_bodiless required_present_def)
next
  case parsed: (Some b)
  show ?thesis
  proof (cases "required_present req")
    case False
    with parsed show ?thesis
      by (simp add: index_student_missing)
  next
    case present: True
    show ?thesis
    proof (cases "fault w (insert_student_call req)")
      case (Some e)
      with present show ?thesis
        by (simp add: index_student_insert_fails)
    next
      case inserted: None
      show ?thesis
      proof (cases "qr_fault w EcH (scan_link cfg (fresh_id w))")
        case (Some e)
        with present inserted show ?thesis
          by (simp add: index_student_encoder_fails)
      next
        case encoded: None
        show ?thesis
        proof (cases "fault w (qr_upload_call w EcH (scan_link cfg (fresh_id w)))")
          case (Some e)
          with present inserted encoded show ?thesis
            by (simp add: index_student_qr_fails)
        next
          case None
          with present inserted encoded show ?thesis
            by (simp add: index_student_ok(1))
        qed
      qed
    qed
  qed
qed

lemma upload_photo_checked_calls:
  "calls (snd (upload_photo_checked w req (JStr (fresh_id w)) st)) =
     calls st @ (case req_file req of None \<Rightarrow> [] | Some f \<Rightarrow> [photo_upload_call w f])"
  by (simp add: upload_photo_checked_def photo_upload_call_def storage_upload_def logged_def Let_def
        split: option.splits)

lemma upload_photo_unchecked_calls:
  "calls (snd (upload_photo_unchecked w req (JStr (fresh_id w)) st)) =
     calls st @ (case req_file req of None \<Rightarrow> [] | Some f \<Rightarrow> [photo_upload_call w f])"
  by (simp add: upload_photo_unchecked_def photo_upload_call_def storage_upload_def logged_def Let_def
        split: option.splits)

lemma upload_photo_checked_failed:
  "req_file req = Some f \<Longrightarrow> fault w (photo_upload_call w f) = Some e \<Longrightarrow>
     fst (upload_photo_checked w req (JStr (fresh_id w)) st) = JNull"
  by (simp add: upload_photo_checked_def photo_upload_call_def storage_upload_def Let_def)

lemma qr_texts_photo [simp]:
  "qr_texts (cs @ ds) = qr_texts cs @ qr_texts ds"
  "qr_texts [] = []"
  "qr_texts (c # cs) = qr_text_of c @ qr_texts cs"
  "qr_text_of (photo_upload_call w f) = []"
  "qr_text_of (qr_upload_call w lvl txt) = [txt]"
  "qr_text_of (insert_student_call req) = []"
  by (simp_all add: qr_texts_def photo_upload_call_def qr_upload_call_def insert_student_call_def)

lemma index_student_calls:
  assumes "required_present req" and "fault w (insert_student_call req) = None"
    and "qr_fault w EcH (scan_link cfg (fresh_id w)) = None"
    and "fault w (qr_upload_call w EcH (scan_link cfg (fresh_id w))) = None"
  shows "\<exists>upd. new_calls st (snd (post_api_student_index cfg w req st)) =
           insert_student_call req #
           (case req_file req of None \<Rightarrow> [] | Some f \<Rightarrow> [photo_upload_call w f]) @
           [qr_upload_call w EcH (scan_link cfg (fresh_id w)),
            DbUpdate ''students'' upd [Eq ''id'' (JStr (fresh_id w))]]"
proof -
  from assms(1) obtain b where b: "body req = Some b"
    by (auto simp add: required_present_def split: option.splits)
  show ?thesis
    using assms b
    by (simp add: post_api_student_index_def required_present_def insert_student_call_def
        qr_upload_call_def scan_link_def db_insert_def storage_upload_def db_update_def
        QRCode_toBuffer_def logged_def new_calls_def upload_photo_checked_calls
        Let_def case_prod_beta split: option.splits)
qed

lemma index_student_qr_texts:
  assumes "status (fst (post_api_student_index cfg w req st)) = 200"
  shows "qr_texts (new_calls st (snd (post_api_student_index cfg w req st))) =
           [scan_link cfg (fresh_id w)]"
proof -
  from assms have ok: "required_present req" "fault w (insert_student_call req) = None"
    "qr_fault w EcH (scan_link cfg (fresh_id w)) = None"
    "fault w (qr_upload_call w EcH (scan_link cfg (fresh_id w))) = None"
    by (simp_all add: index_student_status)
  from index_student_calls [OF ok, of st] obtain upd where
    "new_calls st (snd (post_api_student_index cfg w req st)) =
           insert_student_call req #
           (case req_file req of None \<Rightarrow> [] | Some f \<Rightarrow> [photo_upload_call w f]) @
           [qr_upload_call w EcH (scan_link cfg (fresh_id w)),
            DbUpdate ''students'' upd [Eq ''id'' (JStr (fresh_id w))]]" ..
  then show ?thesis
    by (simp split: option.splits)
qed

lemma part001_student_is_index:
  "post_api_student_part001 cfg w req st = post_api_student_index cfg w req st"
  by (simp add: post_api_student_part001_def post_api_student_index_def)

lemma part000_student_bodiless:
  "body req = None \<Longrightarrow>
     post_api_student_part000 cfg w req st = (fail_json 500 ''Registration failed'', st)"
  by (simp add: post_api_student_part000_def)

lemma part000_student_missing:
  "body req \<noteq> None \<Longrightarrow> \<not> required_present req \<Longrightarrow>
     post_api_student_part000 cfg w req st = (fail_json 400 ''Missing required fields'', st)"
  by (auto simp add: post_api_student_part000_def required_present_def Let_def)

lemma part000_student_insert_fails:
  assumes "required_present req"
    and "fault w (insert_student_call req) = Some e"
  shows "post_api_student_part000 cfg w req st = (fail_json 500 e, logged (insert_student_call req) st)"
proof -
  from assms(1) obtain b where b: "body req = Some b"
    by (auto simp add: required_present_def split: option.splits)
  show ?thesis
    using assms b
    by (simp add: post_api_student_part000_def required_present_def insert_student_call_def
        db_insert_def Let_def)
qed

lemma part000_student_encoder_fails:
  assumes "required_present req"
    and "fault w (insert_student_call req) = None"
    and "qr_fault w EcM (to_str (FRONTEND_URL cfg) @ ''/scan?id='' @ fresh_id w) = Some e"
  shows "status (fst (post_api_student_part000 cfg w req st)) = 500"
proof -
  from assms(1) obtain b where b: "body req = Some b"
    by (auto simp add: required_present_def split: option.splits)
  show ?thesis
    using assms b
    by (simp add: post_api_student_part000_def required_present_def insert_student_call_def
        db_insert_def QRCode_toBuffer_def
        Let_def split: prod.splits)
qed

lemma part000_student_ok_parsed:
  assumes "body req = Some b" and "required_present req" and "fault w (insert_student_call req) = None"
    and "qr_fault w EcM (to_str (FRONTEND_URL cfg) @ ''/scan?id='' @ fresh_id w) = None"
  shows "status (fst (post_api_student_part000 cfg w req st)) = 200"
    and "json_member (fst (post_api_student_part000 cfg w req st)) ''ok'' = JBool True"
    and "student_member (fst (post_api_student_part000 cfg w req st)) ''id'' = JStr (fresh_id w)"
  using assms
  by (simp_all add: post_api_student_part000_def required_present_def insert_student_call_def
        db_insert_def QRCode_toBuffer_def res_json_def json_member_def student_member_def
        obj_field_def update_conv' Let_def split: prod.splits)

lemma part000_student_ok:
  assumes "required_present req" and "fault w (insert_student_call req) = None"
    and "qr_fault w EcM (to_str (FRONTEND_URL cfg) @ ''/scan?id='' @ fresh_id w) = None"
  shows "status (fst (post_api_student_part000 cfg w req st)) = 200"
    and "json_member (fst (post_api_student_part000 cfg w req st)) ''ok'' = JBool True"
    and "student_member (fst (post_api_student_part000 cfg w req st)) ''id'' = JStr (fresh_id w)"
proof -
  from assms(1) obtain b where b: "body req = Some b"
    by (auto simp add: required_present_def split: option.splits)
  show "status (fst (post_api_student_part000 cfg w req st)) = 200"
    and "json_member (fst (post_api_student_part000 cfg w req st)) ''ok'' = JBool True"
    and "student_member (fst (post_api_student_part000 cfg w req st)) ''id'' = JStr (fresh_id w)"
    by (rule part000_student_ok_parsed [OF b assms])+
qed

lemma part000_student_status:
  "status (fst (post_api_student_part000 cfg w req st)) = 200 \<longleftrightarrow>
     required_present req \<and> fault w (insert_student_call req) = None \<and>
     qr_fault w EcM (to_str (FRONTEND_URL cfg) @ ''/scan?id='' @ fresh_id w) = None"
proof (cases "body req")
  case None
  then show ?thesis
    by (simp add: part000_student_bodiless required_present_def)
next
  case parsed: (Some b)
  show ?thesis
  proof (cases "required_present req")
    case False
    with parsed show ?thesis
      by (simp add: part000_student_missing)
  next
    case present: True
    show ?thesis
    proof (cases "fault w (insert_student_call req)")
      case (Some e)
      with present show ?thesis
        by (simp add: part000_student_insert_fails)
    next
      case inserted: None
      show ?thesis
      proof (cases "qr_fault w EcM (to_str (FRONTEND_URL cfg) @ ''/scan?id='' @ fresh_id w)")
        case (Some e)
        with present inserted show ?thesis
          by (simp add: part000_student_encoder_fails)
      next
        case None
        with present inserted show ?thesis
          by (simp add: part000_student_ok(1))
      qed
    qed
  qed
qed

lemma part000_student_calls:
  assumes "required_present req" and "fault w (insert_student_call req) = None"
    and "qr_fault w EcM (to_str (FRONTEND_URL cfg) @ ''/scan?id='' @ fresh_id w) = None"
  shows "\<exists>upd. new_calls st (snd (post_api_student_part000 cfg w req st)) =
           insert_student_call req #
           (case req_file req of None \<Rightarrow> [] | Some f \<Rightarrow> [photo_upload_call w f]) @
           [qr_upload_call w EcM (to_str (FRONTEND_URL cfg) @ ''/scan?id='' @ fresh_id w),
            DbUpdate ''students'' upd [Eq ''id'' (JStr (fresh_id w))]]"
proof -
  from assms(1) obtain b where b: "body req = Some b"
    by (auto simp add: required_present_def split: option.splits)
  show ?thesis
    using assms b
    by (simp add: post_api_student_part000_def required_present_def insert_student_call_def
        qr_upload_call_def db_insert_def storage_upload_def db_update_def
        QRCode_toBuffer_def logged_def new_calls_def upload_photo_unchecked_calls
        Let_def case_prod_beta split: option.splits)
qed

lemma part000_student_qr_texts:
  assumes "status (fst (post_api_student_part000 cfg w req st)) = 200"
  shows "qr_texts (new_calls st (snd (post_api_student_part000 cfg w req st))) =
           [to_str (FRONTEND_URL cfg) @ ''/scan?id='' @ fresh_id w]"
proof -
  from assms have ok: "required_present req" "fault w (insert_student_call req) = None"
    "qr_fault w EcM (to_str (FRONTEND_URL cfg) @ ''/scan?id='' @ fresh_id w) = None"
    by (simp_all add: part000_student_status)
  from part000_student_calls [OF ok, of st] obtain upd where
    "new_calls st (snd (post_api_student_part000 cfg w req st)) =
           insert_student_call req #
           (case req_file req of None \<Rightarrow> [] | Some f \<Rightarrow> [photo_upload_call w f]) @
           [qr_upload_call w EcM (to_str (FRONTEND_URL cfg) @ ''/scan?id='' @ fresh_id w),
            DbUpdate ''students'' upd [Eq ''id'' (JStr (fresh_id w))]]" ..
  then show ?thesis
    by (simp split: option.splits)
qed

lemma part002_student_bodiless:
  "body req = None \<Longrightarrow>
     post_api_student_part002 cfg w req st = (fail_json 500 (type_error w), st)"
  by (simp add: post_api_student_part002_def)

lemma part002_student_missing:
  "body req \<noteq> None \<Longrightarrow> \<not> required_present req \<Longrightarrow>
     post_api_student_part002 cfg w req st =
       (fail_json 400 ''Missing required fields: name, username, email, matric_number'', st)"
  by (auto simp add: post_api_student_part002_def required_present_def Let_def)

lemma part002_student_insert_fails:
  assumes "required_present req"
    and "fault w (insert_student_call req) = Some e"
  shows "post_api_student_part002 cfg w req st = (fail_json 500 e, logged (insert_student_call req) st)"
proof -
  from assms(1) obtain b where b: "body req = Some b"
    by (auto simp add: required_present_def split: option.splits)
  show ?thesis
    using assms b
    by (simp add: post_api_student_part002_def required_present_def insert_student_call_def
        db_insert_def Let_def)
qed

lemma part002_student_encoder_fails:
  assumes "required_present req"
    and "fault w (insert_student_call req) = None"
    and "qr_fault w EcM (id_payload (fresh_id w)) = Some e"
  shows "status (fst (post_api_student_part002 cfg w req st)) = 500"
proof -
  from assms(1) obtain b where b: "body req = Some b"
    by (auto simp add: required_present_def split: option.splits)
  show ?thesis
    using assms b
    by (simp add: post_api_student_part002_def required_present_def insert_student_call_def
        id_payload_def db_insert_def QRCode_toBuffer_def
        Let_def del: JSON_stringify.simps split: prod.splits)
qed

lemma part002_student_ok_parsed:
  assumes "body req = Some b" and "required_present req" and "fault w (insert_student_call req) = None"
    and "qr_fault w EcM (id_payload (fresh_id w)) = None"
  shows "status (fst (post_api_student_part002 cfg w req st)) = 200"
    and "json_member (fst (post_api_student_part002 cfg w req st)) ''ok'' = JBool True"
    and "student_member (fst (post_api_student_part002 cfg w req st)) ''id'' = JStr (fresh_id w)"
  using assms
  by (simp_all add: post_api_student_part002_def required_present_def insert_student_call_def
        id_payload_def db_insert_def QRCode_toBuffer_def res_json_def json_member_def
        student_member_def obj_field_def update_conv'
        Let_def del: JSON_stringify.simps split: prod.splits)

lemma part002_student_ok:
  assumes "required_present req" and "fault w (insert_student_call req) = None"
    and "qr_fault w EcM (id_payload (fresh_id w)) = None"
  shows "status (fst (post_api_student_part002 cfg w req st)) = 200"
    and "json_member (fst (post_api_student_part002 cfg w req st)) ''ok'' = JBool True"
    and "student_member (fst (post_api_student_part002 cfg w req st)) ''id'' = JStr (fresh_id w)"
proof -
  from assms(1) obtain b where b: "body req = Some b"
    by (auto simp add: required_present_def split: option.splits)
  show "status (fst (post_api_student_part002 cfg w req st)) = 200"
    and "json_member (fst (post_api_student_part002 cfg w req st)) ''ok'' = JBool True"
    and "student_member (fst (post_api_student_part002 cfg w req st)) ''id'' = JStr (fresh_id w)"
    by (rule part002_student_ok_parsed [OF b assms])+
qed

lemma part002_student_status:
  "status (fst (post_api_student_part002 cfg w req st)) = 200 \<longleftrightarrow>
     required_present req \<and> fault w (insert_student_call req) = None \<and>
     qr_fault w EcM (id_payload (fresh_id w)) = None"
proof (cases "body req")
  case None
  then show ?thesis
    by (simp add: part002_student_bodiless required_present_def)
next
  case parsed: (Some b)
  show ?thesis
  proof (cases "required_present req")
    case False
    with parsed show ?thesis
      by (simp add: part002_student_missing)
  next
    case present: True
    show ?thesis
    proof (cases "fault w (insert_student_call req)")
      case (Some e)
      with present show ?thesis
        by (simp add: part002_student_insert_fails)
    next
      case inserted: None
      show ?thesis
      proof (cases "qr_fault w EcM (id_payload (fresh_id w))")
        case (Some e)
        with present inserted show ?thesis
          by (simp add: part002_student_encoder_fails)
      next
        case None
        with present inserted show ?thesis
          by (simp add: part002_student_ok(1))
      qed
    qed
  qed
qed

lemma part002_student_calls:
  assumes "required_present req" and "fault w (insert_student_call req) = None"
    and "qr_fault w EcM (id_payload (fresh_id w)) = None"
  shows "\<exists>upd. new_calls st (snd (post_api_student_part002 cfg w req st)) =
           insert_student_call req #
           (case req_file req of None \<Rightarrow> [] | Some f \<Rightarrow> [photo_upload_call w f]) @
           [qr_upload_call w EcM (id_payload (fresh_id w)),
            DbUpdate ''students'' upd [Eq ''id'' (JStr (fresh_id w))]]"
proof -
  from assms(1) obtain b where b: "body req = Some b"
    by (auto simp add: required_present_def split: option.splits)
  show ?thesis
    using assms b
    by (simp add: post_api_student_part002_def required_present_def insert_student_call_def
        qr_upload_call_def id_payload_def db_insert_def storage_upload_def db_update_def
        QRCode_toBuffer_def logged_def new_calls_def upload_photo_checked_calls
        Let_def case_prod_beta del: JSON_stringify.simps split: option.splits)
qed

lemma part002_student_qr_texts:
  assumes "status (fst (post_api_student_part002 cfg w req st)) = 200"
  shows "qr_texts (new_calls st (snd (post_api_student_part002 cfg w req st))) =
           [id_payload (fresh_id w)]"
proof -
  from assms have ok: "required_present req" "fault w (insert_student_call req) = None"
    "qr_fault w EcM (id_payload (fresh_id w)) = None"
    by (simp_all add: part002_student_status)
  from part002_student_calls [OF ok, of st] obtain upd where
    "new_calls st (snd (post_api_student_part002 cfg w req st)) =
           insert_student_call req #
           (case req_file req of None \<Rightarrow> [] | Some f \<Rightarrow> [photo_upload_call w f]) @
           [qr_upload_call w EcM (id_payload (fresh_id w)),
            DbUpdate ''students'' upd [Eq ''id'' (JStr (fresh_id w))]]" ..
  then show ?thesis
    by (simp split: option.splits)
qed

lemma json_plain_escape:
  "list_all json_plain s \<Longrightarrow> concat (map json_escape s) = s"
proof (induction s)
  case Nil
  then show ?case by simp
next
  case (Cons c s)
  from Cons.prems have c: "json_plain c" and s: "list_all json_plain s"
    by simp_all
  from c have "json_escape c = [c]"
    by (cases c) (auto simp add: json_plain_def json_escape_def Let_def)
  with Cons.IH [OF s] show ?case by simp
qed

lemma id_payload_text:
  "id_payload sid = CHR ''{'' # json_quote ''id'' @ CHR '':'' # json_quote sid @ ''}''"
  by (simp add: id_payload_def)

lemma id_payload_plain:
  "list_all json_plain sid \<Longrightarrow>
     id_payload sid =
       [CHR ''{'', CHR 0x22, CHR ''i'', CHR ''d'', CHR 0x22, CHR '':'', CHR 0x22] @ sid @
       [CHR 0x22, CHR ''}'']"
  by (simp add: id_payload_def json_quote_def json_plain_escape)
     (simp add: json_escape_def)

lemma student_request_facts:
  "required_present (student_request f)"
  "req_file (student_request f) = f"
  "body (student_request f) \<noteq> None"
  by (simp_all add: required_present_def student_request_def sample_student_def js_prop_def)


lemma uploads_to_simps [simp]:
  "uploads_to b [] = []"
  "uploads_to b (c # cs) = upload_to b c @ uploads_to b cs"
  "uploads_to b (cs @ ds) = uploads_to b cs @ uploads_to b ds"
  by (simp_all add: uploads_to_def)

lemma db_update_calls:
  "calls (db_update w t upd fs st) = calls st @ [DbUpdate t upd fs]"
  by (simp add: db_update_def logged_def Let_def split: option.splits)

lemma create_student_photo_ok:
  assumes "\<And>p d t. fault w (StUpload ''student-photos'' p d t) = None"
  shows "\<exists>url st1 pre. create_student_photo w req sid st = (Inr url, st1) \<and>
           calls st1 = calls st @ pre \<and> uploads_to ''qr-codes'' pre = []"
proof (cases "req_file req")
  case None
  then show ?thesis
    by (simp add: create_student_photo_def)
next
  case (Some f)
  then show ?thesis
    using assms
    by (simp add: create_student_photo_def uploadToStorage_def storage_upload_def db_update_calls
          logged_def Let_def)
qed

lemma cjs_student_ok:
  assumes "body req = Some b"
    and "truthy (js_prop b ''name'')" and "truthy (js_prop b ''username'')"
    and "truthy (js_prop b ''matric_number'')" and "truthy (js_prop b ''email'')"
    and "fault w (create_student_call b) = None"
    and "\<And>p d t. fault w (StUpload ''student-photos'' p d t) = None"
    and "http_get w (qr_service_url (''attendance://'' @ fresh_id w)) = Inr bytes"
    and "fault w (StUpload ''qr-codes'' (''qr-codes/'' @ fresh_id w @ ''.png'')
                    (FileBytes bytes) ''image/png'') = None"
  shows "status (fst (post_api_create_student_part001_cjs cfg w req st)) = 200"
    and "uploads_to ''qr-codes''
           (new_calls st (snd (post_api_create_student_part001_cjs cfg w req st))) =
           [(''qr-codes/'' @ fresh_id w @ ''.png'', FileBytes bytes)]"
    and "student_member (fst (post_api_create_student_part001_cjs cfg w req st)) ''id'' =
           JStr (fresh_id w)"
proof -
  let ?created = "new_row w [(''name'', js_prop b ''name''), (''username'', js_prop b ''username''),
       (''matric_number'', js_prop b ''matric_number''), (''email'', js_prop b ''email'')]"
  have "\<exists>st1. db_insert w ''students''
       [(''name'', js_prop b ''name''), (''username'', js_prop b ''username''),
        (''matric_number'', js_prop b ''matric_number''), (''email'', js_prop b ''email'')] st =
       (Inr ?created, st1) \<and> calls st1 = calls st @ [create_student_call b]"
    using assms(6) by (simp add: db_insert_def create_student_call_def new_row_def logged_def Let_def)
  then obtain st1 where ins: "db_insert w ''students''
       [(''name'', js_prop b ''name''), (''username'', js_prop b ''username''),
        (''matric_number'', js_prop b ''matric_number''), (''email'', js_prop b ''email'')] st =
       (Inr ?created, st1)"
    and calls1: "calls st1 = calls st @ [create_student_call b]"
    by blast
  from create_student_photo_ok [OF assms(7), of req "JStr (fresh_id w)" st1]
  obtain url st2 pre where
    photo: "create_student_photo w req (JStr (fresh_id w)) st1 = (Inr url, st2)"
    and calls2: "calls st2 = calls st1 @ pre" and pre: "uploads_to ''qr-codes'' pre = []"
    by blast
  have run: "post_api_create_student_part001_cjs cfg w req st =
      (res_json 200 [(''ok'', JBool True),
         (''student'', JObj (AList.update ''qr_code_url''
             (publicUrl w ''qr-codes'' (''qr-codes/'' @ fresh_id w @ ''.png''))
             (AList.update ''photo_url'' url ?created)))],
       db_update w ''students''
         [(''qr_code_url'', publicUrl w ''qr-codes'' (''qr-codes/'' @ fresh_id w @ ''.png''))]
         [Eq ''id'' (JStr (fresh_id w))]
         (snd (storage_upload w ''qr-codes'' (''qr-codes/'' @ fresh_id w @ ''.png'')
                (FileBytes bytes) ''image/png'' st2)))"
    using assms(1-5,8,9) photo
    by (simp add: post_api_create_student_part001_cjs_def ins new_row_def qr_service_url_def
          uploadToStorage_def storage_upload_def Let_def)
  show "status (fst (post_api_create_student_part001_cjs cfg w req st)) = 200"
    by (simp add: run)
  show "uploads_to ''qr-codes''
           (new_calls st (snd (post_api_create_student_part001_cjs cfg w req st))) =
           [(''qr-codes/'' @ fresh_id w @ ''.png'', FileBytes bytes)]"
    using assms(9) calls1 calls2 pre
    by (simp add: run db_update_calls storage_upload_def logged_def new_calls_def Let_def
          create_student_call_def)
  show "student_member (fst (post_api_create_student_part001_cjs cfg w req st)) ''id'' =
           JStr (fresh_id w)"
    by (simp add: run res_json_def json_member_def student_member_def obj_field_def new_row_def
          update_conv')
qed

text \<open>
  C3 (amended). For \<open>POST /api/student\<close> in src/index.js, part_000, part_002 and the
  ES-module server of part_001:

  when the body is parsed and one of name, username, email and matric_number is missing
  or empty, the answer is 400 with the error \<open>Missing required fields\<close> (part_002 adds
  the names of the fields) and no remote call is made: the store is as before;

  when \<open>req.body\<close> is undefined, the answer is 500 and the store is as before;

  when the four fields are there and the store refuses the insert, the answer is 500
  with the store's message, and the insert is the only remote call;

  when the four fields are there, the store accepts the insert and the QR encoder
  accepts the text (and, in src/index.js and part_001, the store accepts the upload of
  the QR image), the answer is 200 with a student object whose \<open>id\<close> is the identifier
  the store assigned, which is not null.
\<close>

theorem registration_fields_and_identifier:
  "(body req \<noteq> None \<and> \<not> required_present req \<longrightarrow>
      post_api_student_index cfg w req st = (fail_json 400 ''Missing required fields'', st)
    \<and> post_api_student_part001 cfg w req st = (fail_json 400 ''Missing required fields'', st)
    \<and> post_api_student_part000 cfg w req st = (fail_json 400 ''Missing required fields'', st)
    \<and> post_api_student_part002 cfg w req st =
        (fail_json 400 ''Missing required fields: name, username, email, matric_number'', st)
    \<and> status (fail_json 400 ''Missing required fields'') = 400
    \<and> status (fail_json 400 ''Missing required fields: name, username, email, matric_number'') = 400)
 \<and> (body req = None \<longrightarrow>
      status (fst (post_api_student_index cfg w req st)) = 500
    \<and> snd (post_api_student_index cfg w req st) = st
    \<and> status (fst (post_api_student_part001 cfg w req st)) = 500
    \<and> snd (post_api_student_part001 cfg w req st) = st
    \<and> status (fst (post_api_student_part000 cfg w req st)) = 500
    \<and> snd (post_api_student_part000 cfg w req st) = st
    \<and> status (fst (post_api_student_part002 cfg w req st)) = 500
    \<and> snd (post_api_student_part002 cfg w req st) = st)
 \<and> (required_present req \<and> fault w (insert_student_call req) = Some e \<longrightarrow>
      post_api_student_index cfg w req st = (fail_json 500 e, logged (insert_student_call req) st)
    \<and> post_api_student_part001 cfg w req st = (fail_json 500 e, logged (insert_student_call req) st)
    \<and> post_api_student_part000 cfg w req st = (fail_json 500 e, logged (insert_student_call req) st)
    \<and> post_api_student_part002 cfg w req st = (fail_json 500 e, logged (insert_student_call req) st)
    \<and> status (fail_json 500 e) = 500)
 \<and> (required_present req \<and> fault w (insert_student_call req) = None \<and>
     qr_fault w EcH (scan_link cfg (fresh_id w)) = None \<and>
     fault w (qr_upload_call w EcH (scan_link cfg (fresh_id w))) = None \<longrightarrow>
      status (fst (post_api_student_index cfg w req st)) = 200
    \<and> student_member (fst (post_api_student_index cfg w req st)) ''id'' = JStr (fresh_id w)
    \<and> student_member (fst (post_api_student_index cfg w req st)) ''id'' \<noteq> JNull
    \<and> status (fst (post_api_student_part001 cfg w req st)) = 200
    \<and> student_member (fst (post_api_student_part001 cfg w req st)) ''id'' = JStr (fresh_id w))
 \<and> (required_present req \<and> fault w (insert_student_call req) = None \<and>
     qr_fault w EcM (to_str (FRONTEND_URL cfg) @ ''/scan?id='' @ fresh_id w) = None \<longrightarrow>
      status (fst (post_api_student_part000 cfg w req st)) = 200
    \<and> student_member (fst (post_api_student_part000 cfg w req st)) ''id'' = JStr (fresh_id w)
    \<and> student_member (fst (post_api_student_part000 cfg w req st)) ''id'' \<noteq> JNull)
 \<and> (required_present req \<and> fault w (insert_student_call req) = None \<and>
     qr_fault w EcM (id_payload (fresh_id w)) = None \<longrightarrow>
      status (fst (post_api_student_part002 cfg w req st)) = 200
    \<and> student_member (fst (post_api_student_part002 cfg w req st)) ''id'' = JStr (fresh_id w)
    \<and> student_member (fst (post_api_student_part002 cfg w req st)) ''id'' \<noteq> JNull)"
  by (simp add: index_student_missing part000_student_missing part002_student_missing
        index_student_bodiless part000_student_bodiless part002_student_bodiless
        index_student_insert_fails part000_student_insert_fails part002_student_insert_fails
        index_student_ok part000_student_ok part002_student_ok part001_student_is_index)

theorem registration_fields_and_identifier_witness:
  "required_present (student_request None)
   \<and> fault sample_world (insert_student_call (student_request None)) = None
   \<and> status (fst (post_api_student_index sample_config sample_world (student_request None) empty_store)) = 200
   \<and> student_member (fst (post_api_student_index sample_config sample_world (student_request None) empty_store))
        ''id'' = JStr ''s 1''
   \<and> status (fst (post_api_student_part000 sample_config sample_world (student_request None) empty_store)) = 200
   \<and> status (fst (post_api_student_part002 sample_config sample_world (student_request None) empty_store)) = 200
   \<and> body (attend_request [''name'' \<mapsto> JStr ''Amy Lin'', ''email'' \<mapsto> JStr ''a@x.edu'']) \<noteq> None
   \<and> \<not> required_present (attend_request [''name'' \<mapsto> JStr ''Amy Lin'', ''email'' \<mapsto> JStr ''a@x.edu''])
   \<and> post_api_student_index sample_config sample_world
        (attend_request [''name'' \<mapsto> JStr ''Amy Lin'', ''email'' \<mapsto> JStr ''a@x.edu'']) empty_store =
        (fail_json 400 ''Missing required fields'', empty_store)
   \<and> body bodiless_request = None
   \<and> status (fst (post_api_student_index sample_config sample_world bodiless_request empty_store)) = 500
   \<and> status (fst (post_api_student_part000 sample_config sample_world bodiless_request empty_store)) = 500"
proof -
  let ?short = "attend_request [''name'' \<mapsto> JStr ''Amy Lin'', ''email'' \<mapsto> JStr ''a@x.edu'']"
  have ok: "required_present (student_request None)"
    "fault sample_world (insert_student_call (student_request None)) = None"
    "qr_fault sample_world EcH (scan_link sample_config (fresh_id sample_world)) = None"
    "fault sample_world (qr_upload_call sample_world EcH (scan_link sample_config (fresh_id sample_world))) = None"
    "qr_fault sample_world EcM (to_str (FRONTEND_URL sample_config) @ ''/scan?id='' @ fresh_id sample_world) = None"
    "qr_fault sample_world EcM (id_payload (fresh_id sample_world)) = None"
    by (simp_all add: student_request_facts sample_facts)
  have missing: "body ?short \<noteq> None" "\<not> required_present ?short"
    by (simp_all add: required_present_def attend_request_def js_prop_def)
  have none: "body bodiless_request = None"
    by (simp add: sample_facts)
  have fid: "fresh_id sample_world = ''s 1''"
    by (simp add: sample_facts)
  note a = registration_fields_and_identifier
      [where req = "student_request None" and cfg = sample_config and w = sample_world
         and st = empty_store]
  note b = registration_fields_and_identifier
      [where req = ?short and cfg = sample_config and w = sample_world and st = empty_store,
       THEN conjunct1]
  note c = registration_fields_and_identifier
      [where req = bodiless_request and cfg = sample_config and w = sample_world
         and st = empty_store, THEN conjunct2, THEN conjunct1]
  from a b c ok missing none show ?thesis
    unfolding fid by blast
qed

text \<open>
  C3 as stated fails in two ways. When the store refuses the insert, all four fields are
  there and the answer is 500 without a student object. When \<open>req.body\<close> is undefined,
  every field is missing and the answer is 500, not 400.
\<close>

theorem registration_counterexample:
  "required_present (student_request None)
   \<and> status (fst (post_api_student_index sample_config
        (sample_world\<lparr> fault := (\<lambda>c. if is_insert c then Some ''connection refused'' else None) \<rparr>)
        (student_request None) empty_store)) = 500
   \<and> json_member (fst (post_api_student_index sample_config
        (sample_world\<lparr> fault := (\<lambda>c. if is_insert c then Some ''connection refused'' else None) \<rparr>)
        (student_request None) empty_store)) ''student'' = JUndefined
   \<and> body bodiless_request = None
   \<and> post_api_student_index sample_config sample_world bodiless_request empty_store =
        (res_json 500 [(''ok'', JBool False),
                       (''error'', JStr ''Cannot destructure property of undefined'')], empty_store)"
  by (simp add: student_request_facts index_student_insert_fails index_student_bodiless
        insert_student_call_def fail_json_def caught_string_def js_or_def sample_facts
        res_json_def json_member_def obj_field_def)

text \<open>
  C5 (amended). In the registration of src/index.js (and of the ES-module server of
  part_001, which is the same handler) the two uploads have different failure policies:
  when the upload of the photo fails and the rest succeeds, the answer is still 200 with
  \<open>ok: true\<close> and \<open>photo_url\<close> null; when the upload of the (encoded) QR image fails,
  the answer is 500 with the error \<open>Failed to upload QR code\<close>. part_002 and part_000 do
  not look at the answer of the upload of the QR image: when it fails and the insert and
  the encoder succeed, the answer is 200 with \<open>ok: true\<close>.
\<close>

theorem upload_failure_policies:
  "(required_present req \<and> req_file req = Some f \<and> fault w (insert_student_call req) = None \<and>
    fault w (photo_upload_call w f) = Some e \<and>
    qr_fault w EcH (scan_link cfg (fresh_id w)) = None \<and>
    fault w (qr_upload_call w EcH (scan_link cfg (fresh_id w))) = None \<longrightarrow>
      status (fst (post_api_student_index cfg w req st)) = 200
    \<and> json_member (fst (post_api_student_index cfg w req st)) ''ok'' = JBool True
    \<and> student_member (fst (post_api_student_index cfg w req st)) ''photo_url'' = JNull)
 \<and> (required_present req \<and> fault w (insert_student_call req) = None \<and>
    qr_fault w EcH (scan_link cfg (fresh_id w)) = None \<and>
    fault w (qr_upload_call w EcH (scan_link cfg (fresh_id w))) = Some e' \<longrightarrow>
      fst (post_api_student_index cfg w req st) = fail_json 500 ''Failed to upload QR code''
    \<and> status (fst (post_api_student_index cfg w req st)) = 500)
 \<and> post_api_student_part001 cfg w req st = post_api_student_index cfg w req st
 \<and> (required_present req \<and> fault w (insert_student_call req) = None \<and>
    qr_fault w EcM (id_payload (fresh_id w)) = None \<and>
    fault w (qr_upload_call w EcM (id_payload (fresh_id w))) = Some e' \<longrightarrow>
      status (fst (post_api_student_part002 cfg w req st)) = 200
    \<and> json_member (fst (post_api_student_part002 cfg w req st)) ''ok'' = JBool True)
 \<and> (required_present req \<and> fault w (insert_student_call req) = None \<and>
    qr_fault w EcM (to_str (FRONTEND_URL cfg) @ ''/scan?id='' @ fresh_id w) = None \<and>
    fault w (qr_upload_call w EcM (to_str (FRONTEND_URL cfg) @ ''/scan?id='' @ fresh_id w)) = Some e' \<longrightarrow>
      status (fst (post_api_student_part000 cfg w req st)) = 200
    \<and> json_member (fst (post_api_student_part000 cfg w req st)) ''ok'' = JBool True)"
  by (simp add: index_student_ok index_student_qr_fails upload_photo_checked_failed
        part001_student_is_index part002_student_ok part000_student_ok)

theorem upload_failure_policies_witness:
  "required_present (student_request (Some \<lparr> buffer = ''JFIF'', mimetype = ''image/jpeg'' \<rparr>))
   \<and> status (fst (post_api_student_index sample_config
        (sample_world\<lparr> fault := (\<lambda>c. if qr_text_of c = [] \<and> \<not> is_insert c then Some ''bucket not found'' else None) \<rparr>)
        (student_request (Some \<lparr> buffer = ''JFIF'', mimetype = ''image/jpeg'' \<rparr>)) empty_store)) = 200
   \<and> student_member (fst (post_api_student_index sample_config
        (sample_world\<lparr> fault := (\<lambda>c. if qr_text_of c = [] \<and> \<not> is_insert c then Some ''bucket not found'' else None) \<rparr>)
        (student_request (Some \<lparr> buffer = ''JFIF'', mimetype = ''image/jpeg'' \<rparr>)) empty_store)) ''photo_url'' = JNull
   \<and> status (fst (post_api_student_index sample_config
        (sample_world\<lparr> fault := (\<lambda>c. if qr_text_of c = [] then None else Some ''bucket not found'') \<rparr>)
        (student_request (Some \<lparr> buffer = ''JFIF'', mimetype = ''image/jpeg'' \<rparr>)) empty_store)) = 500
   \<and> status (fst (post_api_student_part002 sample_config
        (sample_world\<lparr> fault := (\<lambda>c. if qr_text_of c = [] then None else Some ''bucket not found'') \<rparr>)
        (student_request (Some \<lparr> buffer = ''JFIF'', mimetype = ''image/jpeg'' \<rparr>)) empty_store)) = 200
   \<and> status (fst (post_api_student_part000 sample_config
        (sample_world\<lparr> fault := (\<lambda>c. if qr_text_of c = [] then None else Some ''bucket not found'') \<rparr>)
        (student_request (Some \<lparr> buffer = ''JFIF'', mimetype = ''image/jpeg'' \<rparr>)) empty_store)) = 200"
proof -
  let ?f = "\<lparr> buffer = ''JFIF'', mimetype = ''image/jpeg'' \<rparr>"
  let ?w1 = "sample_world\<lparr> fault := (\<lambda>c. if qr_text_of c = [] \<and> \<not> is_insert c then Some ''bucket not found'' else None) \<rparr>"
  let ?w2 = "sample_world\<lparr> fault := (\<lambda>c. if qr_text_of c = [] then None else Some ''bucket not found'') \<rparr>"
  have req: "required_present (student_request (Some ?f))" "req_file (student_request (Some ?f)) = Some ?f"
    by (simp_all add: student_request_facts)
  have w1: "fault ?w1 (insert_student_call (student_request (Some ?f))) = None"
    "fault ?w1 (photo_upload_call ?w1 ?f) = Some ''bucket not found''"
    "qr_fault ?w1 EcH (scan_link sample_config (fresh_id ?w1)) = None"
    "fault ?w1 (qr_upload_call ?w1 EcH (scan_link sample_config (fresh_id ?w1))) = None"
    by (simp_all add: insert_student_call_def photo_upload_call_def qr_upload_call_def sample_facts)
  have w2: "fault ?w2 (insert_student_call (student_request (Some ?f))) = None"
    "qr_fault ?w2 EcH (scan_link sample_config (fresh_id ?w2)) = None"
    "fault ?w2 (qr_upload_call ?w2 EcH (scan_link sample_config (fresh_id ?w2))) = Some ''bucket not found''"
    "qr_fault ?w2 EcM (id_payload (fresh_id ?w2)) = None"
    "fault ?w2 (qr_upload_call ?w2 EcM (id_payload (fresh_id ?w2))) = Some ''bucket not found''"
    "qr_fault ?w2 EcM (to_str (FRONTEND_URL sample_config) @ ''/scan?id='' @ fresh_id ?w2) = None"
    "fault ?w2 (qr_upload_call ?w2 EcM (to_str (FRONTEND_URL sample_config) @ ''/scan?id='' @ fresh_id ?w2))
       = Some ''bucket not found''"
    by (simp_all add: insert_student_call_def qr_upload_call_def sample_facts)
  note a = upload_failure_policies
         [where req = "student_request (Some ?f)" and f = ?f and w = ?w1
            and e = "''bucket not found''" and cfg = sample_config and st = empty_store,
          THEN conjunct1]
  note b = upload_failure_policies
         [where req = "student_request (Some ?f)" and w = ?w2
            and e' = "''bucket not found''" and cfg = sample_config and st = empty_store,
          THEN conjunct2, THEN conjunct1]
  note c = upload_failure_policies
         [where req = "student_request (Some ?f)" and w = ?w2
            and e' = "''bucket not found''" and cfg = sample_config and st = empty_store,
          THEN conjunct2, THEN conjunct2, THEN conjunct2]
  from a b c req w1 w2
  show ?thesis by blast
qed

text \<open>
  C5 as stated fails in part_002, one of the places it names: the answer of the upload of
  the QR image is not looked at, so a failed upload still gives 200 with \<open>ok: true\<close>.
\<close>

theorem upload_failure_counterexample:
  "fault (sample_world\<lparr> fault := (\<lambda>c. if qr_text_of c = [] then None else Some ''bucket not found'') \<rparr>)
     (qr_upload_call sample_world EcM (id_payload ''s 1'')) = Some ''bucket not found''
   \<and> status (fst (post_api_student_part002 sample_config
        (sample_world\<lparr> fault := (\<lambda>c. if qr_text_of c = [] then None else Some ''bucket not found'') \<rparr>)
        (student_request None) empty_store)) = 200
   \<and> json_member (fst (post_api_student_part002 sample_config
        (sample_world\<lparr> fault := (\<lambda>c. if qr_text_of c = [] then None else Some ''bucket not found'') \<rparr>)
        (student_request None) empty_store)) ''ok'' = JBool True
   \<and> objects (snd (post_api_student_part002 sample_config
        (sample_world\<lparr> fault := (\<lambda>c. if qr_text_of c = [] then None else Some ''bucket not found'') \<rparr>)
        (student_request None) empty_store)) (QR_BUCKET, ''qr_s 1.png'') = None"
  by (simp add: part002_student_ok student_request_facts sample_facts insert_student_call_def
        qr_upload_call_def)
     (simp add: post_api_student_part002_def student_request_def sample_student_def js_prop_def
        upload_photo_checked_def student_fields_def
        db_insert_def storage_upload_def db_update_def logged_def QRCode_toBuffer_def sample_facts
        empty_store_def Let_def del: JSON_stringify.simps)

text \<open>
  C8 (amended). A successful registration uploads exactly one QR image, and what it
  holds depends on the server. src/index.js and the ES-module server of part_001 encode
  the deep link made of the frontend base, \<open>/scan?id=\<close> and the URL-encoded identifier
  of the new student. part_000 encodes the same link with the identifier as it is, not
  URL-encoded. part_002 encodes the JSON text of the object with the one member \<open>id\<close>,
  which is \<open>{"id":"<identifier>"}\<close> when the identifier has no character that JSON
  escapes. In each of them the student object of the answer carries that identifier.
  The CommonJS server of part_001 (\<open>POST /api/create-student\<close>) encodes nothing itself:
  when every step succeeds it uploads, as the one object in the bucket \<open>qr-codes\<close>, the
  bytes that the remote QR service answers for the payload \<open>attendance://<identifier>\<close>.
\<close>

theorem qr_encodes_scan_target:
  "(status (fst (post_api_student_index cfg w req st)) = 200 \<longrightarrow>
      qr_texts (new_calls st (snd (post_api_student_index cfg w req st))) =
        [to_str (FRONTEND_URL cfg) @ ''/scan?id='' @ encodeURIComponent (fresh_id w)]
    \<and> student_member (fst (post_api_student_index cfg w req st)) ''id'' = JStr (fresh_id w))
 \<and> (status (fst (post_api_student_part001 cfg w req st)) = 200 \<longrightarrow>
      qr_texts (new_calls st (snd (post_api_student_part001 cfg w req st))) =
        [to_str (FRONTEND_URL cfg) @ ''/scan?id='' @ encodeURIComponent (fresh_id w)]
    \<and> student_member (fst (post_api_student_part001 cfg w req st)) ''id'' = JStr (fresh_id w))
 \<and> (status (fst (post_api_student_part000 cfg w req st)) = 200 \<longrightarrow>
      qr_texts (new_calls st (snd (post_api_student_part000 cfg w req st))) =
        [to_str (FRONTEND_URL cfg) @ ''/scan?id='' @ fresh_id w]
    \<and> student_member (fst (post_api_student_part000 cfg w req st)) ''id'' = JStr (fresh_id w))
 \<and> (status (fst (post_api_student_part002 cfg w req st)) = 200 \<longrightarrow>
      qr_texts (new_calls st (snd (post_api_student_part002 cfg w req st))) =
        [JSON_stringify (JObj [(''id'', JStr (fresh_id w))])]
    \<and> (list_all json_plain (fresh_id w) \<longrightarrow>
          qr_texts (new_calls st (snd (post_api_student_part002 cfg w req st))) =
            [[CHR ''{'', CHR 0x22, CHR ''i'', CHR ''d'', CHR 0x22, CHR '':'', CHR 0x22] @
             fresh_id w @ [CHR 0x22, CHR ''}'']])
    \<and> student_member (fst (post_api_student_part002 cfg w req st)) ''id'' = JStr (fresh_id w))
 \<and> (body req = Some b \<and> truthy (js_prop b ''name'') \<and> truthy (js_prop b ''username'') \<and>
     truthy (js_prop b ''matric_number'') \<and> truthy (js_prop b ''email'') \<and>
     fault w (create_student_call b) = None \<and>
     (\<forall>p d t. fault w (StUpload ''student-photos'' p d t) = None) \<and>
     http_get w (''https://api.qrserver.com/v1/create-qr-code/?size=400x400&data='' @
                 encodeURIComponent (''attendance://'' @ fresh_id w)) = Inr bytes \<and>
     fault w (StUpload ''qr-codes'' (''qr-codes/'' @ fresh_id w @ ''.png'')
                (FileBytes bytes) ''image/png'') = None \<longrightarrow>
      status (fst (post_api_create_student_part001_cjs cfg w req st)) = 200
    \<and> uploads_to ''qr-codes''
         (new_calls st (snd (post_api_create_student_part001_cjs cfg w req st))) =
         [(''qr-codes/'' @ fresh_id w @ ''.png'', FileBytes bytes)]
    \<and> student_member (fst (post_api_create_student_part001_cjs cfg w req st)) ''id'' =
         JStr (fresh_id w))"
proof -
  have i: "status (fst (post_api_student_index cfg w req st)) = 200 \<longrightarrow>
      qr_texts (new_calls st (snd (post_api_student_index cfg w req st))) =
        [to_str (FRONTEND_URL cfg) @ ''/scan?id='' @ encodeURIComponent (fresh_id w)]
    \<and> student_member (fst (post_api_student_index cfg w req st)) ''id'' = JStr (fresh_id w)"
  proof
    assume s: "status (fst (post_api_student_index cfg w req st)) = 200"
    have "qr_texts (new_calls st (snd (post_api_student_index cfg w req st))) =
        [to_str (FRONTEND_URL cfg) @ ''/scan?id='' @ encodeURIComponent (fresh_id w)]"
      using index_student_qr_texts [OF s] by (simp add: scan_link_def)
    moreover from s have "student_member (fst (post_api_student_index cfg w req st)) ''id'' = JStr (fresh_id w)"
      by (simp add: index_student_status index_student_ok(3))
    ultimately show "qr_texts (new_calls st (snd (post_api_student_index cfg w req st))) =
        [to_str (FRONTEND_URL cfg) @ ''/scan?id='' @ encodeURIComponent (fresh_id w)]
      \<and> student_member (fst (post_api_student_index cfg w req st)) ''id'' = JStr (fresh_id w)"
      by (rule conjI)
  qed
  have p1: "status (fst (post_api_student_part001 cfg w req st)) = 200 \<longrightarrow>
      qr_texts (new_calls st (snd (post_api_student_part001 cfg w req st))) =
        [to_str (FRONTEND_URL cfg) @ ''/scan?id='' @ encodeURIComponent (fresh_id w)]
    \<and> student_member (fst (post_api_student_part001 cfg w req st)) ''id'' = JStr (fresh_id w)"
    using i by (simp only: part001_student_is_index)
  have p0: "status (fst (post_api_student_part000 cfg w req st)) = 200 \<longrightarrow>
      qr_texts (new_calls st (snd (post_api_student_part000 cfg w req st))) =
        [to_str (FRONTEND_URL cfg) @ ''/scan?id='' @ fresh_id w]
    \<and> student_member (fst (post_api_student_part000 cfg w req st)) ''id'' = JStr (fresh_id w)"
  proof
    assume s: "status (fst (post_api_student_part000 cfg w req st)) = 200"
    have "qr_texts (new_calls st (snd (post_api_student_part000 cfg w req st))) =
        [to_str (FRONTEND_URL cfg) @ ''/scan?id='' @ fresh_id w]"
      using part000_student_qr_texts [OF s] .
    moreover from s have "student_member (fst (post_api_student_part000 cfg w req st)) ''id'' = JStr (fresh_id w)"
      by (simp add: part000_student_status part000_student_ok(3))
    ultimately show "qr_texts (new_calls st (snd (post_api_student_part000 cfg w req st))) =
        [to_str (FRONTEND_URL cfg) @ ''/scan?id='' @ fresh_id w]
      \<and> student_member (fst (post_api_student_part000 cfg w req st)) ''id'' = JStr (fresh_id w)"
      by (rule conjI)
  qed
  have p2: "status (fst (post_api_student_part002 cfg w req st)) = 200 \<longrightarrow>
      qr_texts (new_calls st (snd (post_api_student_part002 cfg w req st))) =
        [JSON_stringify (JObj [(''id'', JStr (fresh_id w))])]
    \<and> (list_all json_plain (fresh_id w) \<longrightarrow>
          qr_texts (new_calls st (snd (post_api_student_part002 cfg w req st))) =
            [[CHR ''{'', CHR 0x22, CHR ''i'', CHR ''d'', CHR 0x22, CHR '':'', CHR 0x22] @
             fresh_id w @ [CHR 0x22, CHR ''}'']])
    \<and> student_member (fst (post_api_student_part002 cfg w req st)) ''id'' = JStr (fresh_id w)"
  proof
    assume s: "status (fst (post_api_student_part002 cfg w req st)) = 200"
    have a: "qr_texts (new_calls st (snd (post_api_student_part002 cfg w req st))) =
        [JSON_stringify (JObj [(''id'', JStr (fresh_id w))])]"
      using part002_student_qr_texts [OF s] by (simp only: id_payload_def)
    have b: "list_all json_plain (fresh_id w) \<longrightarrow>
          qr_texts (new_calls st (snd (post_api_student_part002 cfg w req st))) =
            [[CHR ''{'', CHR 0x22, CHR ''i'', CHR ''d'', CHR 0x22, CHR '':'', CHR 0x22] @
             fresh_id w @ [CHR 0x22, CHR ''}'']]"
    proof
      assume p: "list_all json_plain (fresh_id w)"
      from part002_student_qr_texts [OF s]
      show "qr_texts (new_calls st (snd (post_api_student_part002 cfg w req st))) =
            [[CHR ''{'', CHR 0x22, CHR ''i'', CHR ''d'', CHR 0x22, CHR '':'', CHR 0x22] @
             fresh_id w @ [CHR 0x22, CHR ''}'']]"
        unfolding id_payload_plain [OF p] .
    qed
    from s have c: "student_member (fst (post_api_student_part002 cfg w req st)) ''id'' = JStr (fresh_id w)"
      by (simp add: part002_student_status part002_student_ok(3))
    show "qr_texts (new_calls st (snd (post_api_student_part002 cfg w req st))) =
        [JSON_stringify (JObj [(''id'', JStr (fresh_id w))])]
      \<and> (list_all json_plain (fresh_id w) \<longrightarrow>
          qr_texts (new_calls st (snd (post_api_student_part002 cfg w req st))) =
            [[CHR ''{'', CHR 0x22, CHR ''i'', CHR ''d'', CHR 0x22, CHR '':'', CHR 0x22] @
             fresh_id w @ [CHR 0x22, CHR ''}'']])
      \<and> student_member (fst (post_api_student_part002 cfg w req st)) ''id'' = JStr (fresh_id w)"
      by (rule conjI [OF a conjI [OF b c]])
  qed
  have cjs: "body req = Some b \<and> truthy (js_prop b ''name'') \<and> truthy (js_prop b ''username'') \<and>
     truthy (js_prop b ''matric_number'') \<and> truthy (js_prop b ''email'') \<and>
     fault w (create_student_call b) = None \<and>
     (\<forall>p d t. fault w (StUpload ''student-photos'' p d t) = None) \<and>
     http_get w (''https://api.qrserver.com/v1/create-qr-code/?size=400x400&data='' @
                 encodeURIComponent (''attendance://'' @ fresh_id w)) = Inr bytes \<and>
     fault w (StUpload ''qr-codes'' (''qr-codes/'' @ fresh_id w @ ''.png'')
                (FileBytes bytes) ''image/png'') = None \<longrightarrow>
      status (fst (post_api_create_student_part001_cjs cfg w req st)) = 200
    \<and> uploads_to ''qr-codes''
         (new_calls st (snd (post_api_create_student_part001_cjs cfg w req st))) =
         [(''qr-codes/'' @ fresh_id w @ ''.png'', FileBytes bytes)]
    \<and> student_member (fst (post_api_create_student_part001_cjs cfg w req st)) ''id'' =
         JStr (fresh_id w)"
  proof
    assume h: "body req = Some b \<and> truthy (js_prop b ''name'') \<and> truthy (js_prop b ''username'') \<and>
     truthy (js_prop b ''matric_number'') \<and> truthy (js_prop b ''email'') \<and>
     fault w (create_student_call b) = None \<and>
     (\<forall>p d t. fault w (StUpload ''student-photos'' p d t) = None) \<and>
     http_get w (''https://api.qrserver.com/v1/create-qr-code/?size=400x400&data='' @
                 encodeURIComponent (''attendance://'' @ fresh_id w)) = Inr bytes \<and>
     fault w (StUpload ''qr-codes'' (''qr-codes/'' @ fresh_id w @ ''.png'')
                (FileBytes bytes) ''image/png'') = None"
    then have g: "http_get w (qr_service_url (''attendance://'' @ fresh_id w)) = Inr bytes"
      by (simp only: qr_service_url_def)
    from h have photos: "\<And>p d t. fault w (StUpload ''student-photos'' p d t) = None"
      by blast
    note ok = cjs_student_ok [where cfg = cfg and st = st and bytes = bytes, OF _ _ _ _ _ _ photos g]
    from h show "status (fst (post_api_create_student_part001_cjs cfg w req st)) = 200
    \<and> uploads_to ''qr-codes''
         (new_calls st (snd (post_api_create_student_part001_cjs cfg w req st))) =
         [(''qr-codes/'' @ fresh_id w @ ''.png'', FileBytes bytes)]
    \<and> student_member (fst (post_api_create_student_part001_cjs cfg w req st)) ''id'' =
         JStr (fresh_id w)"
      by (intro conjI ok) blast+
  qed
  show ?thesis
    by (rule conjI [OF i conjI [OF p1 conjI [OF p0 conjI [OF p2 cjs]]]])
qed

theorem qr_encodes_scan_target_witness:
  "status (fst (post_api_student_index sample_config
       (sample_world\<lparr> fresh_id := [CHR ''a'', CHR 0x22, CHR 0x5C, CHR 0x0A, CHR ''/'', CHR '' '', CHR ''b'', CHR ''~''] \<rparr>)
       (student_request None) empty_store)) = 200
   \<and> qr_texts (new_calls empty_store (snd (post_api_student_index sample_config
       (sample_world\<lparr> fresh_id := [CHR ''a'', CHR 0x22, CHR 0x5C, CHR 0x0A, CHR ''/'', CHR '' '', CHR ''b'', CHR ''~''] \<rparr>)
       (student_request None) empty_store))) =
       [''https://app.example/scan?id=a%22%5C%0A%2F%20b~'']
   \<and> qr_texts (new_calls empty_store (snd (post_api_student_part000 sample_config
       (sample_world\<lparr> fresh_id := [CHR ''a'', CHR 0x22, CHR 0x5C, CHR 0x0A, CHR ''/'', CHR '' '', CHR ''b'', CHR ''~''] \<rparr>)
       (student_request None) empty_store))) =
       [''https://app.example/scan?id='' @
        [CHR ''a'', CHR 0x22, CHR 0x5C, CHR 0x0A, CHR ''/'', CHR '' '', CHR ''b'', CHR ''~'']]
   \<and> qr_texts (new_calls empty_store (snd (post_api_student_part002 sample_config
       (sample_world\<lparr> fresh_id := [CHR ''a'', CHR 0x22, CHR 0x5C, CHR 0x0A, CHR ''/'', CHR '' '', CHR ''b'', CHR ''~''] \<rparr>)
       (student_request None) empty_store))) =
       [[CHR ''{'', CHR 0x22, CHR ''i'', CHR ''d'', CHR 0x22, CHR '':'', CHR 0x22,
         CHR ''a'', CHR 0x5C, CHR 0x22, CHR 0x5C, CHR 0x5C, CHR 0x5C, CHR ''n'', CHR ''/'', CHR '' '',
         CHR ''b'', CHR ''~'', CHR 0x22, CHR ''}'']]
   \<and> list_all json_plain (fresh_id sample_world)
   \<and> qr_texts (new_calls empty_store
        (snd (post_api_student_part002 sample_config sample_world (student_request None) empty_store))) =
       [[CHR ''{'', CHR 0x22, CHR ''i'', CHR ''d'', CHR 0x22, CHR '':'', CHR 0x22,
         CHR ''s'', CHR '' '', CHR ''1'', CHR 0x22, CHR ''}'']]
   \<and> http_get sample_world
        ''https://api.qrserver.com/v1/create-qr-code/?size=400x400&data=attendance%3A%2F%2Fs%201'' =
        Inr ''PNG''
   \<and> uploads_to ''qr-codes'' (new_calls empty_store
        (snd (post_api_create_student_part001_cjs sample_config sample_world (student_request None)
               empty_store))) =
       [(''qr-codes/s 1.png'', FileBytes ''PNG'')]"
proof -
  let ?id = "[CHR ''a'', CHR 0x22, CHR 0x5C, CHR 0x0A, CHR ''/'', CHR '' '', CHR ''b'', CHR ''~'']"
  let ?w = "sample_world\<lparr> fresh_id := ?id \<rparr>"
  have w: "fault ?w = (\<lambda>c. None)" "qr_fault ?w = (\<lambda>l t. None)" "fresh_id ?w = ?id"
    by (simp_all add: sample_facts)
  have s1: "status (fst (post_api_student_index sample_config ?w (student_request None) empty_store)) = 200"
    by (simp add: index_student_status student_request_facts w)
  have s0: "status (fst (post_api_student_part000 sample_config ?w (student_request None) empty_store)) = 200"
    by (simp add: part000_student_status student_request_facts w)
  have s2: "status (fst (post_api_student_part002 sample_config ?w (student_request None) empty_store)) = 200"
    by (simp add: part002_student_status student_request_facts w)
  have s3: "status (fst (post_api_student_part002 sample_config sample_world (student_request None) empty_store)) = 200"
    by (simp add: part002_student_status student_request_facts sample_facts)
  have plain: "list_all json_plain (fresh_id sample_world)"
    by (simp add: sample_facts json_plain_def)
  have link: "to_str (FRONTEND_URL sample_config) @ ''/scan?id='' @ encodeURIComponent ?id
      = ''https://app.example/scan?id=a%22%5C%0A%2F%20b~''"
    by (simp add: sample_facts encodeURIComponent_def uri_unreserved_def hex_upper_def)
  have raw: "to_str (FRONTEND_URL sample_config) @ ''/scan?id='' @ ?id
      = ''https://app.example/scan?id='' @ ?id"
    by (simp add: sample_facts)
  have quoted: "JSON_stringify (JObj [(''id'', JStr ?id)])
      = [CHR ''{'', CHR 0x22, CHR ''i'', CHR ''d'', CHR 0x22, CHR '':'', CHR 0x22,
         CHR ''a'', CHR 0x5C, CHR 0x22, CHR 0x5C, CHR 0x5C, CHR 0x5C, CHR ''n'', CHR ''/'', CHR '' '',
         CHR ''b'', CHR ''~'', CHR 0x22, CHR ''}'']"
    by (simp add: json_quote_def json_escape_def)
  have service: "''https://api.qrserver.com/v1/create-qr-code/?size=400x400&data='' @
        encodeURIComponent (''attendance://'' @ fresh_id sample_world) =
      ''https://api.qrserver.com/v1/create-qr-code/?size=400x400&data=attendance%3A%2F%2Fs%201''"
    by (simp add: sample_facts encodeURIComponent_def uri_unreserved_def hex_upper_def)
  have cjs: "body (student_request None) = Some sample_student"
    "truthy (js_prop sample_student ''name'')" "truthy (js_prop sample_student ''username'')"
    "truthy (js_prop sample_student ''matric_number'')" "truthy (js_prop sample_student ''email'')"
    "fault sample_world (create_student_call sample_student) = None"
    "\<forall>p d t. fault sample_world (StUpload ''student-photos'' p d t) = None"
    "http_get sample_world
        ''https://api.qrserver.com/v1/create-qr-code/?size=400x400&data=attendance%3A%2F%2Fs%201'' =
        Inr ''PNG''"
    "fault sample_world (StUpload ''qr-codes'' (''qr-codes/'' @ fresh_id sample_world @ ''.png'')
        (FileBytes ''PNG'') ''image/png'') = None"
    by (simp_all add: sample_facts sample_student_def js_prop_def)
  have path: "''qr-codes/'' @ fresh_id sample_world @ ''.png'' = ''qr-codes/s 1.png''"
    by (simp add: sample_facts)
  note a = qr_encodes_scan_target
      [where cfg = sample_config and w = ?w and req = "student_request None" and st = empty_store]
  note a1 = a [THEN conjunct1]
  note a0 = a [THEN conjunct2, THEN conjunct2, THEN conjunct1]
  note a2 = a [THEN conjunct2, THEN conjunct2, THEN conjunct2, THEN conjunct1]
  note b = qr_encodes_scan_target
      [where cfg = sample_config and w = sample_world and req = "student_request None"
         and st = empty_store and b = sample_student and bytes = "''PNG''"]
  note b2 = b [THEN conjunct2, THEN conjunct2, THEN conjunct2, THEN conjunct1]
  note b3 = b [THEN conjunct2, THEN conjunct2, THEN conjunct2, THEN conjunct2]
  have r1: "qr_texts (new_calls empty_store (snd (post_api_student_index sample_config ?w
       (student_request None) empty_store))) = [''https://app.example/scan?id=a%22%5C%0A%2F%20b~'']"
    using a1 s1 unfolding w(3) link by blast
  have r0: "qr_texts (new_calls empty_store (snd (post_api_student_part000 sample_config ?w
       (student_request None) empty_store))) = [''https://app.example/scan?id='' @ ?id]"
    using a0 s0 unfolding w(3) raw by blast
  have r2: "qr_texts (new_calls empty_store (snd (post_api_student_part002 sample_config ?w
       (student_request None) empty_store))) =
       [[CHR ''{'', CHR 0x22, CHR ''i'', CHR ''d'', CHR 0x22, CHR '':'', CHR 0x22,
         CHR ''a'', CHR 0x5C, CHR 0x22, CHR 0x5C, CHR 0x5C, CHR 0x5C, CHR ''n'', CHR ''/'', CHR '' '',
         CHR ''b'', CHR ''~'', CHR 0x22, CHR ''}'']]"
    using a2 s2 unfolding w(3) quoted by blast
  have r3: "qr_texts (new_calls empty_store
        (snd (post_api_student_part002 sample_config sample_world (student_request None) empty_store))) =
       [[CHR ''{'', CHR 0x22, CHR ''i'', CHR ''d'', CHR 0x22, CHR '':'', CHR 0x22,
         CHR ''s'', CHR '' '', CHR ''1'', CHR 0x22, CHR ''}'']]"
  proof -
    have eq: "[CHR ''{'', CHR 0x22, CHR ''i'', CHR ''d'', CHR 0x22, CHR '':'', CHR 0x22] @
          fresh_id sample_world @ [CHR 0x22, CHR ''}''] =
        [CHR ''{'', CHR 0x22, CHR ''i'', CHR ''d'', CHR 0x22, CHR '':'', CHR 0x22,
         CHR ''s'', CHR '' '', CHR ''1'', CHR 0x22, CHR ''}'']"
      by (simp add: sample_facts)
    from b2 s3 plain show ?thesis
      unfolding eq by blast
  qed
  have r4: "uploads_to ''qr-codes'' (new_calls empty_store
        (snd (post_api_create_student_part001_cjs sample_config sample_world (student_request None)
               empty_store))) = [(''qr-codes/s 1.png'', FileBytes ''PNG'')]"
    using b3 cjs unfolding service path by blast
  show ?thesis
    by (rule conjI [OF s1 conjI [OF r1 conjI [OF r0 conjI [OF r2 conjI [OF plain
          conjI [OF r3 conjI [OF cjs(8) r4]]]]]]])
qed

text \<open>
  C8 as stated fails in two servers of the repository. part_000 encodes the deep link
  with the identifier as it is: for the identifier \<open>s 1\<close> the text of the QR image has
  the space in it, where the URL-encoded link has \<open>%20\<close>, and it is not the JSON payload
  either. The CommonJS server of part_001 asks the remote QR service for an image of the
  payload \<open>attendance://s 1\<close>, which is neither of the two forms.
\<close>

theorem qr_scan_target_counterexample:
  "status (fst (post_api_student_part000 sample_config sample_world (student_request None)
      empty_store)) = 200
   \<and> qr_texts (new_calls empty_store (snd (post_api_student_part000 sample_config sample_world
        (student_request None) empty_store))) = [''https://app.example/scan?id=s 1'']
   \<and> to_str (FRONTEND_URL sample_config) @ ''/scan?id='' @ encodeURIComponent ''s 1'' =
        ''https://app.example/scan?id=s%201''
   \<and> JSON_stringify (JObj [(''id'', JStr ''s 1'')]) =
        [CHR ''{'', CHR 0x22, CHR ''i'', CHR ''d'', CHR 0x22, CHR '':'', CHR 0x22,
         CHR ''s'', CHR '' '', CHR ''1'', CHR 0x22, CHR ''}'']
   \<and> status (fst (post_api_create_student_part001_cjs sample_config
        (sample_world\<lparr> http_get := (\<lambda>u. if u =
           ''https://api.qrserver.com/v1/create-qr-code/?size=400x400&data=attendance%3A%2F%2Fs%201''
           then Inr ''PNG'' else Inl ''fetch failed'') \<rparr>)
        (student_request None) empty_store)) = 200
   \<and> uploads_to ''qr-codes'' (new_calls empty_store (snd (post_api_create_student_part001_cjs
        sample_config
        (sample_world\<lparr> http_get := (\<lambda>u. if u =
           ''https://api.qrserver.com/v1/create-qr-code/?size=400x400&data=attendance%3A%2F%2Fs%201''
           then Inr ''PNG'' else Inl ''fetch failed'') \<rparr>)
        (student_request None) empty_store))) = [(''qr-codes/s 1.png'', FileBytes ''PNG'')]"
proof -
  let ?w = "sample_world\<lparr> http_get := (\<lambda>u. if u =
           ''https://api.qrserver.com/v1/create-qr-code/?size=400x400&data=attendance%3A%2F%2Fs%201''
           then Inr ''PNG'' else Inl ''fetch failed'') \<rparr>"
  have s0: "status (fst (post_api_student_part000 sample_config sample_world (student_request None)
      empty_store)) = 200"
    by (simp add: part000_student_status student_request_facts sample_facts)
  have r0: "qr_texts (new_calls empty_store (snd (post_api_student_part000 sample_config sample_world
        (student_request None) empty_store))) = [''https://app.example/scan?id=s 1'']"
    using part000_student_qr_texts [OF s0] by (simp add: sample_facts)
  have link: "to_str (FRONTEND_URL sample_config) @ ''/scan?id='' @ encodeURIComponent ''s 1'' =
        ''https://app.example/scan?id=s%201''"
    by (simp add: sample_facts encodeURIComponent_def uri_unreserved_def hex_upper_def)
  have quoted: "JSON_stringify (JObj [(''id'', JStr ''s 1'')]) =
        [CHR ''{'', CHR 0x22, CHR ''i'', CHR ''d'', CHR 0x22, CHR '':'', CHR 0x22,
         CHR ''s'', CHR '' '', CHR ''1'', CHR 0x22, CHR ''}'']"
    by (simp add: json_quote_def json_escape_def)
  have w: "fault ?w = (\<lambda>c. None)" "fresh_id ?w = ''s 1''"
    by (simp_all add: sample_facts)
  have g: "http_get ?w (qr_service_url (''attendance://'' @ fresh_id ?w)) = Inr ''PNG''"
    by (simp add: w qr_service_url_def encodeURIComponent_def uri_unreserved_def hex_upper_def)
  have cjs: "body (student_request None) = Some sample_student"
    "truthy (js_prop sample_student ''name'')" "truthy (js_prop sample_student ''username'')"
    "truthy (js_prop sample_student ''matric_number'')" "truthy (js_prop sample_student ''email'')"
    "fault ?w (create_student_call sample_student) = None"
    by (simp_all add: sample_facts sample_student_def js_prop_def)
  have up: "fault ?w (StUpload ''qr-codes'' (''qr-codes/'' @ fresh_id ?w @ ''.png'')
        (FileBytes ''PNG'') ''image/png'') = None"
    "\<And>p d t. fault ?w (StUpload ''student-photos'' p d t) = None"
    by (simp_all add: sample_facts)
  note ok = cjs_student_ok [where cfg = sample_config and st = empty_store, OF cjs up(2) g up(1)]
  have s4: "status (fst (post_api_create_student_part001_cjs sample_config ?w
        (student_request None) empty_store)) = 200"
    by (rule ok(1))
  have r4: "uploads_to ''qr-codes'' (new_calls empty_store (snd (post_api_create_student_part001_cjs
        sample_config ?w (student_request None) empty_store))) = [(''qr-codes/s 1.png'', FileBytes ''PNG'')]"
    using ok(2) by (simp add: w)
  show ?thesis
    by (rule conjI [OF s0 conjI [OF r0 conjI [OF link conjI [OF quoted conjI [OF s4 r4]]]]])
qed

end
